theory Spec2Isabelle
  imports Main "HOL-Library.AList" "HOL-Library.Char_ord" "HOL-Library.List_Lexorder"
begin

section \<open>Go string helpers used by the extension managers\<close>

type_synonym path = string
type_synonym bytes = string

text \<open>
  Go strings are byte sequences; \<^typ>\<open>string\<close> is a list of 8-bit characters, so a
  character here is one byte of the Go string.
\<close>

text \<open>
  \<^verbatim>\<open>strings.TrimSpace\<close> removes the leading and the trailing runes that are white space
  as \<^verbatim>\<open>unicode.IsSpace\<close> defines it: the six ASCII characters, U+0085 and U+00A0 (two
  bytes in UTF-8) and U+1680, U+2000 to U+200A, U+2028, U+2029, U+202F, U+205F and
  U+3000 (three bytes).
\<close>

definition asciiSpace :: "char \<Rightarrow> bool" where
  "asciiSpace c = (c \<in> set [CHR 0x09, CHR 0x0A, CHR 0x0B, CHR 0x0C, CHR 0x0D, CHR 0x20])"

definition spaceRune2 :: "char \<Rightarrow> char \<Rightarrow> bool" where
  "spaceRune2 a b = (a = CHR 0xC2 \<and> (b = CHR 0x85 \<or> b = CHR 0xA0))"

definition spaceRune3 :: "char \<Rightarrow> char \<Rightarrow> char \<Rightarrow> bool" where
  "spaceRune3 a b c =
     ((a = CHR 0xE1 \<and> b = CHR 0x9A \<and> c = CHR 0x80) \<or>
      (a = CHR 0xE2 \<and> b = CHR 0x80 \<and>
         c \<in> set [CHR 0x80, CHR 0x81, CHR 0x82, CHR 0x83, CHR 0x84, CHR 0x85, CHR 0x86,
                  CHR 0x87, CHR 0x88, CHR 0x89, CHR 0x8A, CHR 0xA8, CHR 0xA9, CHR 0xAF]) \<or>
      (a = CHR 0xE2 \<and> b = CHR 0x81 \<and> c = CHR 0x9F) \<or>
      (a = CHR 0xE3 \<and> b = CHR 0x80 \<and> c = CHR 0x80))"

fun TrimLeftSpace :: "string \<Rightarrow> string" where
  "TrimLeftSpace [] = []"
| "TrimLeftSpace [a] = (if asciiSpace a then [] else [a])"
| "TrimLeftSpace [a, b] =
     (if asciiSpace a then TrimLeftSpace [b] else if spaceRune2 a b then [] else [a, b])"
| "TrimLeftSpace (a # b # c # rest) =
     (if asciiSpace a then TrimLeftSpace (b # c # rest)
      else if spaceRune2 a b then TrimLeftSpace (c # rest)
      else if spaceRune3 a b c then TrimLeftSpace rest
      else a # b # c # rest)"

text \<open>The same from the end, on the reversed string.\<close>

fun TrimRightSpaceRev :: "string \<Rightarrow> string" where
  "TrimRightSpaceRev [] = []"
| "TrimRightSpaceRev [c] = (if asciiSpace c then [] else [c])"
| "TrimRightSpaceRev [c, b] =
     (if asciiSpace c then TrimRightSpaceRev [b] else if spaceRune2 b c then [] else [c, b])"
| "TrimRightSpaceRev (c # b # a # rest) =
     (if asciiSpace c then TrimRightSpaceRev (b # a # rest)
      else if spaceRune2 b c then TrimRightSpaceRev (a # rest)
      else if spaceRune3 a b c then TrimRightSpaceRev rest
      else c # b # a # rest)"

definition TrimSpace :: "string \<Rightarrow> string" where
  "TrimSpace s = rev (TrimRightSpaceRev (rev (TrimLeftSpace s)))"

text \<open>The test \<^verbatim>\<open>strings.TrimSpace(s) == ""\<close>.\<close>

definition isBlank :: "string \<Rightarrow> bool" where
  "isBlank s = (TrimSpace s = [])"

text \<open>\<^verbatim>\<open>strings.ContainsAny(s, chars)\<close> for ASCII \<open>chars\<close>.\<close>

definition ContainsAny :: "string \<Rightarrow> string \<Rightarrow> bool" where
  "ContainsAny s chars = list_ex (\<lambda>c. c \<in> set chars) s"

text \<open>
  \<^verbatim>\<open>string(os.PathSeparator) + "/\\"\<close>: the separator is \<open>/\<close> on Unix and \<open>\\<close> on Windows,
  so on either platform the set of bytes is the same.
\<close>

definition pathSeparators :: string where
  "pathSeparators = [CHR ''/'', CHR ''/'', CHR 0x5C]"

definition HasPrefix :: "string \<Rightarrow> string \<Rightarrow> bool" where
  "HasPrefix s p = (take (length p) s = p)"

text \<open>
  \<^verbatim>\<open>strings.ToLower\<close> on the ASCII letters. Go lower-cases every Unicode letter; no
  letter outside ASCII has a lower case among \<open>0-9a-f\<close>, so for the checksum pattern
  below only the ASCII letters matter.
\<close>

definition lowerByte :: "char \<Rightarrow> char" where
  "lowerByte c =
     (case map_of (zip ''ABCDEFGHIJKLMNOPQRSTUVWXYZ'' ''abcdefghijklmnopqrstuvwxyz'') c of
        Some l \<Rightarrow> l
      | None \<Rightarrow> c)"

definition ToLower :: "string \<Rightarrow> string" where
  "ToLower s = map lowerByte s"

text \<open>\<^verbatim>\<open>strings.EqualFold\<close>, on the ASCII letters.\<close>

definition EqualFold :: "string \<Rightarrow> string \<Rightarrow> bool" where
  "EqualFold s t = (ToLower s = ToLower t)"

text \<open>
  \<^verbatim>\<open>regexp.MatchString("^[a-f0-9]{64}$", s)\<close>: without the multi-line flag \<open>$\<close> is the
  end of the text, so the whole string is 64 characters of the class.
\<close>

definition lowerHexDigit :: "char \<Rightarrow> bool" where
  "lowerHexDigit c = (c \<in> set ''abcdef0123456789'')"

definition matchSha256 :: "string \<Rightarrow> bool" where
  "matchSha256 s = (length s = 64 \<and> list_all lowerHexDigit s)"

section \<open>URLs\<close>

text \<open>
  The fields of \<^verbatim>\<open>net/url.URL\<close> the managers read, and the result of its
  \<^verbatim>\<open>String()\<close> method. The parsers themselves
  (\<^verbatim>\<open>url.ParseRequestURI\<close>, \<^verbatim>\<open>url.Parse\<close>) belong to the Go standard library and are
  parameters of the model.
\<close>

record URL =
  Scheme :: string
  Host :: string
  url_String :: string

definition IsAbs :: "URL \<Rightarrow> bool" where
  "IsAbs u = (Scheme u \<noteq> [])"

section \<open>Theme metadata and its validation (package themes, types)\<close>

record AuthorDetail =
  author_Name :: string
  author_Email :: string
  author_URL :: string

text \<open>
  A value of the dynamically typed \<^verbatim>\<open>map[string]interface{}\<close> structure tree: an
  \<^verbatim>\<open>AssetDetail{URL, Sum}\<close> struct, a nested map, a string, or a value of any other type.
  A map is the list of its pairs in the order the \<^verbatim>\<open>range\<close> loop happens to visit them.
\<close>

datatype node =
    AssetDetail string string
  | MapV "(string \<times> node) list"
  | StringV string
  | OtherV

type_synonym structure_map = "(string \<times> node) list"

record ThemeMetadata =
  tm_Name :: string
  tm_Authors :: "AuthorDetail list"
  tm_Version :: string
  tm_Description :: string
  tm_SourceLink :: string
  tm_Structure :: structure_map
  tm_InstalledAt :: string
  tm_LastUpdatedAt :: string

datatype structure_error =
    NameEmpty
  | NameInvalid string
  | AssetURLEmpty string
  | AssetURLInvalid string string
  | AssetURLNoScheme string string
  | AssetURLNoHost string string
  | AssetSumEmpty string
  | AssetSumFormat string
  | InSubDirectory string structure_error
  | InMalformedAsset string structure_error
  | InvalidType string

datatype validation_error =
    ThemeNameRequired
  | AuthorsRequired
  | AuthorEmpty nat
  | VersionRequired
  | DescriptionRequired
  | SourceLinkRequired
  | SourceLinkInvalid string
  | SourceLinkScheme string string
  | APIVersionRequired
  | StructureRequired
  | InvalidStructure structure_error
  | EndpointInvalid string
  | DependencyInvalid string

text \<open>
  How the code reads a nested map: as an asset when it has the keys \<open>url\<close> and \<open>sum\<close>
  and both values are strings, as a sub-directory otherwise.
\<close>

definition assetOfMap :: "structure_map \<Rightarrow> (string \<times> string) option" where
  "assetOfMap m =
     (case (map_of m ''url'', map_of m ''sum'') of
        (Some (StringV urlString), Some (StringV sumString)) \<Rightarrow> Some (urlString, sumString)
      | _ \<Rightarrow> None)"

text \<open>The key check at the head of the loop body of \<^verbatim>\<open>validateStructureContent\<close>.\<close>

definition validateKey :: "string \<Rightarrow> structure_error option" where
  "validateKey key =
     (if isBlank key then Some NameEmpty
      else if ContainsAny key pathSeparators \<or> key = ''.'' \<or> key = ''..''
      then Some (NameInvalid key)
      else None)"

text \<open>The checks on one asset, shared by the struct case and the map case.\<close>

definition validateAsset ::
  "(string \<Rightarrow> URL option) \<Rightarrow> string \<Rightarrow> string \<Rightarrow> string \<Rightarrow> structure_error option" where
  "validateAsset ParseRequestURI key url sumString =
     (if isBlank url then Some (AssetURLEmpty key)
      else case ParseRequestURI url of
        None \<Rightarrow> Some (AssetURLInvalid key url)
      | Some parsedURL \<Rightarrow>
          if Scheme parsedURL = [] then Some (AssetURLNoScheme key url)
          else if Scheme parsedURL \<noteq> ''file'' \<and> Host parsedURL = []
          then Some (AssetURLNoHost key url)
          else if isBlank sumString then Some (AssetSumEmpty key)
          else if \<not> matchSha256 (ToLower sumString) then Some (AssetSumFormat key)
          else None)"

fun validateStructureContent ::
    "(string \<Rightarrow> URL option) \<Rightarrow> structure_map \<Rightarrow> structure_error option"
  and validateValue ::
    "(string \<Rightarrow> URL option) \<Rightarrow> string \<Rightarrow> node \<Rightarrow> structure_error option" where
  "validateStructureContent P [] = None"
| "validateStructureContent P ((key, v) # rest) =
     (case validateKey key of
        Some e \<Rightarrow> Some e
      | None \<Rightarrow>
          (case validateValue P key v of
             Some e \<Rightarrow> Some e
           | None \<Rightarrow> validateStructureContent P rest))"
| "validateValue P key (AssetDetail url sumString) = validateAsset P key url sumString"
| "validateValue P key (MapV m) =
     (case assetOfMap m of
        Some (urlString, sumString) \<Rightarrow> validateAsset P key urlString sumString
      | None \<Rightarrow>
          if map_of m ''url'' \<noteq> None \<and> map_of m ''sum'' \<noteq> None
          then map_option (InMalformedAsset key) (validateStructureContent P m)
          else map_option (InSubDirectory key) (validateStructureContent P m))"
| "validateValue P key (StringV s) = Some (InvalidType key)"
| "validateValue P key OtherV = Some (InvalidType key)"

definition themes_Validate ::
  "(string \<Rightarrow> URL option) \<Rightarrow> ThemeMetadata \<Rightarrow> validation_error option" where
  "themes_Validate P m =
     (if isBlank (tm_Name m) then Some ThemeNameRequired
      else if tm_Authors m = [] then Some AuthorsRequired
      else case find (\<lambda>i. isBlank (author_Name (tm_Authors m ! i))) [0..<length (tm_Authors m)] of
        Some i \<Rightarrow> Some (AuthorEmpty i)
      | None \<Rightarrow>
          if isBlank (tm_Version m) then Some VersionRequired
          else if isBlank (tm_Description m) then Some DescriptionRequired
          else if isBlank (tm_SourceLink m) then Some SourceLinkRequired
          else case P (tm_SourceLink m) of
            None \<Rightarrow> Some (SourceLinkInvalid (tm_SourceLink m))
          | Some parsedSourceLink \<Rightarrow>
              if Scheme parsedSourceLink \<noteq> ''http'' \<and> Scheme parsedSourceLink \<noteq> ''https''
              then Some (SourceLinkScheme (Scheme parsedSourceLink) (tm_SourceLink m))
              else if tm_Structure m = [] then Some StructureRequired
              else map_option InvalidStructure (validateStructureContent P (tm_Structure m)))"

section \<open>The world outside the program\<close>

text \<open>
  Every operation that changes the file system is recorded, in order, in the trace of
  the world it ran in, whether it succeeded or not. \<open>SaveState st\<close> stands for one call
  of \<^verbatim>\<open>configuration.SaveThemesState\<close> (or its plugin and command siblings) with the
  map \<open>st\<close>; the bytes it writes are the subject of the last section. Log lines are
  not modelled.
\<close>

datatype 's event =
    MkdirAll path
  | RemoveAll path
  | Remove path
  | Create path
  | Copy path bytes
  | Close path
  | WriteFile path bytes
  | SaveState 's

record ('s, 'c) world =
  trace :: "'s event list"
  persisted :: 's
  cache :: 'c

datatype io_result = IoOk | IoNotExist | IoError

datatype stat_result = StatOk | StatNotExist | StatError

text \<open>
  An HTTP response: a transport error, or a status code, the body and whether the
  body could be read to its end.
\<close>

datatype http_response = HttpError | HttpResponse nat bytes bool

datatype read_op = OpenFile path | HashFile path | LoadState

text \<open>
  What the program cannot decide itself: the Go standard library's URL and path
  functions, the YAML and JSON codecs, the hash function, the network, the clock, the
  random part of a generated ID (\<^verbatim>\<open>generateRandomString\<close>, which may fail), and whether
  each file operation succeeds. The answers of the
  environment may depend on everything done so far (the trace). \<open>scanLines\<close> is the
  \<^verbatim>\<open>bufio.Scanner\<close> of the command parser: the lines its \<^verbatim>\<open>Scan\<close> calls deliver and
  whether \<^verbatim>\<open>Err()\<close> is set at the end.
\<close>

record ('s, 'c, 'm) sys =
  ParseRequestURI :: "string \<Rightarrow> URL option"
  Parse :: "string \<Rightarrow> URL option"
  ParseRef :: "URL \<Rightarrow> string \<Rightarrow> URL option"
  ResolveReference :: "URL \<Rightarrow> URL \<Rightarrow> URL"
  Join :: "path \<Rightarrow> path \<Rightarrow> path"
  Abs :: "path \<Rightarrow> path option"
  Clean :: "path \<Rightarrow> path"
  Dir :: "path \<Rightarrow> path"
  Base :: "path \<Rightarrow> path"
  httpGet :: "'s event list \<Rightarrow> string \<Rightarrow> http_response"
  Stat :: "'s event list \<Rightarrow> path \<Rightarrow> stat_result"
  ReadFile :: "'s event list \<Rightarrow> path \<Rightarrow> bytes option"
  readFails :: "'s event list \<Rightarrow> read_op \<Rightarrow> bool"
  io :: "'s event list \<Rightarrow> 's event \<Rightarrow> io_result"
  sha256hex :: "bytes \<Rightarrow> string"
  now :: "'s event list \<Rightarrow> string"
  generateRandomString :: "'s event list \<Rightarrow> string option"
  yamlUnmarshal :: "bytes \<Rightarrow> 'm option"
  jsonMarshalIndent :: "'m \<Rightarrow> bytes option"
  jsonUnmarshal :: "bytes \<Rightarrow> 'm option"
  discover :: "'s event list \<Rightarrow> 'c"
  scanLines :: "bytes \<Rightarrow> string list \<times> bool"

text \<open>
  The ID generator (package utils): \<^verbatim>\<open>Generate\<close> returns \<^verbatim>\<open>prefix + "_" + randomPart\<close>, or
  the error of the random source.
\<close>

definition Generate :: "('s, 'c, 'm) sys \<Rightarrow> string \<Rightarrow> 's event list \<Rightarrow> string option" where
  "Generate E prefix t =
     (case generateRandomString E t of
        None \<Rightarrow> None
      | Some randomPart \<Rightarrow> Some (prefix @ ''_'' @ randomPart))"

definition ThemeID :: "('s, 'c, 'm) sys \<Rightarrow> 's event list \<Rightarrow> string option" where
  "ThemeID E t = Generate E ''thm'' t"

definition PluginID :: "('s, 'c, 'm) sys \<Rightarrow> 's event list \<Rightarrow> string option" where
  "PluginID E t = Generate E ''plg'' t"

text \<open>\<^verbatim>\<open>os.PathSeparator\<close> of a Unix build.\<close>

definition PathSeparator :: string where
  "PathSeparator = ''/''"

text \<open>One file operation: the environment decides its result, the trace records it.\<close>

definition perform ::
  "('s, 'c, 'm) sys \<Rightarrow> 's event \<Rightarrow> ('s, 'c) world \<Rightarrow> io_result \<times> ('s, 'c) world" where
  "perform E ev w = (io E (trace w) ev, w\<lparr>trace := trace w @ [ev]\<rparr>)"

text \<open>
  \<^verbatim>\<open>configuration.Save...State(st)\<close>: when it succeeds the state file holds \<open>st\<close>.
\<close>

definition SaveStateOp ::
  "('s, 'c, 'm) sys \<Rightarrow> 's \<Rightarrow> ('s, 'c) world \<Rightarrow> bool \<times> ('s, 'c) world" where
  "SaveStateOp E st w =
     (if io E (trace w) (SaveState st) = IoOk
      then (True, w\<lparr>trace := trace w @ [SaveState st], persisted := st\<rparr>)
      else (False, w\<lparr>trace := trace w @ [SaveState st]\<rparr>))"

text \<open>\<^verbatim>\<open>configuration.Load...State()\<close>: the map in the state file, or an error.\<close>

definition LoadStateOp :: "('s, 'c, 'm) sys \<Rightarrow> ('s, 'c) world \<Rightarrow> 's option" where
  "LoadStateOp E w = (if readFails E (trace w) LoadState then None else Some (persisted w))"

text \<open>
  The containment check every manager repeats:
  \<^verbatim>\<open>!strings.HasPrefix(absTarget, absBase+string(os.PathSeparator)) && absTarget != absBase\<close>.
\<close>

definition outsideBase :: "path \<Rightarrow> path \<Rightarrow> bool" where
  "outsideBase absTarget absBase =
     (\<not> HasPrefix absTarget (absBase @ PathSeparator) \<and> absTarget \<noteq> absBase)"

definition isHTTP :: "URL option \<Rightarrow> bool" where
  "isHTTP u = (case u of None \<Rightarrow> False | Some p \<Rightarrow> Scheme p = ''http'' \<or> Scheme p = ''https'')"

section \<open>The theme manager (package themes, manager)\<close>

record InstalledThemeEntry =
  ThmID :: string
  te_Name :: string
  te_Version :: string
  te_SourceLink :: string
  te_InstalledAt :: string
  te_LastUpdatedAt :: string

text \<open>
  A state map \<^verbatim>\<open>map[string]InstalledThemeEntry\<close>, as the list of its pairs in the order
  a \<^verbatim>\<open>range\<close> loop happens to visit them.
\<close>

type_synonym themes_state = "(string \<times> InstalledThemeEntry) list"

type_synonym themes_cache = "(string \<times> ThemeMetadata) list"

type_synonym themes_world = "(themes_state, themes_cache) world"

type_synonym themes_sys = "(themes_state, themes_cache, ThemeMetadata) sys"

datatype ActionType = ActionInstallNew | ActionOverwrite | ActionErrorExists | ActionErrorConflict

definition defaultThemeDir :: path where
  "defaultThemeDir = ''ext/themes''"

datatype fetch_error =
    FetchTransport string
  | FetchStatus string nat
  | FetchRead string
  | FetchTooLarge string nat
  | FetchAbs string
  | FetchNotFound string
  | FetchStat string
  | FetchLocalRead string

datatype download_error =
    AssetURLParseError string string
  | DownloadFailed string string
  | DownloadStatus string string nat
  | MkdirParentFailed path
  | CreateFailed path
  | SaveFailed string path
  | CloseFailed path
  | OpenForChecksumFailed path
  | HashFailed path
  | ChecksumMismatch string string string
  | SubDirectoryFailed path
  | UnknownType string

text \<open>The step of \<^verbatim>\<open>Update\<close> at which an inner error is wrapped.\<close>

datatype stage = AtFetch | AtLatestReload | AtOlderReload | AtPrepare | AtDownload | AtWrite
  | AtRemoveDirectory

text \<open>
  The errors the three managers return. Go builds them with \<^verbatim>\<open>fmt.Errorf\<close>; a
  constructor stands for one format string, with the values the message carries that
  matter here, and with the wrapped error where the format has \<^verbatim>\<open>%w\<close>.
\<close>

datatype manager_error =
    FetchFailed fetch_error
  | ParseFailed
  | InvalidMetadata string validation_error
  | LoadStateFailed
  | ErrThemeAlreadyExistsNoForce
  | AlreadyExists string string
  | FilenameConflict string
  | InvalidCommandName string
  | InvalidCommandMetadata
  | EmptySourceLink
  | IDGenerationFailed string
  | RemoveExistingFailed path
  | UnexpectedAction
  | AbsPathFailed path
  | OutsideBaseDirectory string
  | CreateDirectoryFailed path
  | DownloadStructureFailed string download_error
  | MarshalFailed string
  | WriteLocalFailed path
  | SaveStateFailed string
  | StateNotSaved string manager_error
  | NotFoundInState string
  | NoSourceLink string
  | LocalJSONNotFound path
  | LocalJSONReadFailed path
  | LocalJSONParseFailed path
  | During stage string manager_error
  | RemoveFailed path
  | NotManaged string
  | NotFoundAfterDiscovery string

text \<open>
  \<^verbatim>\<open>fetchThemeYAML\<close>: the bytes of the definition, the parsed source URL when the source
  is remote, and whether the source is local.
\<close>

definition fetchThemeYAML ::
  "('s, 'c, 'm) sys \<Rightarrow> string \<Rightarrow> ('s, 'c) world \<Rightarrow> fetch_error + (bytes \<times> URL option \<times> bool)" where
  "fetchThemeYAML E source w =
     (if isHTTP (Parse E source) then
        (case httpGet E (trace w) source of
           HttpError \<Rightarrow> Inl (FetchTransport source)
         | HttpResponse status body readOk \<Rightarrow>
             if status \<noteq> 200 then Inl (FetchStatus source status)
             else if \<not> readOk then Inl (FetchRead source)
             else Inr (body, Parse E source, False))
      else
        (case Abs E source of
           None \<Rightarrow> Inl (FetchAbs source)
         | Some absSourcePath \<Rightarrow>
             if Stat E (trace w) absSourcePath = StatNotExist then Inl (FetchNotFound absSourcePath)
             else case ReadFile E (trace w) absSourcePath of
               None \<Rightarrow> Inl (FetchLocalRead absSourcePath)
             | Some yamlData \<Rightarrow> Inr (yamlData, None, True)))"

definition fetchAndValidateDefinition ::
  "themes_sys \<Rightarrow> string \<Rightarrow> themes_world \<Rightarrow> manager_error + (ThemeMetadata \<times> URL option \<times> bool)" where
  "fetchAndValidateDefinition E source w =
     (case fetchThemeYAML E source w of
        Inl fetchErr \<Rightarrow> Inl (FetchFailed fetchErr)
      | Inr (yamlData, parsedSourceURL, isLocalSource) \<Rightarrow>
          (case yamlUnmarshal E yamlData of
             None \<Rightarrow> Inl ParseFailed
           | Some m \<Rightarrow>
               (case themes_Validate (ParseRequestURI E) m of
                  Some validateErr \<Rightarrow> Inl (InvalidMetadata (tm_Name m) validateErr)
                | None \<Rightarrow> Inr (m, parsedSourceURL, isLocalSource))))"

text \<open>
  The first loop of \<^verbatim>\<open>_determineInstallAction\<close>: the key of the first entry, in
  iteration order, with the manifest's source link and version; the empty string when
  the loop ends without one.
\<close>

definition exactMatchDir :: "ThemeMetadata \<Rightarrow> themes_state \<Rightarrow> string" where
  "exactMatchDir meta themesState =
     (case find (\<lambda>(localDir, entry). te_SourceLink entry = tm_SourceLink meta \<and>
                                     te_Version entry = tm_Version meta) themesState of
        Some (localDir, entry) \<Rightarrow> localDir
      | None \<Rightarrow> [])"

definition determineInstallAction ::
  "ThemeMetadata \<Rightarrow> bool \<Rightarrow> themes_state \<Rightarrow> ActionType \<times> string \<times> manager_error option" where
  "determineInstallAction meta force themesState =
     (let existingLocalDirForExactMatch = exactMatchDir meta themesState in
      if existingLocalDirForExactMatch \<noteq> [] then
        (if \<not> force
         then (ActionErrorExists, existingLocalDirForExactMatch, Some ErrThemeAlreadyExistsNoForce)
         else (ActionOverwrite, existingLocalDirForExactMatch, None))
      else (ActionInstallNew, [], None))"

text \<open>
  The tail of \<^verbatim>\<open>_prepareDirectoryForInstall\<close>, from the computation of the full path:
  the containment check and the creation of the directory.
\<close>

definition checkAndCreateDirectory ::
  "themes_sys \<Rightarrow> string \<Rightarrow> ThemeMetadata \<Rightarrow> themes_world \<Rightarrow>
     (manager_error + (path \<times> string \<times> ThemeMetadata)) \<times> themes_world" where
  "checkAndCreateDirectory E actualDirName meta w =
     (let fullThemePath = Join E defaultThemeDir actualDirName in
      case Abs E defaultThemeDir of
        None \<Rightarrow> (Inl (AbsPathFailed defaultThemeDir), w)
      | Some absThemeDir \<Rightarrow>
          (case Abs E fullThemePath of
             None \<Rightarrow> (Inl (AbsPathFailed fullThemePath), w)
           | Some absTargetThemePath \<Rightarrow>
               if outsideBase absTargetThemePath absThemeDir
               then (Inl (OutsideBaseDirectory actualDirName), w)
               else (case perform E (MkdirAll fullThemePath) w of
                       (IoOk, w') \<Rightarrow> (Inr (fullThemePath, actualDirName, meta), w')
                     | (_, w') \<Rightarrow> (Inl (CreateDirectoryFailed fullThemePath), w'))))"

definition prepareDirectoryForInstall ::
  "themes_sys \<Rightarrow> string \<Rightarrow> ThemeMetadata \<Rightarrow> ActionType \<Rightarrow> themes_state \<Rightarrow> string \<Rightarrow>
     themes_world \<Rightarrow> (manager_error + (path \<times> string \<times> ThemeMetadata)) \<times> themes_world" where
  "prepareDirectoryForInstall E initialTargetDirName meta action themesState currentTime w =
     (if action = ActionInstallNew then
        (case ThemeID E (trace w) of
           None \<Rightarrow> (Inl (IDGenerationFailed (tm_Name meta)), w)
         | Some newDirID \<Rightarrow>
             checkAndCreateDirectory E newDirID (meta\<lparr>tm_InstalledAt := currentTime\<rparr>) w)
      else if action = ActionOverwrite then
        (let actualDirName = initialTargetDirName;
             meta' = (case map_of themesState actualDirName of
                        Some existingStateEntry \<Rightarrow>
                          if te_InstalledAt existingStateEntry \<noteq> []
                          then meta\<lparr>tm_InstalledAt := te_InstalledAt existingStateEntry\<rparr>
                          else meta\<lparr>tm_InstalledAt := currentTime\<rparr>
                      | None \<Rightarrow> meta\<lparr>tm_InstalledAt := currentTime\<rparr>);
             fullThemePath = Join E defaultThemeDir actualDirName
         in case perform E (RemoveAll fullThemePath) w of
              (IoOk, w') \<Rightarrow> checkAndCreateDirectory E actualDirName meta' w'
            | (_, w') \<Rightarrow> (Inl (RemoveExistingFailed fullThemePath), w'))
      else (Inl UnexpectedAction, w))"

text \<open>
  The steps \<^verbatim>\<open>downloadAndSaveStructure\<close> takes for one asset (the code has them twice,
  for the struct and for the map with string \<open>url\<close> and \<open>sum\<close>): resolve the URL,
  download, create the parent directory and the file, copy the body, close, reopen,
  hash and compare. The file holds the body once the copy has succeeded, so the hash
  is the hash of the body.
\<close>

definition verifyChecksum ::
  "('s, 'c, 'm) sys \<Rightarrow> path \<Rightarrow> string \<Rightarrow> string \<Rightarrow> bytes \<Rightarrow> ('s, 'c) world \<Rightarrow>
     download_error option \<times> ('s, 'c) world" where
  "verifyChecksum E currentSavePath name sumString body w =
     (if readFails E (trace w) (OpenFile currentSavePath)
      then (Some (OpenForChecksumFailed currentSavePath), snd (perform E (Remove currentSavePath) w))
      else if readFails E (trace w) (HashFile currentSavePath)
      then (Some (HashFailed currentSavePath), snd (perform E (Remove currentSavePath) w))
      else
        (let calculatedSum = sha256hex E body in
         if \<not> EqualFold calculatedSum sumString
         then (Some (ChecksumMismatch name sumString calculatedSum),
               snd (perform E (Remove currentSavePath) w))
         else (None, w)))"

definition saveAndVerify ::
  "('s, 'c, 'm) sys \<Rightarrow> path \<Rightarrow> string \<Rightarrow> string \<Rightarrow> bytes \<Rightarrow> bool \<Rightarrow> ('s, 'c) world \<Rightarrow>
     download_error option \<times> ('s, 'c) world" where
  "saveAndVerify E currentSavePath name sumString body readOk w =
     (case perform E (MkdirAll (Dir E currentSavePath)) w of
        (IoOk, w1) \<Rightarrow>
          (case perform E (Create currentSavePath) w1 of
             (IoOk, w2) \<Rightarrow>
               (let (copyRes, w3) = perform E (Copy currentSavePath body) w2;
                    (closeRes, w4) = perform E (Close currentSavePath) w3
                in if \<not> readOk \<or> copyRes \<noteq> IoOk
                   then (Some (SaveFailed name currentSavePath),
                         snd (perform E (Remove currentSavePath) w4))
                   else if closeRes \<noteq> IoOk then (Some (CloseFailed currentSavePath), w4)
                   else verifyChecksum E currentSavePath name sumString body w4)
           | (_, w2) \<Rightarrow> (Some (CreateFailed currentSavePath), w2))
      | (_, w1) \<Rightarrow> (Some (MkdirParentFailed currentSavePath), w1))"

text \<open>
  The URL an asset is downloaded from: the asset's own URL, resolved against the base
  URL when there is one and the asset's URL is relative; \<open>None\<close> when it does not parse.
\<close>

definition resolveAssetURL :: "('s, 'c, 'm) sys \<Rightarrow> string \<Rightarrow> URL option \<Rightarrow> string option" where
  "resolveAssetURL E urlString baseURL =
     (case baseURL of
        None \<Rightarrow> Some urlString
      | Some base \<Rightarrow>
          (case Parse E urlString of
             None \<Rightarrow> None
           | Some parsedItemURL \<Rightarrow>
               if \<not> IsAbs parsedItemURL
               then Some (url_String (ResolveReference E base parsedItemURL))
               else Some urlString))"

definition downloadAsset ::
  "('s, 'c, 'm) sys \<Rightarrow> path \<Rightarrow> string \<Rightarrow> string \<Rightarrow> string \<Rightarrow> URL option \<Rightarrow> ('s, 'c) world \<Rightarrow>
     download_error option \<times> ('s, 'c) world" where
  "downloadAsset E currentSavePath name urlString sumString baseURL w =
     (case resolveAssetURL E urlString baseURL of
        None \<Rightarrow> (Some (AssetURLParseError urlString name), w)
      | Some resolvedFileURLString \<Rightarrow>
          (case httpGet E (trace w) resolvedFileURLString of
             HttpError \<Rightarrow> (Some (DownloadFailed name resolvedFileURLString), w)
           | HttpResponse status body readOk \<Rightarrow>
               if status \<noteq> 200 then (Some (DownloadStatus name resolvedFileURLString status), w)
               else saveAndVerify E currentSavePath name sumString body readOk w))"

fun downloadAndSaveStructure ::
    "('s, 'c, 'm) sys \<Rightarrow> path \<Rightarrow> structure_map \<Rightarrow> URL option \<Rightarrow> ('s, 'c) world \<Rightarrow>
       download_error option \<times> ('s, 'c) world"
  and downloadItem ::
    "('s, 'c, 'm) sys \<Rightarrow> path \<Rightarrow> string \<Rightarrow> node \<Rightarrow> URL option \<Rightarrow> ('s, 'c) world \<Rightarrow>
       download_error option \<times> ('s, 'c) world" where
  "downloadAndSaveStructure E baseSavePath [] baseURL w = (None, w)"
| "downloadAndSaveStructure E baseSavePath ((name, item) # rest) baseURL w =
     (case downloadItem E (Join E baseSavePath name) name item baseURL w of
        (Some err, w') \<Rightarrow> (Some err, w')
      | (None, w') \<Rightarrow> downloadAndSaveStructure E baseSavePath rest baseURL w')"
| "downloadItem E currentSavePath name (AssetDetail urlString sumString) baseURL w =
     downloadAsset E currentSavePath name urlString sumString baseURL w"
| "downloadItem E currentSavePath name (MapV mapItem) baseURL w =
     (case assetOfMap mapItem of
        Some (urlString, sumString) \<Rightarrow>
          downloadAsset E currentSavePath name urlString sumString baseURL w
      | None \<Rightarrow>
          (case perform E (MkdirAll currentSavePath) w of
             (IoOk, w') \<Rightarrow> downloadAndSaveStructure E currentSavePath mapItem baseURL w'
           | (_, w') \<Rightarrow> (Some (SubDirectoryFailed currentSavePath), w')))"
| "downloadItem E currentSavePath name (StringV v) baseURL w = (Some (UnknownType name), w)"
| "downloadItem E currentSavePath name OtherV baseURL w = (Some (UnknownType name), w)"

definition downloadThemeAssets ::
  "themes_sys \<Rightarrow> path \<Rightarrow> ThemeMetadata \<Rightarrow> URL option \<Rightarrow> bool \<Rightarrow> themes_world \<Rightarrow>
     manager_error option \<times> themes_world" where
  "downloadThemeAssets E themePath meta parsedSourceURL isLocalSource w =
     (let baseURLForStructure = (if \<not> isLocalSource then parsedSourceURL else None) in
      case downloadAndSaveStructure E themePath (tm_Structure meta) baseURLForStructure w of
        (Some err, w') \<Rightarrow> (Some (DownloadStructureFailed (tm_Name meta) err), w')
      | (None, w') \<Rightarrow> (None, w'))"

definition writeLocalThemeJSON ::
  "themes_sys \<Rightarrow> path \<Rightarrow> ThemeMetadata \<Rightarrow> themes_world \<Rightarrow> manager_error option \<times> themes_world" where
  "writeLocalThemeJSON E themePath meta w =
     (case jsonMarshalIndent E meta of
        None \<Rightarrow> (Some (MarshalFailed (tm_Name meta)), w)
      | Some jsonData \<Rightarrow>
          (let localMetaPath = Join E themePath ''theme.json'' in
           case perform E (WriteFile localMetaPath jsonData) w of
             (IoOk, w') \<Rightarrow> (None, w')
           | (_, w') \<Rightarrow> (Some (WriteLocalFailed localMetaPath), w')))"

definition updateGlobalThemesState ::
  "themes_sys \<Rightarrow> string \<Rightarrow> InstalledThemeEntry \<Rightarrow> themes_world \<Rightarrow>
     manager_error option \<times> themes_world" where
  "updateGlobalThemesState E themeID entryData w =
     (case LoadStateOp E w of
        None \<Rightarrow> (Some LoadStateFailed, w)
      | Some currentThemesState \<Rightarrow>
          (case SaveStateOp E (AList.update themeID entryData currentThemesState) w of
             (True, w') \<Rightarrow> (None, w')
           | (False, w') \<Rightarrow> (Some (SaveStateFailed themeID), w')))"

text \<open>\<^verbatim>\<open>tm.discoverThemesLocked()\<close>: the cache is rebuilt from what is on disk.\<close>

definition discoverThemesLocked :: "themes_sys \<Rightarrow> themes_world \<Rightarrow> themes_world" where
  "discoverThemesLocked E w = w\<lparr>cache := discover E (trace w)\<rparr>"

text \<open>
  When the download or the local manifest fails, \<^verbatim>\<open>Install\<close> removes the directory of a
  new installation; the result of the removal is only logged.
\<close>

definition cleanupNew :: "themes_sys \<Rightarrow> ActionType \<Rightarrow> path \<Rightarrow> themes_world \<Rightarrow> themes_world" where
  "cleanupNew E action themePath w =
     (if action = ActionInstallNew then snd (perform E (RemoveAll themePath) w) else w)"

type_synonym theme_result = "(ThemeMetadata option \<times> manager_error option) \<times> themes_world"

definition themes_Install :: "themes_sys \<Rightarrow> string \<Rightarrow> bool \<Rightarrow> themes_world \<Rightarrow> theme_result" where
  "themes_Install E source force w =
     (case fetchAndValidateDefinition E source w of
        Inl err \<Rightarrow> ((None, Some err), w)
      | Inr (meta0, parsedSourceURL, isLocalSource) \<Rightarrow>
          (case LoadStateOp E w of
             None \<Rightarrow> ((None, Some LoadStateFailed), w)
           | Some themesState \<Rightarrow>
               (case determineInstallAction meta0 force themesState of
                  (action, targetDirName, Some err) \<Rightarrow> ((None, Some err), w)
                | (action, targetDirName, None) \<Rightarrow>
                    (let currentTime = now E (trace w);
                         meta1 = meta0\<lparr>tm_LastUpdatedAt := currentTime\<rparr>
                     in case prepareDirectoryForInstall E targetDirName meta1 action themesState
                               currentTime w of
                          (Inl err, w1) \<Rightarrow> ((None, Some err), w1)
                        | (Inr (themePath, actualTargetDirName, meta), w1) \<Rightarrow>
                            (case downloadThemeAssets E themePath meta parsedSourceURL
                                    isLocalSource w1 of
                               (Some err, w2) \<Rightarrow>
                                 ((None, Some err), cleanupNew E action themePath w2)
                             | (None, w2) \<Rightarrow>
                                 (case writeLocalThemeJSON E themePath meta w2 of
                                    (Some err, w3) \<Rightarrow>
                                      ((None, Some err), cleanupNew E action themePath w3)
                                  | (None, w3) \<Rightarrow>
                                      (let installedEntry =
                                         \<lparr>ThmID = actualTargetDirName,
                                          te_Name = tm_Name meta,
                                          te_Version = tm_Version meta,
                                          te_SourceLink = tm_SourceLink meta,
                                          te_InstalledAt = tm_InstalledAt meta,
                                          te_LastUpdatedAt = tm_LastUpdatedAt meta\<rparr>
                                       in case updateGlobalThemesState E actualTargetDirName
                                                 installedEntry w3 of
                                            (Some err, w4) \<Rightarrow>
                                              ((Some meta, Some (StateNotSaved (tm_Name meta) err)),
                                               w4)
                                          | (None, w4) \<Rightarrow>
                                              ((Some meta, None),
                                               discoverThemesLocked E w4))))))))"

definition loadLocalThemeJSON ::
  "themes_sys \<Rightarrow> path \<Rightarrow> themes_world \<Rightarrow> manager_error + ThemeMetadata" where
  "loadLocalThemeJSON E themePath w =
     (let metaFilePath = Join E themePath ''theme.json'' in
      if Stat E (trace w) metaFilePath = StatNotExist then Inl (LocalJSONNotFound metaFilePath)
      else case ReadFile E (trace w) metaFilePath of
        None \<Rightarrow> Inl (LocalJSONReadFailed metaFilePath)
      | Some metaData \<Rightarrow>
          (case jsonUnmarshal E metaData of
             None \<Rightarrow> Inl (LocalJSONParseFailed metaFilePath)
           | Some meta \<Rightarrow> Inr meta))"

text \<open>
  The no-op exits of \<^verbatim>\<open>Update\<close> return the manifest stored in the theme's directory.
\<close>

definition reloadLocal :: "themes_sys \<Rightarrow> stage \<Rightarrow> string \<Rightarrow> themes_world \<Rightarrow> theme_result" where
  "reloadLocal E st themeID w =
     (case loadLocalThemeJSON E (Join E defaultThemeDir themeID) w of
        Inl loadLocalErr \<Rightarrow> ((None, Some (During st themeID loadLocalErr)), w)
      | Inr localMeta \<Rightarrow> ((Some localMeta, None), w))"

text \<open>Steps 5 to 8 of \<^verbatim>\<open>Update\<close>, taken when the remote version is the greater one.\<close>

definition performUpdate ::
  "themes_sys \<Rightarrow> string \<Rightarrow> InstalledThemeEntry \<Rightarrow> themes_state \<Rightarrow> ThemeMetadata \<Rightarrow>
     URL option \<Rightarrow> bool \<Rightarrow> themes_world \<Rightarrow> theme_result" where
  "performUpdate E themeID existingStateEntry themesState latestMeta0 parsedSourceURL
      isLocalSource w =
     (let currentTime = now E (trace w);
          latestMeta1 = latestMeta0\<lparr>tm_LastUpdatedAt := currentTime,
             tm_InstalledAt := (if te_InstalledAt existingStateEntry \<noteq> []
                                then te_InstalledAt existingStateEntry else currentTime)\<rparr>
      in case prepareDirectoryForInstall E themeID latestMeta1 ActionOverwrite themesState
                currentTime w of
           (Inl err, w1) \<Rightarrow> ((None, Some (During AtPrepare themeID err)), w1)
         | (Inr (themePath, actualDirName, latestMeta), w1) \<Rightarrow>
             (case downloadThemeAssets E themePath latestMeta parsedSourceURL isLocalSource w1 of
                (Some err, w2) \<Rightarrow> ((None, Some (During AtDownload themeID err)), w2)
              | (None, w2) \<Rightarrow>
                  (case writeLocalThemeJSON E themePath latestMeta w2 of
                     (Some err, w3) \<Rightarrow> ((None, Some (During AtWrite themeID err)), w3)
                   | (None, w3) \<Rightarrow>
                       (let updatedGlobalEntry =
                          \<lparr>ThmID = themeID,
                           te_Name = tm_Name latestMeta,
                           te_Version = tm_Version latestMeta,
                           te_SourceLink = te_SourceLink existingStateEntry,
                           te_InstalledAt = tm_InstalledAt latestMeta,
                           te_LastUpdatedAt = tm_LastUpdatedAt latestMeta\<rparr>
                        in case updateGlobalThemesState E themeID updatedGlobalEntry w3 of
                             (Some err, w4) \<Rightarrow>
                               ((Some latestMeta, Some (StateNotSaved themeID err)), w4)
                           | (None, w4) \<Rightarrow>
                               ((Some latestMeta, None), discoverThemesLocked E w4)))))"

definition themes_Update :: "themes_sys \<Rightarrow> string \<Rightarrow> themes_world \<Rightarrow> theme_result" where
  "themes_Update E themeID w =
     (case LoadStateOp E w of
        None \<Rightarrow> ((None, Some LoadStateFailed), w)
      | Some themesState \<Rightarrow>
          (case map_of themesState themeID of
             None \<Rightarrow> ((None, Some (NotFoundInState themeID)), w)
           | Some existingStateEntry \<Rightarrow>
               if te_SourceLink existingStateEntry = [] then ((None, Some (NoSourceLink themeID)), w)
               else
                 (case fetchAndValidateDefinition E (te_SourceLink existingStateEntry) w of
                    Inl err \<Rightarrow> ((None, Some (During AtFetch themeID err)), w)
                  | Inr (latestMeta, parsedSourceURL, isLocalSource) \<Rightarrow>
                      if te_Version existingStateEntry = tm_Version latestMeta
                      then reloadLocal E AtLatestReload themeID w
                      else if tm_Version latestMeta < te_Version existingStateEntry
                      then reloadLocal E AtOlderReload themeID w
                      else performUpdate E themeID existingStateEntry themesState latestMeta
                             parsedSourceURL isLocalSource w)))"

definition removeEntryFromGlobalState ::
  "themes_sys \<Rightarrow> string \<Rightarrow> themes_world \<Rightarrow> (manager_error + string) \<times> themes_world" where
  "removeEntryFromGlobalState E themeID w =
     (case LoadStateOp E w of
        None \<Rightarrow> (Inl LoadStateFailed, w)
      | Some currentThemesState \<Rightarrow>
          (case map_of currentThemesState themeID of
             None \<Rightarrow> (Inl (NotFoundInState themeID), w)
           | Some entry \<Rightarrow>
               (case SaveStateOp E (AList.delete themeID currentThemesState) w of
                  (True, w') \<Rightarrow> (Inr (te_Name entry), w')
                | (False, w') \<Rightarrow> (Inl (SaveStateFailed themeID), w'))))"

definition deleteThemeDirectory ::
  "themes_sys \<Rightarrow> string \<Rightarrow> themes_world \<Rightarrow> manager_error option \<times> themes_world" where
  "deleteThemeDirectory E themeID w =
     (let targetThemePath = Join E defaultThemeDir themeID in
      case Abs E defaultThemeDir of
        None \<Rightarrow> (Some (AbsPathFailed defaultThemeDir), w)
      | Some absThemeDir \<Rightarrow>
          (case Abs E targetThemePath of
             None \<Rightarrow> (Some (AbsPathFailed targetThemePath), w)
           | Some absTargetThemePath \<Rightarrow>
               if outsideBase absTargetThemePath absThemeDir
               then (Some (OutsideBaseDirectory targetThemePath), w)
               else (case perform E (RemoveAll targetThemePath) w of
                       (IoOk, w') \<Rightarrow> (None, w')
                     | (_, w') \<Rightarrow> (Some (RemoveFailed targetThemePath), w'))))"

definition themes_Remove ::
  "themes_sys \<Rightarrow> string \<Rightarrow> themes_world \<Rightarrow> manager_error option \<times> themes_world" where
  "themes_Remove E themeID w =
     (case removeEntryFromGlobalState E themeID w of
        (Inl err, w1) \<Rightarrow> (Some err, w1)
      | (Inr themeNameForLog, w1) \<Rightarrow>
          (case deleteThemeDirectory E themeID w1 of
             (Some err, w2) \<Rightarrow> (Some (During AtRemoveDirectory themeID err), w2)
           | (None, w2) \<Rightarrow> (None, discoverThemesLocked E w2)))"

section \<open>Plugin metadata and the plugin manager (package plugins)\<close>

record EndpointConfig =
  Methods :: "string list"
  ep_Description :: string

record PluginMetadata =
  pm_Name :: string
  pm_Authors :: "string list"
  pm_Version :: string
  pm_Description :: string
  pm_SourceLink :: string
  pm_APIVersion :: string
  pm_Structure :: structure_map
  pm_Dependencies :: "(string \<times> string) list"
  pm_Endpoints :: "(string \<times> EndpointConfig) list"

fun validatePluginStructureContent ::
    "(string \<Rightarrow> URL option) \<Rightarrow> structure_map \<Rightarrow> structure_error option"
  and validatePluginValue ::
    "(string \<Rightarrow> URL option) \<Rightarrow> string \<Rightarrow> node \<Rightarrow> structure_error option" where
  "validatePluginStructureContent P [] = None"
| "validatePluginStructureContent P ((key, v) # rest) =
     (case validateKey key of
        Some e \<Rightarrow> Some e
      | None \<Rightarrow>
          (case validatePluginValue P key v of
             Some e \<Rightarrow> Some e
           | None \<Rightarrow> validatePluginStructureContent P rest))"
| "validatePluginValue P key (StringV v) =
     (if isBlank v then Some (AssetURLEmpty key)
      else case P v of None \<Rightarrow> Some (AssetURLInvalid key v) | Some u \<Rightarrow> None)"
| "validatePluginValue P key (MapV m) =
     map_option (InSubDirectory key) (validatePluginStructureContent P m)"
| "validatePluginValue P key (AssetDetail u c) = Some (InvalidType key)"
| "validatePluginValue P key OtherV = Some (InvalidType key)"

definition endpointInvalid :: "string \<times> EndpointConfig \<Rightarrow> bool" where
  "endpointInvalid pe =
     (case pe of (endpointPath, endpointCfg) \<Rightarrow>
        isBlank endpointPath \<or> \<not> HasPrefix endpointPath ''/'' \<or> Methods endpointCfg = [] \<or>
        list_ex isBlank (Methods endpointCfg))"

definition dependencyInvalid :: "string \<times> string \<Rightarrow> bool" where
  "dependencyInvalid d = (case d of (modPath, modVersion) \<Rightarrow> isBlank modPath \<or> isBlank modVersion)"

definition plugins_Validate ::
  "(string \<Rightarrow> URL option) \<Rightarrow> PluginMetadata \<Rightarrow> validation_error option" where
  "plugins_Validate P m =
     (if isBlank (pm_Name m) then Some ThemeNameRequired
      else if pm_Authors m = [] then Some AuthorsRequired
      else case find (\<lambda>i. isBlank (pm_Authors m ! i)) [0..<length (pm_Authors m)] of
        Some i \<Rightarrow> Some (AuthorEmpty i)
      | None \<Rightarrow>
          if isBlank (pm_Version m) then Some VersionRequired
          else if isBlank (pm_Description m) then Some DescriptionRequired
          else if isBlank (pm_SourceLink m) then Some SourceLinkRequired
          else if P (pm_SourceLink m) = None then Some (SourceLinkInvalid (pm_SourceLink m))
          else if isBlank (pm_APIVersion m) then Some APIVersionRequired
          else if pm_Structure m = [] then Some StructureRequired
          else case validatePluginStructureContent P (pm_Structure m) of
            Some e \<Rightarrow> Some (InvalidStructure e)
          | None \<Rightarrow>
              (case find endpointInvalid (pm_Endpoints m) of
                 Some (endpointPath, endpointCfg) \<Rightarrow> Some (EndpointInvalid endpointPath)
               | None \<Rightarrow>
                   (case find dependencyInvalid (pm_Dependencies m) of
                      Some (modPath, modVersion) \<Rightarrow> Some (DependencyInvalid modPath)
                    | None \<Rightarrow> None)))"

record InstalledPluginEntry =
  PlgID :: string
  pe_Name :: string
  pe_Version :: string
  pe_SourceLink :: string

type_synonym plugins_state = "(string \<times> InstalledPluginEntry) list"

type_synonym plugins_world = "(plugins_state, unit) world"

type_synonym plugins_sys = "(plugins_state, unit, PluginMetadata) sys"

definition defaultPluginsDir :: path where
  "defaultPluginsDir = ''ext/plugins''"

definition pluginMetaFile :: string where
  "pluginMetaFile = ''plugin.yaml''"

definition maxYAMLSize :: nat where
  "maxYAMLSize = 2 ^ 20"

text \<open>
  \<^verbatim>\<open>fetchPluginYAML\<close>. The body is read through an \<^verbatim>\<open>io.LimitedReader\<close> with
  \<open>N = maxYAMLSize\<close>: the read returns at most \<open>N\<close> bytes and leaves \<open>N\<close> reduced by
  their number.
\<close>

definition fetchPluginLocal ::
  "('s, 'c, 'm) sys \<Rightarrow> string \<Rightarrow> ('s, 'c) world \<Rightarrow> fetch_error + (bytes \<times> URL option \<times> bool)" where
  "fetchPluginLocal E source w =
     (let sourcePath = Clean E source in
      case Stat E (trace w) sourcePath of
        StatNotExist \<Rightarrow> Inl (FetchNotFound source)
      | StatError \<Rightarrow> Inl (FetchStat sourcePath)
      | StatOk \<Rightarrow>
          (case ReadFile E (trace w) sourcePath of
             None \<Rightarrow> Inl (FetchLocalRead sourcePath)
           | Some yamlData \<Rightarrow> Inr (yamlData, ParseRequestURI E source, True)))"

definition fetchPluginYAML ::
  "('s, 'c, 'm) sys \<Rightarrow> string \<Rightarrow> ('s, 'c) world \<Rightarrow> fetch_error + (bytes \<times> URL option \<times> bool)" where
  "fetchPluginYAML E source w =
     (case ParseRequestURI E source of
        None \<Rightarrow> fetchPluginLocal E source w
      | Some parsedSourceURL \<Rightarrow>
          if Scheme parsedSourceURL = ''http'' \<or> Scheme parsedSourceURL = ''https'' then
            (let sourceNameForLog = url_String parsedSourceURL in
             case httpGet E (trace w) sourceNameForLog of
               HttpError \<Rightarrow> Inl (FetchTransport sourceNameForLog)
             | HttpResponse status body readOk \<Rightarrow>
                 if status \<noteq> 200 then Inl (FetchStatus sourceNameForLog status)
                 else
                   (let yamlData = take maxYAMLSize body;
                        limitedReader_N = maxYAMLSize - length yamlData
                    in if length body < maxYAMLSize \<and> \<not> readOk
                       then Inl (FetchRead sourceNameForLog)
                       else if limitedReader_N = 0
                       then Inl (FetchTooLarge sourceNameForLog maxYAMLSize)
                       else Inr (yamlData, Some parsedSourceURL, False)))
          else fetchPluginLocal E source w)"

text \<open>
  \<^verbatim>\<open>downloadAndSavePluginStructure\<close>. A file that cannot be resolved, downloaded or
  written is logged and skipped (\<^verbatim>\<open>continue\<close>); only a sub-directory that cannot be
  created and a value of an unknown type end the walk with an error.
\<close>

definition backslashToSlash :: "path \<Rightarrow> path" where
  "backslashToSlash p = map (\<lambda>c. if c = CHR 0x5C then CHR ''/'' else c) p"

definition downloadPluginFile ::
  "('s, 'c, 'm) sys \<Rightarrow> path \<Rightarrow> string \<Rightarrow> URL option \<Rightarrow> ('s, 'c) world \<Rightarrow> ('s, 'c) world" where
  "downloadPluginFile E currentLocalItemSavePath fileURLString baseURL w =
     (case (case baseURL of
              Some base \<Rightarrow> ParseRef E base fileURLString
            | None \<Rightarrow> ParseRequestURI E fileURLString) of
        None \<Rightarrow> w
      | Some finalFileURL \<Rightarrow>
          (case httpGet E (trace w) (url_String finalFileURL) of
             HttpError \<Rightarrow> w
           | HttpResponse status body readOk \<Rightarrow>
               if status \<noteq> 200 then w
               else
                 (case perform E (MkdirAll (Dir E currentLocalItemSavePath)) w of
                    (IoOk, w1) \<Rightarrow>
                      (case perform E (Create currentLocalItemSavePath) w1 of
                         (IoOk, w2) \<Rightarrow>
                           (let (copyRes, w3) = perform E (Copy currentLocalItemSavePath body) w2;
                                (closeRes, w4) = perform E (Close currentLocalItemSavePath) w3
                            in if \<not> readOk \<or> copyRes \<noteq> IoOk
                               then snd (perform E (Remove currentLocalItemSavePath) w4)
                               else w4)
                       | (_, w2) \<Rightarrow> w2)
                  | (_, w1) \<Rightarrow> w1)))"

fun downloadAndSavePluginStructure ::
    "('s, 'c, 'm) sys \<Rightarrow> path \<Rightarrow> path \<Rightarrow> path \<Rightarrow> structure_map \<Rightarrow> URL option \<Rightarrow>
       ('s, 'c) world \<Rightarrow> download_error option \<times> ('s, 'c) world"
  and downloadPluginItem ::
    "('s, 'c, 'm) sys \<Rightarrow> path \<Rightarrow> path \<Rightarrow> path \<Rightarrow> string \<Rightarrow> node \<Rightarrow> URL option \<Rightarrow>
       ('s, 'c) world \<Rightarrow> download_error option \<times> ('s, 'c) world" where
  "downloadAndSavePluginStructure E absBaseSavePath baseSavePath currentRelativePath []
      baseURL w = (None, w)"
| "downloadAndSavePluginStructure E absBaseSavePath baseSavePath currentRelativePath
      ((name, item) # rest) baseURL w =
     (case downloadPluginItem E absBaseSavePath baseSavePath currentRelativePath name item
             baseURL w of
        (Some err, w') \<Rightarrow> (Some err, w')
      | (None, w') \<Rightarrow>
          downloadAndSavePluginStructure E absBaseSavePath baseSavePath currentRelativePath rest
            baseURL w')"
| "downloadPluginItem E absBaseSavePath baseSavePath currentRelativePath name (StringV v)
      baseURL w =
     (None, downloadPluginFile E (Join E (Join E baseSavePath currentRelativePath) name) v
              baseURL w)"
| "downloadPluginItem E absBaseSavePath baseSavePath currentRelativePath name (MapV v)
      baseURL w =
     (let currentLocalItemSavePath = Join E (Join E baseSavePath currentRelativePath) name;
          itemPathForLogAndURL = backslashToSlash (Join E currentRelativePath name)
      in case Abs E currentLocalItemSavePath of
           None \<Rightarrow> (None, w)
         | Some absSubDirPath \<Rightarrow>
             if outsideBase absSubDirPath absBaseSavePath then (None, w)
             else
               (case perform E (MkdirAll currentLocalItemSavePath) w of
                  (IoOk, w') \<Rightarrow>
                    downloadAndSavePluginStructure E absBaseSavePath baseSavePath
                      itemPathForLogAndURL v baseURL w'
                | (_, w') \<Rightarrow> (Some (SubDirectoryFailed currentLocalItemSavePath), w')))"
| "downloadPluginItem E absBaseSavePath baseSavePath currentRelativePath name
      (AssetDetail u c) baseURL w = (Some (UnknownType name), w)"
| "downloadPluginItem E absBaseSavePath baseSavePath currentRelativePath name OtherV
      baseURL w = (Some (UnknownType name), w)"

text \<open>
  The entry point computes the absolute base path first; the recursive calls compute
  it again from the same \<open>baseSavePath\<close>.
\<close>

definition downloadPluginStructure ::
  "('s, 'c, 'm) sys \<Rightarrow> path \<Rightarrow> structure_map \<Rightarrow> URL option \<Rightarrow> ('s, 'c) world \<Rightarrow>
     download_error option \<times> ('s, 'c) world" where
  "downloadPluginStructure E baseSavePath tree baseURL w =
     (case Abs E baseSavePath of
        None \<Rightarrow> (Some (SubDirectoryFailed baseSavePath), w)
      | Some absBaseSavePath \<Rightarrow>
          downloadAndSavePluginStructure E absBaseSavePath baseSavePath [] tree baseURL w)"

text \<open>The exact-match loop of \<^verbatim>\<open>InstallPlugin\<close>.\<close>

definition pluginExactMatchDir :: "PluginMetadata \<Rightarrow> plugins_state \<Rightarrow> string" where
  "pluginExactMatchDir meta pluginsState =
     (case find (\<lambda>(localDir, entry). pe_SourceLink entry = pm_SourceLink meta \<and>
                                     pe_Version entry = pm_Version meta) pluginsState of
        Some (localDir, entry) \<Rightarrow> localDir
      | None \<Rightarrow> [])"

type_synonym plugin_result = "(PluginMetadata option \<times> manager_error option) \<times> plugins_world"

text \<open>
  Steps 4 to 7 of \<^verbatim>\<open>InstallPlugin\<close>, once the target directory name is known: the
  containment check, the removal of the old directory on an overwrite, the download,
  the local \<open>plugin.yaml\<close> and the state.
\<close>

definition installPluginFiles ::
  "plugins_sys \<Rightarrow> ActionType \<Rightarrow> string \<Rightarrow> PluginMetadata \<Rightarrow> bytes \<Rightarrow> URL option \<Rightarrow> bool \<Rightarrow>
     plugins_state \<Rightarrow> plugins_world \<Rightarrow> plugin_result" where
  "installPluginFiles E action targetDirName meta yamlData parsedSourceURL isLocalSource
      pluginsState w =
     (let targetPluginPath = Join E defaultPluginsDir targetDirName in
      case Abs E defaultPluginsDir of
        None \<Rightarrow> ((None, Some (AbsPathFailed defaultPluginsDir)), w)
      | Some absPluginDir \<Rightarrow>
          (case Abs E targetPluginPath of
             None \<Rightarrow> ((None, Some (AbsPathFailed targetPluginPath)), w)
           | Some absTargetPluginPath \<Rightarrow>
               if outsideBase absTargetPluginPath absPluginDir
               then ((None, Some (OutsideBaseDirectory targetDirName)), w)
               else
                 (case (if action = ActionOverwrite
                        then perform E (RemoveAll targetPluginPath) w else (IoOk, w)) of
                    (IoOk, w1) \<Rightarrow>
                      (case perform E (MkdirAll targetPluginPath) w1 of
                         (IoOk, w2) \<Rightarrow>
                           (let baseURLForStructure =
                                  (if \<not> isLocalSource then parsedSourceURL else None);
                                cleanup = (\<lambda>v. if action = ActionInstallNew
                                               then snd (perform E (RemoveAll targetPluginPath) v)
                                               else v)
                            in case downloadPluginStructure E targetPluginPath
                                      (pm_Structure meta) baseURLForStructure w2 of
                                 (Some err, w3) \<Rightarrow>
                                   ((None, Some (DownloadStructureFailed (pm_Name meta) err)),
                                    cleanup w3)
                               | (None, w3) \<Rightarrow>
                                   (let localMetaPath = Join E targetPluginPath pluginMetaFile in
                                    case perform E (WriteFile localMetaPath yamlData) w3 of
                                      (IoOk, w4) \<Rightarrow>
                                        (case SaveStateOp E
                                                (AList.update targetDirName
                                                   \<lparr>PlgID = targetDirName,
                                                    pe_Name = pm_Name meta,
                                                    pe_Version = pm_Version meta,
                                                    pe_SourceLink = pm_SourceLink meta\<rparr>
                                                   pluginsState) w4 of
                                           (True, w5) \<Rightarrow> ((Some meta, None), w5)
                                         | (False, w5) \<Rightarrow>
                                             ((Some meta,
                                               Some (StateNotSaved (pm_Name meta)
                                                       (SaveStateFailed targetDirName))), w5))
                                    | (_, w4) \<Rightarrow>
                                        ((None, Some (WriteLocalFailed localMetaPath)),
                                         cleanup w4)))
                       | (_, w2) \<Rightarrow> ((None, Some (CreateDirectoryFailed targetPluginPath)), w2))
                  | (_, w1) \<Rightarrow> ((None, Some (RemoveExistingFailed targetPluginPath)), w1))))"

definition InstallPlugin :: "plugins_sys \<Rightarrow> string \<Rightarrow> bool \<Rightarrow> plugins_world \<Rightarrow> plugin_result" where
  "InstallPlugin E source force w =
     (case fetchPluginYAML E source w of
        Inl err \<Rightarrow> ((None, Some (FetchFailed err)), w)
      | Inr (yamlData, parsedSourceURL, isLocalSource) \<Rightarrow>
          (case yamlUnmarshal E yamlData of
             None \<Rightarrow> ((None, Some ParseFailed), w)
           | Some meta \<Rightarrow>
               (case plugins_Validate (ParseRequestURI E) meta of
                  Some err \<Rightarrow> ((None, Some (InvalidMetadata (pm_Name meta) err)), w)
                | None \<Rightarrow>
                    (case LoadStateOp E w of
                       None \<Rightarrow> ((None, Some LoadStateFailed), w)
                     | Some pluginsState \<Rightarrow>
                         if pm_SourceLink meta = [] then ((None, Some EmptySourceLink), w)
                         else
                           (let existingLocalDirForExactMatch =
                                  pluginExactMatchDir meta pluginsState
                            in if existingLocalDirForExactMatch \<noteq> [] then
                                 (if \<not> force
                                  then ((None, Some (AlreadyExists (pm_Name meta)
                                                       (pm_Version meta))), w)
                                  else installPluginFiles E ActionOverwrite
                                         existingLocalDirForExactMatch meta yamlData
                                         parsedSourceURL isLocalSource pluginsState w)
                               else
                                 (case PluginID E (trace w) of
                                    None \<Rightarrow> ((None, Some (IDGenerationFailed (pm_Name meta))), w)
                                  | Some newDirID \<Rightarrow>
                                      installPluginFiles E ActionInstallNew newDirID meta
                                        yamlData parsedSourceURL isLocalSource
                                        pluginsState w))))))"

text \<open>Step 5 of \<^verbatim>\<open>UpdatePlugin\<close>: the overwrite of the directory \<open>pluginID\<close>.\<close>

definition performPluginUpdate ::
  "plugins_sys \<Rightarrow> string \<Rightarrow> InstalledPluginEntry \<Rightarrow> PluginMetadata \<Rightarrow> bytes \<Rightarrow> URL option \<Rightarrow>
     bool \<Rightarrow> plugins_state \<Rightarrow> plugins_world \<Rightarrow> plugin_result" where
  "performPluginUpdate E pluginID currentEntry latestMeta latestYAMLData latestParsedSourceURL
      latestIsLocalSource pluginsState w =
     (let targetPluginPath = Join E defaultPluginsDir pluginID in
      case Abs E defaultPluginsDir of
        None \<Rightarrow> ((None, Some (AbsPathFailed defaultPluginsDir)), w)
      | Some absPluginDir \<Rightarrow>
          (case Abs E targetPluginPath of
             None \<Rightarrow> ((None, Some (AbsPathFailed targetPluginPath)), w)
           | Some absTargetPluginPath \<Rightarrow>
               if outsideBase absTargetPluginPath absPluginDir
               then ((None, Some (OutsideBaseDirectory pluginID)), w)
               else
                 (case perform E (RemoveAll targetPluginPath) w of
                    (IoOk, w1) \<Rightarrow>
                      (case perform E (MkdirAll targetPluginPath) w1 of
                         (IoOk, w2) \<Rightarrow>
                           (let baseURLForStructure =
                                  (if \<not> latestIsLocalSource then latestParsedSourceURL else None)
                            in case downloadPluginStructure E targetPluginPath
                                      (pm_Structure latestMeta) baseURLForStructure w2 of
                                 (Some err, w3) \<Rightarrow>
                                   ((None, Some (DownloadStructureFailed (pm_Name latestMeta) err)),
                                    w3)
                               | (None, w3) \<Rightarrow>
                                   (let localMetaPath = Join E targetPluginPath pluginMetaFile in
                                    case perform E (WriteFile localMetaPath latestYAMLData) w3 of
                                      (IoOk, w4) \<Rightarrow>
                                        ((Some latestMeta, None),
                                         snd (SaveStateOp E
                                                (AList.update pluginID
                                                   \<lparr>PlgID = pluginID,
                                                    pe_Name = pm_Name latestMeta,
                                                    pe_Version = pm_Version latestMeta,
                                                    pe_SourceLink = pe_SourceLink currentEntry\<rparr>
                                                   pluginsState) w4))
                                    | (_, w4) \<Rightarrow>
                                        ((None, Some (WriteLocalFailed localMetaPath)), w4)))
                       | (_, w2) \<Rightarrow> ((None, Some (CreateDirectoryFailed targetPluginPath)), w2))
                  | (_, w1) \<Rightarrow> ((None, Some (RemoveExistingFailed targetPluginPath)), w1))))"

definition UpdatePlugin :: "plugins_sys \<Rightarrow> string \<Rightarrow> plugins_world \<Rightarrow> plugin_result" where
  "UpdatePlugin E pluginID w =
     (case LoadStateOp E w of
        None \<Rightarrow> ((None, Some LoadStateFailed), w)
      | Some pluginsState \<Rightarrow>
          (case map_of pluginsState pluginID of
             None \<Rightarrow> ((None, Some (NotFoundInState pluginID)), w)
           | Some currentEntry \<Rightarrow>
               (case fetchPluginYAML E (pe_SourceLink currentEntry) w of
                  Inl fetchErr \<Rightarrow> ((None, Some (During AtFetch pluginID (FetchFailed fetchErr))), w)
                | Inr (latestYAMLData, latestParsedSourceURL, latestIsLocalSource) \<Rightarrow>
                    (case yamlUnmarshal E latestYAMLData of
                       None \<Rightarrow> ((None, Some ParseFailed), w)
                     | Some latestMeta \<Rightarrow>
                         (case plugins_Validate (ParseRequestURI E) latestMeta of
                            Some err \<Rightarrow>
                              ((None, Some (InvalidMetadata (pm_Name latestMeta) err)), w)
                          | None \<Rightarrow>
                              if pe_Version currentEntry = pm_Version latestMeta
                              then ((None, None), w)
                              else performPluginUpdate E pluginID currentEntry latestMeta
                                     latestYAMLData latestParsedSourceURL latestIsLocalSource
                                     pluginsState w)))))"

definition RemovePlugin ::
  "plugins_sys \<Rightarrow> string \<Rightarrow> plugins_world \<Rightarrow> manager_error option \<times> plugins_world" where
  "RemovePlugin E pluginID w =
     (case LoadStateOp E w of
        None \<Rightarrow> (Some LoadStateFailed, w)
      | Some pluginsState \<Rightarrow>
          (case map_of pluginsState pluginID of
             None \<Rightarrow> (Some (NotFoundInState pluginID), w)
           | Some entry \<Rightarrow>
               (let targetPluginPath = Join E defaultPluginsDir pluginID in
                case Abs E defaultPluginsDir of
                  None \<Rightarrow> (Some (AbsPathFailed defaultPluginsDir), w)
                | Some absPluginDir \<Rightarrow>
                    (case Abs E targetPluginPath of
                       None \<Rightarrow> (Some (AbsPathFailed targetPluginPath), w)
                     | Some absTargetPluginPath \<Rightarrow>
                         if outsideBase absTargetPluginPath absPluginDir
                         then (Some (OutsideBaseDirectory pluginID), w)
                         else
                           (case perform E (RemoveAll targetPluginPath) w of
                              (IoError, w1) \<Rightarrow> (Some (RemoveFailed targetPluginPath), w1)
                            | (_, w1) \<Rightarrow>
                                (case SaveStateOp E (AList.delete pluginID pluginsState) w1 of
                                   (True, w2) \<Rightarrow> (None, w2)
                                 | (False, w2) \<Rightarrow>
                                     (Some (StateNotSaved pluginID (SaveStateFailed pluginID)),
                                      w2)))))))"

section \<open>The command manager (package commands)\<close>

record CommandMetadata =
  Command :: string
  PkgManagers :: "string list"
  cm_Dependencies :: "string list"
  cm_Authors :: "string list option"
  cm_Version :: string
  cm_Description :: string
  cm_SourceLink :: string
  FilePath :: string

text \<open>\<open>cm_Authors\<close> is \<open>None\<close> for a nil slice.\<close>

definition IsValid :: "CommandMetadata \<Rightarrow> bool" where
  "IsValid m =
     (Command m \<noteq> [] \<and> PkgManagers m \<noteq> [] \<and> cm_Authors m \<noteq> None \<and> cm_Version m \<noteq> [] \<and>
      cm_Description m \<noteq> [] \<and> cm_SourceLink m \<noteq> [] \<and> FilePath m \<noteq> [])"

text \<open>\<^verbatim>\<open>strings.SplitN(line, ":", 2)\<close>: \<open>None\<close> when the result has one part only.\<close>

fun splitAtColon :: "string \<Rightarrow> (string \<times> string) option" where
  "splitAtColon [] = None"
| "splitAtColon (c # cs) =
     (if c = CHR '':'' then Some ([], cs)
      else map_option (\<lambda>(k, v). (c # k, v)) (splitAtColon cs))"

text \<open>\<^verbatim>\<open>strings.Split(s, ",")\<close>.\<close>

fun splitComma :: "string \<Rightarrow> string list" where
  "splitComma [] = [[]]"
| "splitComma (c # cs) =
     (if c = CHR '','' then [] # splitComma cs
      else (case splitComma cs of p # ps \<Rightarrow> (c # p) # ps | [] \<Rightarrow> [[c]]))"

definition splitAndTrim :: "string \<Rightarrow> string list" where
  "splitAndTrim s = (if s = [] then [] else filter (\<lambda>t. t \<noteq> []) (map TrimSpace (splitComma s)))"

definition metadataPrefix :: string where
  "metadataPrefix = ''# @@''"

definition maxMetadataLines :: nat where
  "maxMetadataLines = 20"

definition parseMetadataLine :: "string \<Rightarrow> CommandMetadata \<Rightarrow> bool \<times> CommandMetadata" where
  "parseMetadataLine line0 meta =
     (let line = TrimSpace line0 in
      if \<not> HasPrefix line ''# @@'' then (False, meta)
      else case splitAtColon (drop (length ''# @@'') line) of
        None \<Rightarrow> (False, meta)
      | Some (part0, part1) \<Rightarrow>
          (let key = TrimSpace part0; val = TrimSpace part1 in
           if key = ''command'' then (True, meta\<lparr>Command := val\<rparr>)
           else if key = ''pkg_managers'' then (True, meta\<lparr>PkgManagers := splitAndTrim val\<rparr>)
           else if key = ''dependencies'' then (True, meta\<lparr>cm_Dependencies := splitAndTrim val\<rparr>)
           else if key = ''authors'' then (True, meta\<lparr>cm_Authors := Some (splitAndTrim val)\<rparr>)
           else if key = ''version'' then (True, meta\<lparr>cm_Version := val\<rparr>)
           else if key = ''description'' then (True, meta\<lparr>cm_Description := val\<rparr>)
           else if key = ''source_link'' then (True, meta\<lparr>cm_SourceLink := val\<rparr>)
           else (False, meta)))"

text \<open>The body of the scanning loop, on the pair \<open>(foundAnyMeta, meta)\<close>.\<close>

definition scanStep :: "bool \<times> CommandMetadata \<Rightarrow> string \<Rightarrow> bool \<times> CommandMetadata" where
  "scanStep acc line =
     (case acc of (foundAnyMeta, meta) \<Rightarrow>
        if HasPrefix (TrimSpace line) metadataPrefix
        then (case parseMetadataLine line meta of
                (True, meta') \<Rightarrow> (True, meta')
              | (False, meta') \<Rightarrow> (foundAnyMeta, meta'))
        else (foundAnyMeta, meta))"

definition parseCommandMetadataFromBytes ::
  "('s, 'c, 'm) sys \<Rightarrow> bytes \<Rightarrow> CommandMetadata option" where
  "parseCommandMetadataFromBytes E scriptData =
     (let (scanned, scanErr) = scanLines E scriptData;
          (foundAnyMeta, meta) =
            foldl scanStep
              (False, \<lparr>Command = [], PkgManagers = [], cm_Dependencies = [],
                       cm_Authors = Some [], cm_Version = [], cm_Description = [],
                       cm_SourceLink = [], FilePath = []\<rparr>)
              (take maxMetadataLines scanned)
      in if scanErr then None
         else if \<not> foundAnyMeta then None
         else if Command meta = [] then None
         else Some meta)"

record InstalledCommandEntry =
  Filename :: string
  ce_Name :: string
  ce_Version :: string
  ce_SourceLink :: string

type_synonym commands_state = "(string \<times> InstalledCommandEntry) list"

type_synonym commands_cache = "(string \<times> CommandMetadata) list"

type_synonym commands_world = "(commands_state, commands_cache) world"

type_synonym commands_sys = "(commands_state, commands_cache, unit) sys"

definition defaultCommandDir :: path where
  "defaultCommandDir = ''ext/commands''"

text \<open>
  \<^verbatim>\<open>InstallCommand\<close> and \<^verbatim>\<open>RemoveCommand\<close> hold \<^verbatim>\<open>cm.mu\<close> (locked on entry, unlocked by a
  deferred call) when they call \<^verbatim>\<open>cm.discoverCommands()\<close>, which locks \<^verbatim>\<open>cm.mu\<close>
  again. A \<^verbatim>\<open>sync.RWMutex\<close> is not reentrant: the call blocks for ever, and the
  operation does not return.
\<close>

datatype 'a outcome = Returns 'a | Deadlock

type_synonym command_result =
  "(CommandMetadata option \<times> manager_error option) outcome \<times> commands_world"

text \<open>The fetch at the head of \<^verbatim>\<open>InstallCommand\<close>.\<close>

definition fetchCommandLocal ::
  "('s, 'c, 'm) sys \<Rightarrow> string \<Rightarrow> ('s, 'c) world \<Rightarrow> fetch_error + bytes" where
  "fetchCommandLocal E source w =
     (let sourceNameForLog = Clean E source in
      case Stat E (trace w) sourceNameForLog of
        StatNotExist \<Rightarrow> Inl (FetchNotFound source)
      | StatError \<Rightarrow> Inl (FetchStat sourceNameForLog)
      | StatOk \<Rightarrow>
          (case ReadFile E (trace w) sourceNameForLog of
             None \<Rightarrow> Inl (FetchLocalRead sourceNameForLog)
           | Some scriptData \<Rightarrow> Inr scriptData))"

definition fetchCommand ::
  "('s, 'c, 'm) sys \<Rightarrow> string \<Rightarrow> ('s, 'c) world \<Rightarrow> fetch_error + bytes" where
  "fetchCommand E source w =
     (case ParseRequestURI E source of
        None \<Rightarrow> fetchCommandLocal E source w
      | Some parsedSourceURL \<Rightarrow>
          if Scheme parsedSourceURL = ''http'' \<or> Scheme parsedSourceURL = ''https'' then
            (let sourceNameForLog = url_String parsedSourceURL in
             case httpGet E (trace w) sourceNameForLog of
               HttpError \<Rightarrow> Inl (FetchTransport sourceNameForLog)
             | HttpResponse status body readOk \<Rightarrow>
                 if status \<noteq> 200 then Inl (FetchStatus sourceNameForLog status)
                 else if \<not> readOk then Inl (FetchRead sourceNameForLog)
                 else Inr body)
          else fetchCommandLocal E source w)"

text \<open>Step 2 of \<^verbatim>\<open>InstallCommand\<close>: the action for the target file name.\<close>

definition commandAction :: "CommandMetadata \<Rightarrow> bool \<Rightarrow> InstalledCommandEntry option \<Rightarrow> ActionType" where
  "commandAction meta force existing =
     (case existing of
        Some existingEntry \<Rightarrow>
          if ce_SourceLink existingEntry = cm_SourceLink meta \<and>
             ce_Version existingEntry = cm_Version meta
          then (if \<not> force then ActionErrorExists else ActionOverwrite)
          else if ce_SourceLink existingEntry = cm_SourceLink meta then ActionErrorConflict
          else ActionErrorConflict
      | None \<Rightarrow> ActionInstallNew)"

text \<open>Steps 4 to 6 of \<^verbatim>\<open>InstallCommand\<close>.\<close>

definition writeCommand ::
  "commands_sys \<Rightarrow> string \<Rightarrow> CommandMetadata \<Rightarrow> bytes \<Rightarrow> commands_state \<Rightarrow> commands_world \<Rightarrow>
     command_result" where
  "writeCommand E targetFilename meta0 scriptData commandsState w =
     (let targetFilePath = Join E defaultCommandDir targetFilename;
          meta = meta0\<lparr>FilePath := targetFilePath\<rparr>
      in if \<not> IsValid meta then (Returns (None, Some InvalidCommandMetadata), w)
         else case Abs E defaultCommandDir of
           None \<Rightarrow> (Returns (None, Some (AbsPathFailed defaultCommandDir)), w)
         | Some absCommandDir \<Rightarrow>
             (case Abs E targetFilePath of
                None \<Rightarrow> (Returns (None, Some (AbsPathFailed targetFilePath)), w)
              | Some absTargetFilePath \<Rightarrow>
                  if outsideBase absTargetFilePath absCommandDir
                  then (Returns (None, Some (OutsideBaseDirectory targetFilename)), w)
                  else
                    (case perform E (WriteFile targetFilePath scriptData) w of
                       (IoOk, w1) \<Rightarrow>
                         (case SaveStateOp E
                                 (AList.update targetFilename
                                    \<lparr>Filename = targetFilename,
                                     ce_Name = Command meta,
                                     ce_Version = cm_Version meta,
                                     ce_SourceLink = cm_SourceLink meta\<rparr>
                                    commandsState) w1 of
                            (True, w2) \<Rightarrow> (Deadlock, w2)
                          | (False, w2) \<Rightarrow>
                              (Returns (Some meta,
                                        Some (StateNotSaved (Command meta)
                                                (SaveStateFailed targetFilename))), w2))
                     | (_, w1) \<Rightarrow> (Returns (None, Some (WriteLocalFailed targetFilePath)), w1))))"

definition InstallCommand ::
  "commands_sys \<Rightarrow> string \<Rightarrow> bool \<Rightarrow> commands_world \<Rightarrow> command_result" where
  "InstallCommand E source force w =
     (case fetchCommand E source w of
        Inl err \<Rightarrow> (Returns (None, Some (FetchFailed err)), w)
      | Inr scriptData \<Rightarrow>
          (case parseCommandMetadataFromBytes E scriptData of
             None \<Rightarrow> (Returns (None, Some ParseFailed), w)
           | Some meta \<Rightarrow>
               (case LoadStateOp E w of
                  None \<Rightarrow> (Returns (None, Some LoadStateFailed), w)
                | Some commandsState \<Rightarrow>
                    (let targetFilename = Command meta @ ''.sh'' in
                     if ContainsAny targetFilename pathSeparators
                     then (Returns (None, Some (InvalidCommandName (Command meta))), w)
                     else
                       (let action = commandAction meta force (map_of commandsState targetFilename)
                        in if action = ActionErrorExists
                           then (Returns (None, Some (AlreadyExists (Command meta)
                                                        (cm_Version meta))), w)
                           else if action = ActionErrorConflict
                           then (Returns (None, Some (FilenameConflict targetFilename)), w)
                           else writeCommand E targetFilename meta scriptData
                                  commandsState w)))))"

definition RemoveCommand ::
  "commands_sys \<Rightarrow> string \<Rightarrow> commands_world \<Rightarrow> manager_error option outcome \<times> commands_world" where
  "RemoveCommand E commandName w =
     (case map_of (cache w) commandName of
        None \<Rightarrow> (Returns (Some (NotManaged commandName)), w)
      | Some currentMeta \<Rightarrow>
          (let targetFilePath = FilePath currentMeta;
               targetFilename = Base E targetFilePath
           in case LoadStateOp E w of
                None \<Rightarrow> (Returns (Some LoadStateFailed), w)
              | Some commandsState \<Rightarrow>
                  (let stateExists = (map_of commandsState targetFilename \<noteq> None) in
                   case Abs E defaultCommandDir of
                     None \<Rightarrow> (Returns (Some (AbsPathFailed defaultCommandDir)), w)
                   | Some absCommandDir \<Rightarrow>
                       (case Abs E targetFilePath of
                          None \<Rightarrow> (Returns (Some (AbsPathFailed targetFilePath)), w)
                        | Some absTargetFilePath \<Rightarrow>
                            if outsideBase absTargetFilePath absCommandDir
                            then (Returns (Some (OutsideBaseDirectory targetFilePath)), w)
                            else
                              (case perform E (Remove targetFilePath) w of
                                 (IoError, w1) \<Rightarrow> (Returns (Some (RemoveFailed targetFilePath)), w1)
                               | (_, w1) \<Rightarrow>
                                   if stateExists then
                                     (case SaveStateOp E
                                             (AList.delete targetFilename commandsState) w1 of
                                        (True, w2) \<Rightarrow> (Deadlock, w2)
                                      | (False, w2) \<Rightarrow>
                                          (Returns (Some (StateNotSaved commandName
                                                            (SaveStateFailed targetFilename))),
                                           w2))
                                   else (Deadlock, w1))))))"

section \<open>The state files (package configuration)\<close>

text \<open>
  A Go map that may be nil. The managers above see the file through
  \<^const>\<open>LoadStateOp\<close> and \<^const>\<open>SaveStateOp\<close>; here are the bytes.
\<close>

datatype 'a gomap = NilMap | GoMap "(string \<times> 'a) list"

definition entries :: "'a gomap \<Rightarrow> (string \<times> 'a) list" where
  "entries m = (case m of NilMap \<Rightarrow> [] | GoMap kvs \<Rightarrow> kvs)"

text \<open>
  \<^verbatim>\<open>encoding/json\<close> belongs to the Go standard library: \<open>marshalIndent\<close> is
  \<^verbatim>\<open>json.MarshalIndent(dataToSave, "", "  ")\<close> on the wrapper map, \<open>unmarshalNested\<close> is
  \<^verbatim>\<open>json.Unmarshal\<close> into a \<^verbatim>\<open>map[string]map[string]T\<close> and \<open>unmarshalDirect\<close> into a
  \<^verbatim>\<open>map[string]T\<close>; \<open>None\<close> is an error.
\<close>

record 'e codec =
  marshalIndent :: "(string \<times> 'e gomap) list \<Rightarrow> bytes option"
  unmarshalNested :: "bytes \<Rightarrow> 'e gomap gomap option"
  unmarshalDirect :: "bytes \<Rightarrow> 'e gomap option"

text \<open>
  The disk: the regular files and their contents, \<^verbatim>\<open>filepath.Dir\<close>, and which operations
  the operating system refuses. A write that fails may leave anything behind.
\<close>

record disk =
  files :: "path \<rightharpoonup> bytes"
  dirOf :: "path \<Rightarrow> path"
  cannotRead :: "path \<Rightarrow> bool"
  cannotMkdir :: "path \<Rightarrow> bool"
  cannotWrite :: "path \<Rightarrow> bool"
  afterFailedWrite :: "path \<Rightarrow> bytes option"

datatype state_error = ReadStateFailed path | UnmarshalStateFailed path
  | MkdirStateFailed path | MarshalStateFailed | WriteStateFailed path

definition loadState :: "'e codec \<Rightarrow> path \<Rightarrow> disk \<Rightarrow> state_error + 'e gomap" where
  "loadState C statePath d =
     (let stateMap = GoMap [] in
      case files d statePath of
        None \<Rightarrow> Inr stateMap
      | Some data \<Rightarrow>
          if cannotRead d statePath then Inl (ReadStateFailed statePath)
          else if length data = 0 then Inr stateMap
          else
            (case unmarshalNested C data of
               None \<Rightarrow>
                 (case unmarshalDirect C data of
                    Some direct \<Rightarrow> Inr direct
                  | None \<Rightarrow> Inl (UnmarshalStateFailed statePath))
             | Some tempStore \<Rightarrow>
                 (let found = (case entries tempStore of [] \<Rightarrow> stateMap | (k, v) # rest \<Rightarrow> v)
                  in if found = NilMap then Inr (GoMap []) else Inr found)))"

definition saveState ::
  "'e codec \<Rightarrow> (string \<times> 'e gomap) list \<Rightarrow> path \<Rightarrow> disk \<Rightarrow> state_error option \<times> disk" where
  "saveState C dataToSave statePath d =
     (let dir = dirOf d statePath in
      if cannotMkdir d dir then (Some (MkdirStateFailed dir), d)
      else case marshalIndent C dataToSave of
        None \<Rightarrow> (Some MarshalStateFailed, d)
      | Some data \<Rightarrow>
          if cannotWrite d statePath
          then (Some (WriteStateFailed statePath),
                d\<lparr>files := (files d)(statePath := afterFailedWrite d statePath)\<rparr>)
          else (None, d\<lparr>files := (files d)(statePath \<mapsto> data)\<rparr>))"

definition defaultThemesStatePath :: path where
  "defaultThemesStatePath = ''configs/themes.json''"

definition defaultPluginsStatePath :: path where
  "defaultPluginsStatePath = ''configs/plugins.json''"

definition defaultCommandsStatePath :: path where
  "defaultCommandsStatePath = ''configs/commands.json''"

text \<open>The variadic \<open>statePath\<close>: its first element when that is not empty.\<close>

definition pathOrDefault :: "path \<Rightarrow> path list \<Rightarrow> path" where
  "pathOrDefault dflt statePath =
     (case statePath of [] \<Rightarrow> dflt | p # ps \<Rightarrow> if p \<noteq> [] then p else dflt)"

definition LoadThemesState :: "'e codec \<Rightarrow> path list \<Rightarrow> disk \<Rightarrow> state_error + 'e gomap" where
  "LoadThemesState C statePath d = loadState C (pathOrDefault defaultThemesStatePath statePath) d"

definition SaveThemesState ::
  "'e codec \<Rightarrow> 'e gomap \<Rightarrow> path list \<Rightarrow> disk \<Rightarrow> state_error option \<times> disk" where
  "SaveThemesState C themes statePath d =
     saveState C [(''themes'', themes)] (pathOrDefault defaultThemesStatePath statePath) d"

definition LoadPluginsState :: "'e codec \<Rightarrow> path list \<Rightarrow> disk \<Rightarrow> state_error + 'e gomap" where
  "LoadPluginsState C statePath d = loadState C (pathOrDefault defaultPluginsStatePath statePath) d"

definition SavePluginsState ::
  "'e codec \<Rightarrow> 'e gomap \<Rightarrow> path list \<Rightarrow> disk \<Rightarrow> state_error option \<times> disk" where
  "SavePluginsState C plugins statePath d =
     saveState C [(''plugins'', plugins)] (pathOrDefault defaultPluginsStatePath statePath) d"

definition LoadCommandsState :: "'e codec \<Rightarrow> path list \<Rightarrow> disk \<Rightarrow> state_error + 'e gomap" where
  "LoadCommandsState C statePath d =
     loadState C (pathOrDefault defaultCommandsStatePath statePath) d"

definition SaveCommandsState ::
  "'e codec \<Rightarrow> 'e gomap \<Rightarrow> path list \<Rightarrow> disk \<Rightarrow> state_error option \<times> disk" where
  "SaveCommandsState C commands statePath d =
     saveState C [(''commands'', commands)] (pathOrDefault defaultCommandsStatePath statePath) d"

section \<open>Observations on manifests and state maps\<close>

text \<open>
  The names of a theme's structure tree: the keys of the structure and, recursively,
  of every nested map the code reads as a sub-directory.
\<close>

fun treeNames :: "structure_map \<Rightarrow> string list" and nodeNames :: "node \<Rightarrow> string list" where
  "treeNames [] = []"
| "treeNames ((key, v) # rest) = key # nodeNames v @ treeNames rest"
| "nodeNames (MapV m) = (case assetOfMap m of Some a \<Rightarrow> [] | None \<Rightarrow> treeNames m)"
| "nodeNames (AssetDetail u c) = []"
| "nodeNames (StringV v) = []"
| "nodeNames OtherV = []"

text \<open>The checksums of the leaves of a theme's structure tree.\<close>

fun treeSums :: "structure_map \<Rightarrow> string list" and nodeSums :: "node \<Rightarrow> string list" where
  "treeSums [] = []"
| "treeSums ((key, v) # rest) = nodeSums v @ treeSums rest"
| "nodeSums (MapV m) = (case assetOfMap m of Some (u, c) \<Rightarrow> [c] | None \<Rightarrow> treeSums m)"
| "nodeSums (AssetDetail u c) = [c]"
| "nodeSums (StringV v) = []"
| "nodeSums OtherV = []"

text \<open>The names of a plugin's structure tree: there every nested map is a sub-directory.\<close>

fun pluginTreeNames :: "structure_map \<Rightarrow> string list"
  and pluginNodeNames :: "node \<Rightarrow> string list" where
  "pluginTreeNames [] = []"
| "pluginTreeNames ((key, v) # rest) = key # pluginNodeNames v @ pluginTreeNames rest"
| "pluginNodeNames (MapV m) = pluginTreeNames m"
| "pluginNodeNames (AssetDetail u c) = []"
| "pluginNodeNames (StringV v) = []"
| "pluginNodeNames OtherV = []"

text \<open>A name with a path separator in it, or the name \<open>.\<close> or \<open>..\<close>.\<close>

definition separatorOrDots :: "string \<Rightarrow> bool" where
  "separatorOrDots k = (CHR ''/'' \<in> set k \<or> CHR 0x5C \<in> set k \<or> k = ''.'' \<or> k = ''..'')"

definition anyHexDigit :: "char \<Rightarrow> bool" where
  "anyHexDigit c = (c \<in> set ''0123456789abcdefABCDEF'')"

text \<open>64 hexadecimal digits, of either case.\<close>

definition hex64 :: "string \<Rightarrow> bool" where
  "hex64 s = (length s = 64 \<and> list_all anyHexDigit s)"

text \<open>An entry of the state map with the manifest's source link and version.\<close>

definition matchesTheme :: "ThemeMetadata \<Rightarrow> InstalledThemeEntry \<Rightarrow> bool" where
  "matchesTheme meta entry =
     (te_SourceLink entry = tm_SourceLink meta \<and> te_Version entry = tm_Version meta)"

definition matchesPlugin :: "PluginMetadata \<Rightarrow> InstalledPluginEntry \<Rightarrow> bool" where
  "matchesPlugin meta entry =
     (pe_SourceLink entry = pm_SourceLink meta \<and> pe_Version entry = pm_Version meta)"

text \<open>
  The invariant of the theme and plugin state maps: every entry is stored under a
  non-empty local ID (the generator returns \<^verbatim>\<open>prefix + "_" + randomPart\<close>, and no other
  key is ever added).
\<close>

definition nonEmptyKeys :: "(string \<times> 'e) list \<Rightarrow> bool" where
  "nonEmptyKeys st = list_all (\<lambda>(k, e). k \<noteq> []) st"

text \<open>
  The invariant of the command state map: entries are stored under file names, which
  hold no path separator.
\<close>

definition separatorFreeKeys :: "(string \<times> 'e) list \<Rightarrow> bool" where
  "separatorFreeKeys st = list_all (\<lambda>(k, e). \<not> ContainsAny k pathSeparators) st"

text \<open>
  The assets of a theme's structure tree installed under a directory: for every leaf,
  the path its file is saved to and the checksum the manifest declares for it.
\<close>

fun treeAssets :: "('s, 'c, 'm) sys \<Rightarrow> path \<Rightarrow> structure_map \<Rightarrow> (path \<times> string) list"
  and nodeAssets :: "('s, 'c, 'm) sys \<Rightarrow> path \<Rightarrow> node \<Rightarrow> (path \<times> string) list" where
  "treeAssets E baseSavePath [] = []"
| "treeAssets E baseSavePath ((name, v) # rest) =
     nodeAssets E (Join E baseSavePath name) v @ treeAssets E baseSavePath rest"
| "nodeAssets E currentSavePath (MapV m) =
     (case assetOfMap m of
        Some (u, c) \<Rightarrow> [(currentSavePath, c)]
      | None \<Rightarrow> treeAssets E currentSavePath m)"
| "nodeAssets E currentSavePath (AssetDetail u c) = [(currentSavePath, c)]"
| "nodeAssets E currentSavePath (StringV v) = []"
| "nodeAssets E currentSavePath OtherV = []"

text \<open>
  The asset is downloaded, written to its file and hashed: every step the walk takes
  for it before the comparison of the checksums succeeds, and \<open>body\<close> is what was
  downloaded.
\<close>

definition savedAndHashed ::
  "('s, 'c, 'm) sys \<Rightarrow> path \<Rightarrow> string \<Rightarrow> URL option \<Rightarrow> bytes \<Rightarrow> ('s, 'c) world \<Rightarrow> bool" where
  "savedAndHashed E p urlString baseURL body w =
     (case resolveAssetURL E urlString baseURL of
        None \<Rightarrow> False
      | Some resolved \<Rightarrow>
          httpGet E (trace w) resolved = HttpResponse 200 body True \<and>
          io E (trace w) (MkdirAll (Dir E p)) = IoOk \<and>
          io E (trace w @ [MkdirAll (Dir E p)]) (Create p) = IoOk \<and>
          io E (trace w @ [MkdirAll (Dir E p), Create p]) (Copy p body) = IoOk \<and>
          io E (trace w @ [MkdirAll (Dir E p), Create p, Copy p body]) (Close p) = IoOk \<and>
          \<not> readFails E (trace w @ [MkdirAll (Dir E p), Create p, Copy p body, Close p])
              (OpenFile p) \<and>
          \<not> readFails E (trace w @ [MkdirAll (Dir E p), Create p, Copy p body, Close p])
              (HashFile p))"

text \<open>
  Where the walk over a structure tree stands when it comes to the asset at a position
  of the tree (the index of an entry, then the index inside that sub-directory, and so
  on): the path the asset is saved to, its name, URL and declared checksum, and the
  world after every entry before it has been processed without error. \<open>None\<close> when
  the position is not that of an asset or the walk ends before it gets there.
\<close>

fun walkTo ::
  "('s, 'c, 'm) sys \<Rightarrow> path \<Rightarrow> structure_map \<Rightarrow> URL option \<Rightarrow> ('s, 'c) world \<Rightarrow> nat list \<Rightarrow>
     (path \<times> string \<times> string \<times> string \<times> ('s, 'c) world) option" where
  "walkTo E baseSavePath tree baseURL w [] = None"
| "walkTo E baseSavePath tree baseURL w (i # position) =
     (if length tree \<le> i then None
      else case downloadAndSaveStructure E baseSavePath (take i tree) baseURL w of
        (Some err, w1) \<Rightarrow> None
      | (None, w1) \<Rightarrow>
          (case tree ! i of (name, item) \<Rightarrow>
             (let currentSavePath = Join E baseSavePath name in
              case item of
                AssetDetail urlString sumString \<Rightarrow>
                  if position = [] then Some (currentSavePath, name, urlString, sumString, w1)
                  else None
              | MapV mapItem \<Rightarrow>
                  (case assetOfMap mapItem of
                     Some (urlString, sumString) \<Rightarrow>
                       if position = []
                       then Some (currentSavePath, name, urlString, sumString, w1)
                       else None
                   | None \<Rightarrow>
                       (case perform E (MkdirAll currentSavePath) w1 of
                          (IoOk, w2) \<Rightarrow> walkTo E currentSavePath mapItem baseURL w2 position
                        | (_, w2) \<Rightarrow> None))
              | StringV v \<Rightarrow> None
              | OtherV \<Rightarrow> None)))"

text \<open>
  The second world differs from the first by operations appended to the trace only:
  the state file and the cache are as they were.
\<close>

definition onlyAppends :: "('s, 'c) world \<Rightarrow> ('s, 'c) world \<Rightarrow> bool" where
  "onlyAppends w w' =
     (persisted w' = persisted w \<and> cache w' = cache w \<and> (\<exists>t. trace w' = trace w @ t))"

section \<open>A concrete environment\<close>

text \<open>
  An environment in which the theorems below are exercised: one host, every file
  operation succeeds, and the standard library answers as Go does on the few
  arguments that occur (paths without dots or doubled separators, the listed URLs).
\<close>

definition exSum :: string where
  "exSum = ''e3b0c44298fc1c149afbf4c8996fb92427ae41e4649b934ca495991b7852b855''"

definition exUpperSum :: string where
  "exUpperSum = ''E3B0C44298FC1C149AFBF4C8996FB92427AE41E4649B934CA495991B7852B855''"

definition exURLs :: "string list" where
  "exURLs = [''https://example.com/theme.yaml'', ''https://example.com/plugin.yaml'',
             ''https://example.com/index.html'', ''https://example.com/run.sh'']"

definition exParseURL :: "string \<Rightarrow> URL option" where
  "exParseURL s =
     (if s \<in> set exURLs then Some \<lparr>Scheme = ''https'', Host = ''example.com'', url_String = s\<rparr>
      else None)"

definition exDir :: "path \<Rightarrow> path" where
  "exDir p = rev (drop 1 (dropWhile (\<lambda>c. c \<noteq> CHR ''/'') (rev p)))"

definition exBase :: "path \<Rightarrow> path" where
  "exBase p = rev (takeWhile (\<lambda>c. c \<noteq> CHR ''/'') (rev p))"

definition exGet :: "string \<Rightarrow> http_response" where
  "exGet u =
     (if u = ''https://example.com/theme.yaml'' \<or> u = ''https://example.com/plugin.yaml''
      then HttpResponse 200 ''manifest'' True
      else if u = ''https://example.com/index.html'' then HttpResponse 200 ''<html/>'' True
      else if u = ''https://example.com/run.sh'' then HttpResponse 200 ''script'' True
      else HttpError)"

definition exSys :: "(bytes \<Rightarrow> 'm option) \<Rightarrow> 'c \<Rightarrow> string \<Rightarrow> ('s, 'c, 'm) sys" where
  "exSys unmarshal found digest =
     \<lparr>ParseRequestURI = exParseURL, Parse = exParseURL, ParseRef = (\<lambda>b s. exParseURL s),
      ResolveReference = (\<lambda>b r. r), Join = (\<lambda>a b. a @ ''/'' @ b),
      Abs = (\<lambda>p. Some (''/srv/'' @ p)), Clean = (\<lambda>p. p), Dir = exDir, Base = exBase,
      httpGet = (\<lambda>t u. exGet u), Stat = (\<lambda>t p. StatNotExist), ReadFile = (\<lambda>t p. None),
      readFails = (\<lambda>t r. False), io = (\<lambda>t ev. IoOk), sha256hex = (\<lambda>b. digest),
      now = (\<lambda>t. ''2025-06-01T00:00:00Z''), generateRandomString = (\<lambda>t. Some ''new''),
      yamlUnmarshal = unmarshal, jsonMarshalIndent = (\<lambda>m. Some ''{}''),
      jsonUnmarshal = (\<lambda>b. None), discover = (\<lambda>t. found), scanLines = (\<lambda>b. ([], False))\<rparr>"

text \<open>A theme manifest with one file, under the given name and with the given checksum.\<close>

definition exTheme :: "string \<Rightarrow> string \<Rightarrow> ThemeMetadata" where
  "exTheme name checksum =
     \<lparr>tm_Name = ''demo'', tm_Authors = [\<lparr>author_Name = ''ann'', author_Email = [], author_URL = []\<rparr>],
      tm_Version = ''1.0.0'', tm_Description = ''a theme'',
      tm_SourceLink = ''https://example.com/theme.yaml'',
      tm_Structure = [(name, MapV [(''url'', StringV ''https://example.com/index.html''),
                                   (''sum'', StringV checksum)])],
      tm_InstalledAt = [], tm_LastUpdatedAt = []\<rparr>"

abbreviation exThemeSys :: "string \<Rightarrow> string \<Rightarrow> themes_sys" where
  "exThemeSys name checksum \<equiv>
     exSys (\<lambda>b. if b = ''manifest'' then Some (exTheme name checksum) else None) [] exSum"

definition exThemeEntry :: "string \<Rightarrow> string \<Rightarrow> InstalledThemeEntry" where
  "exThemeEntry k ver =
     \<lparr>ThmID = k, te_Name = ''demo'', te_Version = ver,
      te_SourceLink = ''https://example.com/theme.yaml'',
      te_InstalledAt = ''2024-01-01T00:00:00Z'', te_LastUpdatedAt = ''2024-01-01T00:00:00Z''\<rparr>"

text \<open>
  A world whose theme state has one entry, from the source of the manifest above, under
  the key \<open>k\<close> and with the version \<open>ver\<close>.
\<close>

definition exThemeWorld :: "string \<Rightarrow> string \<Rightarrow> themes_world" where
  "exThemeWorld k ver = \<lparr>trace = [], persisted = [(k, exThemeEntry k ver)], cache = []\<rparr>"

text \<open>The same for plugins.\<close>

definition exPlugin :: "string \<Rightarrow> PluginMetadata" where
  "exPlugin name =
     \<lparr>pm_Name = ''demo'', pm_Authors = [''ann''], pm_Version = ''1.0.0'',
      pm_Description = ''a plugin'', pm_SourceLink = ''https://example.com/plugin.yaml'',
      pm_APIVersion = ''v1'',
      pm_Structure = [(name, StringV ''https://example.com/index.html'')],
      pm_Dependencies = [], pm_Endpoints = []\<rparr>"

abbreviation exPluginSys :: "string \<Rightarrow> plugins_sys" where
  "exPluginSys name \<equiv>
     exSys (\<lambda>b. if b = ''manifest'' then Some (exPlugin name) else None) () exSum"

definition exPluginEntry :: "string \<Rightarrow> string \<Rightarrow> InstalledPluginEntry" where
  "exPluginEntry k ver =
     \<lparr>PlgID = k, pe_Name = ''demo'', pe_Version = ver,
      pe_SourceLink = ''https://example.com/plugin.yaml''\<rparr>"

definition exPluginWorld :: "string \<Rightarrow> string \<Rightarrow> plugins_world" where
  "exPluginWorld k ver = \<lparr>trace = [], persisted = [(k, exPluginEntry k ver)], cache = ()\<rparr>"

text \<open>A well-formed checksum that is not the digest the environment computes.\<close>

definition exZeroSum :: string where
  "exZeroSum = ''0000000000000000000000000000000000000000000000000000000000000000''"

text \<open>A response body of one byte more than 1 MiB, and the environment that serves it.\<close>

definition exBigBody :: bytes where
  "exBigBody = replicate (2 ^ 20 + 1) CHR ''a''"

definition exBigSys :: "(bytes \<Rightarrow> 'm option) \<Rightarrow> 'c \<Rightarrow> ('s, 'c, 'm) sys" where
  "exBigSys unmarshal found =
     (exSys unmarshal found exSum)\<lparr>httpGet := (\<lambda>t u. HttpResponse 200 exBigBody True)\<rparr>"

text \<open>A command of the same host, its entry in the state file and the manager's cache.\<close>

definition exCommand :: CommandMetadata where
  "exCommand =
     \<lparr>Command = ''run'', PkgManagers = [''apt''], cm_Dependencies = [],
      cm_Authors = Some [''ann''], cm_Version = ''1.0.0'', cm_Description = ''a command'',
      cm_SourceLink = ''https://example.com/run.sh'', FilePath = ''ext/commands/run.sh''\<rparr>"

definition exCommandEntry :: "string \<Rightarrow> string \<Rightarrow> InstalledCommandEntry" where
  "exCommandEntry filename sourceLink =
     \<lparr>Filename = filename, ce_Name = ''run'', ce_Version = ''1.0.0'', ce_SourceLink = sourceLink\<rparr>"

definition exCommandWorld :: "string \<Rightarrow> string \<Rightarrow> commands_world" where
  "exCommandWorld filename sourceLink =
     \<lparr>trace = [], persisted = [(filename, exCommandEntry filename sourceLink)],
      cache = [(''run'', exCommand)]\<rparr>"

abbreviation exCommandSys :: commands_sys where
  "exCommandSys \<equiv> exSys Map.empty [] exSum"

section \<open>Validation\<close>

lemma lowerHexDigit_lowerByte: "lowerHexDigit (lowerByte c) = anyHexDigit c"
  unfolding lowerHexDigit_def lowerByte_def anyHexDigit_def
  by (auto split: option.splits if_splits)

lemma matchSha256_ToLower: "matchSha256 (ToLower s) = hex64 s"
  by (simp add: matchSha256_def ToLower_def hex64_def list_all_iff lowerHexDigit_lowerByte)

lemma validateKey_bad: "separatorOrDots k \<Longrightarrow> validateKey k \<noteq> None"
  by (auto simp: validateKey_def separatorOrDots_def ContainsAny_def pathSeparators_def list_ex_iff)

lemma validate_names:
  "k \<in> set (treeNames t) \<Longrightarrow> validateKey k \<noteq> None \<Longrightarrow> validateStructureContent P t \<noteq> None"
  "k \<in> set (nodeNames v) \<Longrightarrow> validateKey k \<noteq> None \<Longrightarrow> validateValue P key v \<noteq> None"
  by (induction P t and P key v rule: validateStructureContent_validateValue.induct)
     (auto split: option.splits)

lemma validateAsset_sum: "\<not> hex64 c \<Longrightarrow> \<exists>e. validateAsset P key u c = Some e"
  by (auto simp: validateAsset_def matchSha256_ToLower split: option.splits)

lemma validate_sums:
  "c \<in> set (treeSums t) \<Longrightarrow> \<not> hex64 c \<Longrightarrow> validateStructureContent P t \<noteq> None"
  "c \<in> set (nodeSums v) \<Longrightarrow> \<not> hex64 c \<Longrightarrow> validateValue P key v \<noteq> None"
  by (induction P t and P key v rule: validateStructureContent_validateValue.induct)
     (auto split: option.splits simp: validateAsset_sum)

lemma validate_plugin_names:
  "k \<in> set (pluginTreeNames t) \<Longrightarrow> validateKey k \<noteq> None \<Longrightarrow>
     validatePluginStructureContent P t \<noteq> None"
  "k \<in> set (pluginNodeNames v) \<Longrightarrow> validateKey k \<noteq> None \<Longrightarrow>
     validatePluginValue P key v \<noteq> None"
  by (induction P t and P key v rule: validatePluginStructureContent_validatePluginValue.induct)
     (auto split: option.splits)

lemma themes_Validate_structure:
  "validateStructureContent P (tm_Structure m) \<noteq> None \<Longrightarrow> themes_Validate P m \<noteq> None"
  by (auto simp: themes_Validate_def split: option.splits)

lemma plugins_Validate_structure:
  "validatePluginStructureContent P (pm_Structure m) \<noteq> None \<Longrightarrow> plugins_Validate P m \<noteq> None"
  by (auto simp: plugins_Validate_def split: option.splits)

lemma isBlank_Nil: "isBlank []"
  by (simp add: isBlank_def TrimSpace_def)

lemma plugins_Validate_SourceLink: "plugins_Validate P m = None \<Longrightarrow> pm_SourceLink m \<noteq> []"
  by (auto simp: plugins_Validate_def isBlank_Nil split: if_splits option.splits)

section \<open>The exact-match scan\<close>

lemma find_Some_ex: "x \<in> set xs \<Longrightarrow> P x \<Longrightarrow> \<exists>y. find P xs = Some y \<and> y \<in> set xs \<and> P y"
  by (induction xs) auto

lemma exactMatchDir_alt:
  "exactMatchDir meta st =
     (case find (\<lambda>p. matchesTheme meta (snd p)) st of Some p \<Rightarrow> fst p | None \<Rightarrow> [])"
  by (induction st) (auto simp: exactMatchDir_def matchesTheme_def)

lemma exactMatchDir_found:
  assumes "(k, e) \<in> set st" "matchesTheme meta e"
  shows "\<exists>k' e'. (k', e') \<in> set st \<and> matchesTheme meta e' \<and> exactMatchDir meta st = k'"
proof -
  from find_Some_ex[of "(k, e)" st "\<lambda>p. matchesTheme meta (snd p)"] assms
  obtain y where y: "find (\<lambda>p. matchesTheme meta (snd p)) st = Some y"
    "y \<in> set st" "matchesTheme meta (snd y)"
    by auto
  then have "exactMatchDir meta st = fst y" by (simp add: exactMatchDir_alt)
  moreover from y have "(fst y, snd y) \<in> set st" by simp
  ultimately show ?thesis using y(3) by blast
qed

lemma pluginExactMatchDir_alt:
  "pluginExactMatchDir meta st =
     (case find (\<lambda>p. matchesPlugin meta (snd p)) st of Some p \<Rightarrow> fst p | None \<Rightarrow> [])"
  by (induction st) (auto simp: pluginExactMatchDir_def matchesPlugin_def)

lemma pluginExactMatchDir_found:
  assumes "(k, e) \<in> set st" "matchesPlugin meta e"
  shows "\<exists>k' e'. (k', e') \<in> set st \<and> matchesPlugin meta e' \<and> pluginExactMatchDir meta st = k'"
proof -
  from find_Some_ex[of "(k, e)" st "\<lambda>p. matchesPlugin meta (snd p)"] assms
  obtain y where y: "find (\<lambda>p. matchesPlugin meta (snd p)) st = Some y"
    "y \<in> set st" "matchesPlugin meta (snd y)"
    by auto
  then have "pluginExactMatchDir meta st = fst y" by (simp add: pluginExactMatchDir_alt)
  moreover from y have "(fst y, snd y) \<in> set st" by simp
  ultimately show ?thesis using y(3) by blast
qed

section \<open>Operations that only append to the trace\<close>

lemma onlyAppends_refl [simp]: "onlyAppends w w"
  by (simp add: onlyAppends_def)

lemma onlyAppends_trans: "onlyAppends w w1 \<Longrightarrow> onlyAppends w1 w2 \<Longrightarrow> onlyAppends w w2"
  by (auto simp: onlyAppends_def)

lemma onlyAppends_perform: "onlyAppends w (snd (perform E ev w))"
  by (simp add: onlyAppends_def perform_def)

lemma verifyChecksum_appends:
  "verifyChecksum E p n c body w = (r, w') \<Longrightarrow> onlyAppends w w'"
  by (auto simp: verifyChecksum_def Let_def perform_def onlyAppends_def split: if_splits)

lemma saveAndVerify_appends:
  "saveAndVerify E p n c body ok w = (r, w') \<Longrightarrow> onlyAppends w w'"
  unfolding saveAndVerify_def perform_def Let_def
  by (auto split: io_result.splits if_splits prod.splits dest!: verifyChecksum_appends
           simp: onlyAppends_def perform_def)

lemma downloadAsset_appends:
  "downloadAsset E p n u c base w = (r, w') \<Longrightarrow> onlyAppends w w'"
  unfolding downloadAsset_def Let_def
  by (auto split: option.splits http_response.splits if_splits dest: saveAndVerify_appends)

lemma download_appends:
  "downloadAndSaveStructure E p t base w = (r, w') \<Longrightarrow> onlyAppends w w'"
  "downloadItem E q n v base w = (r, w') \<Longrightarrow> onlyAppends w w'"
proof (induction E p t base w and E q n v base w arbitrary: r w' and r w'
       rule: downloadAndSaveStructure_downloadItem.induct)
  case (1 E baseSavePath baseURL w)
  then show ?case by simp
next
  case (2 E baseSavePath name item rest baseURL w)
  show ?case
  proof (cases "downloadItem E (Join E baseSavePath name) name item baseURL w")
    case (Pair a w1)
    with 2(1) have s1: "onlyAppends w w1" by blast
    show ?thesis
    proof (cases a)
      case None
      with Pair 2(3) have d: "downloadAndSaveStructure E baseSavePath rest baseURL w1 = (r, w')"
        by simp
      have "onlyAppends w1 w'" by (rule 2(2)[OF Pair[symmetric] None d])
      with s1 show ?thesis by (rule onlyAppends_trans)
    next
      case (Some err)
      with Pair 2(3) have "w' = w1" by simp
      with s1 show ?thesis by simp
    qed
  qed
next
  case (3 E currentSavePath name urlString sumString baseURL w)
  then show ?case by (auto dest: downloadAsset_appends)
next
  case (4 E currentSavePath name mapItem baseURL w)
  show ?case
  proof (cases "assetOfMap mapItem")
    case (Some a)
    with 4(2) show ?thesis by (cases a) (auto dest: downloadAsset_appends)
  next
    case None
    show ?thesis
    proof (cases "io E (trace w) (MkdirAll currentSavePath) = IoOk")
      case True
      with None 4(2) have
        "downloadAndSaveStructure E currentSavePath mapItem baseURL
           (w\<lparr>trace := trace w @ [MkdirAll currentSavePath]\<rparr>) = (r, w')"
        by (simp add: perform_def)
      with 4(1)[OF None, of IoOk "w\<lparr>trace := trace w @ [MkdirAll currentSavePath]\<rparr>"] True
      have "onlyAppends (w\<lparr>trace := trace w @ [MkdirAll currentSavePath]\<rparr>) w'"
        by (simp add: perform_def)
      then show ?thesis by (auto simp: onlyAppends_def)
    next
      case False
      with None 4(2) show ?thesis
        by (auto simp: perform_def onlyAppends_def split: io_result.splits)
    qed
  qed
next
  case (5 E currentSavePath name v baseURL w)
  then show ?case by simp
next
  case (6 E currentSavePath name baseURL w)
  then show ?case by simp
qed

section \<open>The concrete environment, step by step\<close>

lemmas string_simps = isBlank_def TrimSpace_def ContainsAny_def pathSeparators_def
  asciiSpace_def spaceRune2_def spaceRune3_def matchSha256_def ToLower_def lowerByte_def
  lowerHexDigit_def EqualFold_def HasPrefix_def

lemmas validate_simps = themes_Validate_def validateKey_def validateAsset_def assetOfMap_def

lemmas world_simps = perform_def SaveStateOp_def LoadStateOp_def outsideBase_def
  PathSeparator_def isHTTP_def

lemmas ex_simps = exParseURL_def exURLs_def exGet_def exDir_def exBase_def exTheme_def
  exSum_def exUpperSum_def exThemeEntry_def exThemeWorld_def

lemma exSys_sel [simp]:
  "ParseRequestURI (exSys u f d) = exParseURL"
  "Parse (exSys u f d) = exParseURL"
  "ParseRef (exSys u f d) = (\<lambda>b s. exParseURL s)"
  "ResolveReference (exSys u f d) = (\<lambda>b r. r)"
  "Join (exSys u f d) = (\<lambda>a b. a @ ''/'' @ b)"
  "Abs (exSys u f d) = (\<lambda>p. Some (''/srv/'' @ p))"
  "Clean (exSys u f d) = (\<lambda>p. p)"
  "Dir (exSys u f d) = exDir"
  "Base (exSys u f d) = exBase"
  "httpGet (exSys u f d) = (\<lambda>t u. exGet u)"
  "Stat (exSys u f d) = (\<lambda>t p. StatNotExist)"
  "ReadFile (exSys u f d) = (\<lambda>t p. None)"
  "readFails (exSys u f d) = (\<lambda>t r. False)"
  "io (exSys u f d) = (\<lambda>t ev. IoOk)"
  "sha256hex (exSys u f d) = (\<lambda>b. d)"
  "now (exSys u f d) = (\<lambda>t. ''2025-06-01T00:00:00Z'')"
  "generateRandomString (exSys u f d) = (\<lambda>t. Some ''new'')"
  "yamlUnmarshal (exSys u f d) = u"
  "jsonMarshalIndent (exSys u f d) = (\<lambda>m. Some ''{}'')"
  "jsonUnmarshal (exSys u f d) = (\<lambda>b. None)"
  "discover (exSys u f d) = (\<lambda>t. f)"
  "scanLines (exSys u f d) = (\<lambda>b. ([], False))"
  by (simp_all add: exSys_def)

lemma ex_validate:
  "themes_Validate exParseURL (exTheme ''index.html'' exSum) = None"
  "themes_Validate exParseURL (exTheme ''index.html'' exUpperSum) = None"
  "themes_Validate exParseURL (exTheme ''a/b'' exSum) = Some (InvalidStructure (NameInvalid ''a/b''))"
  "themes_Validate exParseURL (exTheme ''index.html'' ''00'') =
     Some (InvalidStructure (AssetSumFormat ''index.html''))"
  by (simp_all add: ex_simps validate_simps string_simps)

lemma ex_fetchYAML:
  "fetchThemeYAML (exThemeSys n c) ''https://example.com/theme.yaml'' w =
   Inr (''manifest'',
        Some \<lparr>Scheme = ''https'', Host = ''example.com'',
              url_String = ''https://example.com/theme.yaml''\<rparr>, False)"
  by (simp add: fetchThemeYAML_def isHTTP_def exParseURL_def exURLs_def exGet_def)

lemma ex_fetch:
  "fetchAndValidateDefinition (exThemeSys ''index.html'' exSum) ''https://example.com/theme.yaml'' w =
   Inr (exTheme ''index.html'' exSum,
        Some \<lparr>Scheme = ''https'', Host = ''example.com'',
              url_String = ''https://example.com/theme.yaml''\<rparr>, False)"
  by (simp add: fetchAndValidateDefinition_def ex_fetchYAML ex_validate)

lemma ex_load: "LoadStateOp (exThemeSys n c) (exThemeWorld k v) = Some [(k, exThemeEntry k v)]"
  by (simp add: LoadStateOp_def exThemeWorld_def)

lemma ex_action:
  "determineInstallAction (exTheme n c) force [(k, exThemeEntry k ''1.0.0'')] =
     (if k = [] then (ActionInstallNew, [], None)
      else if force then (ActionOverwrite, k, None)
      else (ActionErrorExists, k, Some ErrThemeAlreadyExistsNoForce))"
  by (simp add: determineInstallAction_def exactMatchDir_def exTheme_def exThemeEntry_def)

lemma ex_prepare_new:
  "prepareDirectoryForInstall (exThemeSys n c) d meta ActionInstallNew st t w =
     (Inr (''ext/themes/thm_new'', ''thm_new'', meta\<lparr>tm_InstalledAt := t\<rparr>),
      w\<lparr>trace := trace w @ [MkdirAll ''ext/themes/thm_new'']\<rparr>)"
  by (simp add: prepareDirectoryForInstall_def checkAndCreateDirectory_def defaultThemeDir_def
        ThemeID_def Generate_def world_simps HasPrefix_def Let_def)

lemma ex_prepare_overwrite:
  "prepareDirectoryForInstall (exThemeSys n c) ''thm_a'' meta ActionOverwrite
     [(''thm_a'', exThemeEntry ''thm_a'' v)] t w =
     (Inr (''ext/themes/thm_a'', ''thm_a'', meta\<lparr>tm_InstalledAt := ''2024-01-01T00:00:00Z''\<rparr>),
      w\<lparr>trace := trace w @ [RemoveAll ''ext/themes/thm_a'', MkdirAll ''ext/themes/thm_a'']\<rparr>)"
  by (simp add: prepareDirectoryForInstall_def checkAndCreateDirectory_def defaultThemeDir_def
        world_simps HasPrefix_def exThemeEntry_def Let_def)

lemma ex_download:
  "downloadAndSaveStructure (exThemeSys n c) p
     [(''index.html'', MapV [(''url'', StringV ''https://example.com/index.html''),
                             (''sum'', StringV c)])] base w =
     (if EqualFold exSum c
      then (None, w\<lparr>trace := trace w @ [MkdirAll (exDir (p @ ''/index.html'')),
              Create (p @ ''/index.html''), Copy (p @ ''/index.html'') ''<html/>'',
              Close (p @ ''/index.html'')]\<rparr>)
      else (Some (ChecksumMismatch ''index.html'' c exSum),
            w\<lparr>trace := trace w @ [MkdirAll (exDir (p @ ''/index.html'')),
              Create (p @ ''/index.html''), Copy (p @ ''/index.html'') ''<html/>'',
              Close (p @ ''/index.html''), Remove (p @ ''/index.html'')]\<rparr>))"
  by (cases base)
     (simp_all add: assetOfMap_def downloadAsset_def resolveAssetURL_def saveAndVerify_def verifyChecksum_def
        perform_def exParseURL_def exURLs_def exGet_def IsAbs_def)

lemma ex_structure:
  "tm_Structure (exTheme n c) =
     [(n, MapV [(''url'', StringV ''https://example.com/index.html''), (''sum'', StringV c)])]"
  by (simp add: exTheme_def)

lemma ex_write:
  "writeLocalThemeJSON (exThemeSys n c) p meta w =
     (None, w\<lparr>trace := trace w @ [WriteFile (p @ ''/theme.json'') ''{}'']\<rparr>)"
  by (simp add: writeLocalThemeJSON_def perform_def)

lemma ex_state:
  "updateGlobalThemesState (exThemeSys n c) k entry w =
     (None, w\<lparr>trace := trace w @ [SaveState (AList.update k entry (persisted w))],
              persisted := AList.update k entry (persisted w)\<rparr>)"
  by (simp add: updateGlobalThemesState_def world_simps)

lemma ex_equalfold: "EqualFold exSum exSum" "EqualFold exSum exUpperSum" "\<not> EqualFold exSum ''00''"
  by (simp_all add: EqualFold_def ToLower_def lowerByte_def exSum_def exUpperSum_def)

lemmas plugin_ex_simps = exPlugin_def exPluginEntry_def exPluginWorld_def

lemma ex_pfetch:
  "fetchPluginYAML (exPluginSys n) ''https://example.com/plugin.yaml'' w =
   Inr (''manifest'',
        Some \<lparr>Scheme = ''https'', Host = ''example.com'',
              url_String = ''https://example.com/plugin.yaml''\<rparr>, False)"
  by (simp add: fetchPluginYAML_def exParseURL_def exURLs_def exGet_def maxYAMLSize_def Let_def)

lemma ex_pvalidate:
  "plugins_Validate exParseURL (exPlugin ''index.html'') = None"
  "plugins_Validate exParseURL (exPlugin ''..'') = Some (InvalidStructure (NameInvalid ''..''))"
  by (simp_all add: plugins_Validate_def exPlugin_def validateKey_def exParseURL_def exURLs_def
        string_simps)

lemma ex_pload: "LoadStateOp (exPluginSys n) (exPluginWorld k v) = Some [(k, exPluginEntry k v)]"
  by (simp add: LoadStateOp_def exPluginWorld_def)

lemma nonEmptyKeys_in: "nonEmptyKeys st \<Longrightarrow> (k, e) \<in> set st \<Longrightarrow> k \<noteq> []"
  by (auto simp: nonEmptyKeys_def list_all_iff)

text \<open>
  C1. Installing, without force, a manifest whose source link and version are those of
  an entry of the state map returns the already-exists error and leaves the world as
  it was: no file operation, no write of the state. This holds for themes and for
  plugins, on every state map that satisfies the invariant of the local IDs (every
  entry is stored under a non-empty key).
\<close>

theorem C1_exact_match_without_force:
  "(fetchAndValidateDefinition E source w = Inr (meta, parsedSourceURL, isLocalSource) \<and>
    LoadStateOp E w = Some themesState \<and>
    nonEmptyKeys themesState \<and>
    (k, e) \<in> set themesState \<and> matchesTheme meta e
    \<longrightarrow> themes_Install E source False w = ((None, Some ErrThemeAlreadyExistsNoForce), w)) \<and>
   (fetchPluginYAML F psource pw = Inr (yamlData, pURL, pLocal) \<and>
    yamlUnmarshal F yamlData = Some pmeta \<and>
    plugins_Validate (ParseRequestURI F) pmeta = None \<and>
    LoadStateOp F pw = Some pluginsState \<and>
    nonEmptyKeys pluginsState \<and>
    (pk, pe) \<in> set pluginsState \<and> matchesPlugin pmeta pe
    \<longrightarrow> InstallPlugin F psource False pw =
          ((None, Some (AlreadyExists (pm_Name pmeta) (pm_Version pmeta))), pw))"
proof (intro conjI impI; elim conjE)
  assume f: "fetchAndValidateDefinition E source w = Inr (meta, parsedSourceURL, isLocalSource)"
    and l: "LoadStateOp E w = Some themesState"
    and n: "nonEmptyKeys themesState"
    and m: "(k, e) \<in> set themesState" "matchesTheme meta e"
  from exactMatchDir_found[OF m] obtain k' e' where
    ke: "(k', e') \<in> set themesState" "matchesTheme meta e'" "exactMatchDir meta themesState = k'"
    by blast
  from n ke(1) have "k' \<noteq> []" by (rule nonEmptyKeys_in)
  with ke(3) have "exactMatchDir meta themesState \<noteq> []" by simp
  then show "themes_Install E source False w = ((None, Some ErrThemeAlreadyExistsNoForce), w)"
    by (simp add: themes_Install_def determineInstallAction_def f l)
next
  assume f: "fetchPluginYAML F psource pw = Inr (yamlData, pURL, pLocal)"
    and u: "yamlUnmarshal F yamlData = Some pmeta"
    and v: "plugins_Validate (ParseRequestURI F) pmeta = None"
    and l: "LoadStateOp F pw = Some pluginsState"
    and n: "nonEmptyKeys pluginsState"
    and m: "(pk, pe) \<in> set pluginsState" "matchesPlugin pmeta pe"
  from pluginExactMatchDir_found[OF m] obtain k' e' where
    ke: "(k', e') \<in> set pluginsState" "matchesPlugin pmeta e'"
        "pluginExactMatchDir pmeta pluginsState = k'"
    by blast
  from n ke(1) have "k' \<noteq> []" by (rule nonEmptyKeys_in)
  with ke(3) have x: "pluginExactMatchDir pmeta pluginsState \<noteq> []" by simp
  from v have y: "pm_SourceLink pmeta \<noteq> []" by (rule plugins_Validate_SourceLink)
  show "InstallPlugin F psource False pw =
          ((None, Some (AlreadyExists (pm_Name pmeta) (pm_Version pmeta))), pw)"
    by (simp add: InstallPlugin_def f u v l x y)
qed

theorem C1_witness:
  "themes_Install (exThemeSys ''index.html'' exSum) ''https://example.com/theme.yaml'' False
     (exThemeWorld ''thm_a'' ''1.0.0'') =
     ((None, Some ErrThemeAlreadyExistsNoForce), exThemeWorld ''thm_a'' ''1.0.0'') \<and>
   InstallPlugin (exPluginSys ''index.html'') ''https://example.com/plugin.yaml'' False
     (exPluginWorld ''plg_a'' ''1.0.0'') =
     ((None, Some (AlreadyExists ''demo'' ''1.0.0'')), exPluginWorld ''plg_a'' ''1.0.0'')"
proof -
  have m: "matchesTheme (exTheme ''index.html'' exSum) (exThemeEntry ''thm_a'' ''1.0.0'')"
    by (simp add: matchesTheme_def exTheme_def exThemeEntry_def)
  have pm: "matchesPlugin (exPlugin ''index.html'') (exPluginEntry ''plg_a'' ''1.0.0'')"
    by (simp add: matchesPlugin_def exPlugin_def exPluginEntry_def)
  have nm: "pm_Name (exPlugin ''index.html'') = ''demo''"
       "pm_Version (exPlugin ''index.html'') = ''1.0.0''"
    by (simp_all add: exPlugin_def)
  note t = C1_exact_match_without_force[of
      "exThemeSys ''index.html'' exSum" "''https://example.com/theme.yaml''"
      "exThemeWorld ''thm_a'' ''1.0.0''" "exTheme ''index.html'' exSum"
      "Some \<lparr>Scheme = ''https'', Host = ''example.com'',
              url_String = ''https://example.com/theme.yaml''\<rparr>" False
      "[(''thm_a'', exThemeEntry ''thm_a'' ''1.0.0'')]" "''thm_a''"
      "exThemeEntry ''thm_a'' ''1.0.0''"
      "exPluginSys ''index.html''" "''https://example.com/plugin.yaml''"
      "exPluginWorld ''plg_a'' ''1.0.0''" "''manifest''"
      "Some \<lparr>Scheme = ''https'', Host = ''example.com'',
              url_String = ''https://example.com/plugin.yaml''\<rparr>" False
      "exPlugin ''index.html''" "[(''plg_a'', exPluginEntry ''plg_a'' ''1.0.0'')]" "''plg_a''"
      "exPluginEntry ''plg_a'' ''1.0.0''"]
  show ?thesis
    using t by (simp add: ex_fetch ex_load m ex_pfetch ex_pvalidate ex_pload pm nm nonEmptyKeys_def)
qed

text \<open>
  C6. Validation of a theme manifest fails whenever the checksum of some leaf of the
  structure tree is not exactly 64 hexadecimal digits; the digits may be of either
  case, since the checksum is lower-cased before it is matched.
\<close>

theorem C6_checksum_format:
  "c \<in> set (treeSums (tm_Structure m)) \<Longrightarrow> \<not> hex64 c \<Longrightarrow> \<exists>e. themes_Validate P m = Some e"
  using validate_sums(1)[of c "tm_Structure m" P] themes_Validate_structure[of P m] by auto

theorem C6_witness:
  "\<exists>e. themes_Validate exParseURL (exTheme ''index.html'' ''00'') = Some e"
  using C6_checksum_format[of "''00''" "exTheme ''index.html'' ''00''" exParseURL]
  by (simp add: ex_structure assetOfMap_def hex64_def)

text \<open>A checksum in upper-case hexadecimal digits passes validation.\<close>

theorem C6_counterexample:
  "exUpperSum \<in> set (treeSums (tm_Structure (exTheme ''index.html'' exUpperSum))) \<and>
   \<not> matchSha256 exUpperSum \<and>
   themes_Validate exParseURL (exTheme ''index.html'' exUpperSum) = None"
  by (simp add: ex_validate ex_structure assetOfMap_def)
     (simp add: matchSha256_def exUpperSum_def lowerHexDigit_def)

text \<open>
  C7. When a name of the structure tree, at any depth, has a path separator (\<open>/\<close> or
  \<open>\\<close>) in it or is \<open>.\<close> or \<open>..\<close>, validation rejects the manifest, and an install of that
  manifest returns the validation error with no file operation and no write of the
  state: the world is as it was. This holds for themes and for plugins.
\<close>

theorem C7_bad_names_rejected:
  "(k \<in> set (treeNames (tm_Structure m)) \<and> separatorOrDots k \<and>
    fetchThemeYAML E source w = Inr (yamlData, parsedSourceURL, isLocalSource) \<and>
    yamlUnmarshal E yamlData = Some m
    \<longrightarrow> (\<exists>e. themes_Validate (ParseRequestURI E) m = Some e \<and>
             themes_Install E source force w = ((None, Some (InvalidMetadata (tm_Name m) e)), w))) \<and>
   (pk \<in> set (pluginTreeNames (pm_Structure pm)) \<and> separatorOrDots pk \<and>
    fetchPluginYAML F psource pw = Inr (pYamlData, pURL, pLocal) \<and>
    yamlUnmarshal F pYamlData = Some pm
    \<longrightarrow> (\<exists>e. plugins_Validate (ParseRequestURI F) pm = Some e \<and>
             InstallPlugin F psource force pw = ((None, Some (InvalidMetadata (pm_Name pm) e)), pw)))"
proof (intro conjI impI; elim conjE)
  assume k: "k \<in> set (treeNames (tm_Structure m))" "separatorOrDots k"
    and f: "fetchThemeYAML E source w = Inr (yamlData, parsedSourceURL, isLocalSource)"
    and u: "yamlUnmarshal E yamlData = Some m"
  from k have "validateStructureContent (ParseRequestURI E) (tm_Structure m) \<noteq> None"
    using validate_names(1) validateKey_bad by blast
  then obtain e where e: "themes_Validate (ParseRequestURI E) m = Some e"
    using themes_Validate_structure by blast
  then have "themes_Install E source force w = ((None, Some (InvalidMetadata (tm_Name m) e)), w)"
    by (simp add: themes_Install_def fetchAndValidateDefinition_def f u)
  with e show "\<exists>e. themes_Validate (ParseRequestURI E) m = Some e \<and>
      themes_Install E source force w = ((None, Some (InvalidMetadata (tm_Name m) e)), w)"
    by blast
next
  assume k: "pk \<in> set (pluginTreeNames (pm_Structure pm))" "separatorOrDots pk"
    and f: "fetchPluginYAML F psource pw = Inr (pYamlData, pURL, pLocal)"
    and u: "yamlUnmarshal F pYamlData = Some pm"
  from k have "validatePluginStructureContent (ParseRequestURI F) (pm_Structure pm) \<noteq> None"
    using validate_plugin_names(1) validateKey_bad by blast
  then obtain e where e: "plugins_Validate (ParseRequestURI F) pm = Some e"
    using plugins_Validate_structure by blast
  then have "InstallPlugin F psource force pw = ((None, Some (InvalidMetadata (pm_Name pm) e)), pw)"
    by (simp add: InstallPlugin_def f u)
  with e show "\<exists>e. plugins_Validate (ParseRequestURI F) pm = Some e \<and>
      InstallPlugin F psource force pw = ((None, Some (InvalidMetadata (pm_Name pm) e)), pw)"
    by blast
qed

theorem C7_witness:
  "(\<exists>e. themes_Validate exParseURL (exTheme ''a/b'' exSum) = Some e \<and>
        themes_Install (exThemeSys ''a/b'' exSum) ''https://example.com/theme.yaml'' True
          (exThemeWorld ''thm_a'' ''1.0.0'') =
        ((None, Some (InvalidMetadata ''demo'' e)), exThemeWorld ''thm_a'' ''1.0.0'')) \<and>
   (\<exists>e. plugins_Validate exParseURL (exPlugin ''..'') = Some e \<and>
        InstallPlugin (exPluginSys ''..'') ''https://example.com/plugin.yaml'' True
          (exPluginWorld ''plg_a'' ''1.0.0'') =
        ((None, Some (InvalidMetadata ''demo'' e)), exPluginWorld ''plg_a'' ''1.0.0''))"
proof -
  have n: "tm_Name (exTheme ''a/b'' exSum) = ''demo''" "pm_Name (exPlugin ''..'') = ''demo''"
    by (simp_all add: exTheme_def exPlugin_def)
  have s: "''a/b'' \<in> set (treeNames (tm_Structure (exTheme ''a/b'' exSum)))"
      "''..'' \<in> set (pluginTreeNames (pm_Structure (exPlugin ''..'')))"
      "separatorOrDots ''a/b''" "separatorOrDots ''..''"
    by (simp_all add: ex_structure exPlugin_def separatorOrDots_def)
  note t = C7_bad_names_rejected[of "''a/b''" "exTheme ''a/b'' exSum" "exThemeSys ''a/b'' exSum"
      "''https://example.com/theme.yaml''" "exThemeWorld ''thm_a'' ''1.0.0''" "''manifest''"
      "Some \<lparr>Scheme = ''https'', Host = ''example.com'',
              url_String = ''https://example.com/theme.yaml''\<rparr>" False True
      "''..''" "exPlugin ''..''" "exPluginSys ''..''" "''https://example.com/plugin.yaml''"
      "exPluginWorld ''plg_a'' ''1.0.0''" "''manifest''"
      "Some \<lparr>Scheme = ''https'', Host = ''example.com'',
              url_String = ''https://example.com/plugin.yaml''\<rparr>" False]
  show ?thesis
    using t by (simp add: ex_fetchYAML ex_pfetch s n)
qed

section \<open>A checksum mismatch during the download\<close>

lemma verifyChecksum_mismatch:
  "verifyChecksum E p n c body w = (Some (ChecksumMismatch n' e a), w') \<Longrightarrow>
     e = c \<and> a = sha256hex E body \<and> \<not> EqualFold a e \<and> w' = w\<lparr>trace := trace w @ [Remove p]\<rparr>"
  by (auto simp: verifyChecksum_def Let_def perform_def split: if_splits)

lemma saveAndVerify_mismatch:
  "saveAndVerify E p n c body ok w = (Some (ChecksumMismatch n' e a), w') \<Longrightarrow>
     e = c \<and> a = sha256hex E body \<and> \<not> EqualFold a e \<and>
     trace w' = trace w @ [MkdirAll (Dir E p), Create p, Copy p body, Close p, Remove p]"
  unfolding saveAndVerify_def perform_def Let_def
  by (auto split: io_result.splits if_splits prod.splits dest!: verifyChecksum_mismatch)

lemma downloadAsset_mismatch:
  "downloadAsset E p n u c base w = (Some (ChecksumMismatch n' e a), w') \<Longrightarrow>
     e = c \<and> \<not> EqualFold a e \<and>
     (\<exists>body. a = sha256hex E body \<and>
        trace w' = trace w @ [MkdirAll (Dir E p), Create p, Copy p body, Close p, Remove p])"
  unfolding downloadAsset_def Let_def
  by (auto split: option.splits http_response.splits if_splits dest!: saveAndVerify_mismatch)

lemma download_mismatch:
  "downloadAndSaveStructure E p t base w = (Some (ChecksumMismatch n e a), w') \<Longrightarrow>
     e \<in> set (treeSums t) \<and> \<not> EqualFold a e \<and>
     (\<exists>q body pre. a = sha256hex E body \<and>
        trace w' = trace w @ pre @ [Create q, Copy q body, Close q, Remove q])"
  "downloadItem E q' n' v base w = (Some (ChecksumMismatch n e a), w') \<Longrightarrow>
     e \<in> set (nodeSums v) \<and> \<not> EqualFold a e \<and>
     (\<exists>q body pre. a = sha256hex E body \<and>
        trace w' = trace w @ pre @ [Create q, Copy q body, Close q, Remove q])"
proof (induction E p t base w and E q' n' v base w arbitrary: w' and w'
       rule: downloadAndSaveStructure_downloadItem.induct)
  case (1 E baseSavePath baseURL w)
  then show ?case by simp
next
  case (2 E baseSavePath name item rest baseURL w)
  show ?case
  proof (cases "downloadItem E (Join E baseSavePath name) name item baseURL w")
    case (Pair r w1)
    show ?thesis
    proof (cases r)
      case None
      with Pair 2(3) have d:
        "downloadAndSaveStructure E baseSavePath rest baseURL w1 = (Some (ChecksumMismatch n e a), w')"
        by simp
      from 2(2)[OF Pair[symmetric] None d] obtain q body pre where
        i: "e \<in> set (treeSums rest)" "\<not> EqualFold a e" "a = sha256hex E body"
           "trace w' = trace w1 @ pre @ [Create q, Copy q body, Close q, Remove q]"
        by blast
      from download_appends(2)[OF Pair] obtain t1 where "trace w1 = trace w @ t1"
        by (auto simp: onlyAppends_def)
      with i(4) have "trace w' = trace w @ (t1 @ pre) @ [Create q, Copy q body, Close q, Remove q]"
        by simp
      with i(1,2,3) show ?thesis by auto
    next
      case (Some err)
      with Pair 2(3) have "err = ChecksumMismatch n e a" "w' = w1" by simp_all
      with Pair Some 2(1)[of w1] show ?thesis by auto
    qed
  qed
next
  case (3 E currentSavePath name urlString sumString baseURL w)
  from 3 have "downloadAsset E currentSavePath name urlString sumString baseURL w =
      (Some (ChecksumMismatch n e a), w')" by simp
  from downloadAsset_mismatch[OF this] obtain body where
    "e = sumString" "\<not> EqualFold a e" "a = sha256hex E body"
    "trace w' = trace w @ [MkdirAll (Dir E currentSavePath)] @
       [Create currentSavePath, Copy currentSavePath body, Close currentSavePath,
        Remove currentSavePath]"
    by auto
  then show ?case by auto
next
  case (4 E currentSavePath name mapItem baseURL w)
  show ?case
  proof (cases "assetOfMap mapItem")
    case (Some us)
    obtain u c where us: "us = (u, c)" by (cases us)
    with Some 4(2) have "downloadAsset E currentSavePath name u c baseURL w =
      (Some (ChecksumMismatch n e a), w')" by simp
    from downloadAsset_mismatch[OF this] obtain body where
      "e = c" "\<not> EqualFold a e" "a = sha256hex E body"
      "trace w' = trace w @ [MkdirAll (Dir E currentSavePath)] @
         [Create currentSavePath, Copy currentSavePath body, Close currentSavePath,
          Remove currentSavePath]"
      by auto
    with Some us show ?thesis by auto
  next
    case None
    show ?thesis
    proof (cases "io E (trace w) (MkdirAll currentSavePath) = IoOk")
      case True
      with None 4(2) have d:
        "downloadAndSaveStructure E currentSavePath mapItem baseURL
           (w\<lparr>trace := trace w @ [MkdirAll currentSavePath]\<rparr>) =
         (Some (ChecksumMismatch n e a), w')"
        by (simp add: perform_def)
      have p: "(IoOk, w\<lparr>trace := trace w @ [MkdirAll currentSavePath]\<rparr>) =
          perform E (MkdirAll currentSavePath) w"
        using True by (simp add: perform_def)
      from 4(1)[OF None p refl d] obtain q body pre where
        i: "e \<in> set (treeSums mapItem)" "\<not> EqualFold a e" "a = sha256hex E body"
           "trace w' = trace (w\<lparr>trace := trace w @ [MkdirAll currentSavePath]\<rparr>) @ pre @
              [Create q, Copy q body, Close q, Remove q]"
        by blast
      then have "trace w' = trace w @ (MkdirAll currentSavePath # pre) @
          [Create q, Copy q body, Close q, Remove q]" by simp
      with i(1,2,3) None show ?thesis by auto
    next
      case False
      with None 4(2) show ?thesis
        by (auto simp: perform_def split: io_result.splits)
    qed
  qed
next
  case (5 E currentSavePath name v baseURL w)
  then show ?case by simp
next
  case (6 E currentSavePath name baseURL w)
  then show ?case by simp
qed

text \<open>
  The other direction. An asset that is downloaded, saved and hashed is accepted exactly
  when its hash and its declared checksum are equal up to case; otherwise its file is
  removed and the walk step fails with the mismatch.
\<close>

lemma verifyChecksum_hashed:
  assumes "\<not> readFails E (trace w) (OpenFile p)" and "\<not> readFails E (trace w) (HashFile p)"
  shows "verifyChecksum E p n c body w =
           (if EqualFold (sha256hex E body) c then (None, w)
            else (Some (ChecksumMismatch n c (sha256hex E body)),
                  w\<lparr>trace := trace w @ [Remove p]\<rparr>))"
  using assms by (simp add: verifyChecksum_def perform_def Let_def)

lemma downloadAsset_savedAndHashed:
  assumes "savedAndHashed E p u base body w"
  shows "downloadAsset E p n u c base w =
           (if EqualFold (sha256hex E body) c
            then (None, w\<lparr>trace := trace w @ [MkdirAll (Dir E p), Create p, Copy p body, Close p]\<rparr>)
            else (Some (ChecksumMismatch n c (sha256hex E body)),
                  w\<lparr>trace := trace w @ [MkdirAll (Dir E p), Create p, Copy p body, Close p,
                                           Remove p]\<rparr>))"
proof -
  from assms obtain r where r: "resolveAssetURL E u base = Some r"
    and g: "httpGet E (trace w) r = HttpResponse 200 body True"
    and i: "io E (trace w) (MkdirAll (Dir E p)) = IoOk"
      "io E (trace w @ [MkdirAll (Dir E p)]) (Create p) = IoOk"
      "io E (trace w @ [MkdirAll (Dir E p), Create p]) (Copy p body) = IoOk"
      "io E (trace w @ [MkdirAll (Dir E p), Create p, Copy p body]) (Close p) = IoOk"
    and h: "\<not> readFails E (trace w @ [MkdirAll (Dir E p), Create p, Copy p body, Close p])
              (OpenFile p)"
      "\<not> readFails E (trace w @ [MkdirAll (Dir E p), Create p, Copy p body, Close p])
              (HashFile p)"
    by (auto simp: savedAndHashed_def split: option.splits)
  let ?w4 = "w\<lparr>trace := trace w @ [MkdirAll (Dir E p), Create p, Copy p body, Close p]\<rparr>"
  have s: "saveAndVerify E p n c body True w = verifyChecksum E p n c body ?w4"
    using i by (simp add: saveAndVerify_def perform_def Let_def)
  have v: "verifyChecksum E p n c body ?w4 =
           (if EqualFold (sha256hex E body) c then (None, ?w4)
            else (Some (ChecksumMismatch n c (sha256hex E body)),
                  ?w4\<lparr>trace := trace ?w4 @ [Remove p]\<rparr>))"
    using h by (intro verifyChecksum_hashed) simp_all
  show ?thesis
    by (simp add: downloadAsset_def r g s v)
qed

lemma walk_append:
  "downloadAndSaveStructure E p (pre @ post) base w =
     (case downloadAndSaveStructure E p pre base w of
        (Some err, w1) \<Rightarrow> (Some err, w1)
      | (None, w1) \<Rightarrow> downloadAndSaveStructure E p post base w1)"
proof (induction pre arbitrary: w)
  case Nil
  then show ?case by simp
next
  case (Cons a pre)
  obtain name item where a: "a = (name, item)" by (cases a)
  show ?case
    by (simp add: a Cons split: prod.splits option.splits)
qed

lemma walkTo_error:
  "walkTo E p tree base w position = Some (q, name, u, c, wl) \<Longrightarrow>
   downloadAsset E q name u c base wl = (Some err, w') \<Longrightarrow>
   downloadAndSaveStructure E p tree base w = (Some err, w')"
proof (induction position arbitrary: p tree w)
  case Nil
  then show ?case by simp
next
  case (Cons i position)
  from Cons.prems(1) have len: "i < length tree"
    by (simp split: if_splits)
  obtain r w1 where pre: "downloadAndSaveStructure E p (take i tree) base w = (r, w1)"
    by (cases "downloadAndSaveStructure E p (take i tree) base w")
  from Cons.prems(1) len pre have r: "r = None"
    by (cases r) simp_all
  obtain nm item where ti: "tree ! i = (nm, item)" by (cases "tree ! i")
  have split: "tree = take i tree @ (nm, item) # drop (Suc i) tree"
    using len ti by (metis id_take_nth_drop)
  have item: "downloadItem E (Join E p nm) nm item base w1 = (Some err, w')"
  proof (cases item)
    case (AssetDetail u' c')
    with Cons.prems(1) len pre r ti have
      "q = Join E p nm" "name = nm" "u = u'" "c = c'" "wl = w1"
      by (auto simp: Let_def split: if_splits)
    with Cons.prems(2) AssetDetail show ?thesis by simp
  next
    case (MapV m)
    show ?thesis
    proof (cases "assetOfMap m")
      case (Some uc)
      obtain u' c' where uc: "uc = (u', c')" by (cases uc)
      with Cons.prems(1) len pre r ti MapV Some have
        "q = Join E p nm" "name = nm" "u = u'" "c = c'" "wl = w1"
        by (auto simp: Let_def split: if_splits)
      with Cons.prems(2) MapV Some uc show ?thesis by simp
    next
      case None
      from Cons.prems(1) len pre r ti MapV None have
        ok: "io E (trace w1) (MkdirAll (Join E p nm)) = IoOk"
        and rec: "walkTo E (Join E p nm) m base
                    (w1\<lparr>trace := trace w1 @ [MkdirAll (Join E p nm)]\<rparr>) position =
                  Some (q, name, u, c, wl)"
        by (auto simp: Let_def perform_def split: if_splits io_result.splits)
      from Cons.IH[OF rec Cons.prems(2)] ok MapV None show ?thesis
        by (simp add: perform_def)
    qed
  next
    case (StringV v)
    with Cons.prems(1) len pre r ti show ?thesis by (simp add: Let_def)
  next
    case OtherV
    with Cons.prems(1) len pre r ti show ?thesis by (simp add: Let_def)
  qed
  have "downloadAndSaveStructure E p (take i tree @ (nm, item) # drop (Suc i) tree) base w =
          (Some err, w')"
    by (simp add: walk_append pre r item)
  with split show ?case by simp
qed

lemma walkTo_mismatch:
  assumes "walkTo E p tree base w position = Some (q, name, u, c, wl)"
    and "savedAndHashed E q u base body wl"
    and "\<not> EqualFold (sha256hex E body) c"
  shows "downloadAndSaveStructure E p tree base w =
           (Some (ChecksumMismatch name c (sha256hex E body)),
            wl\<lparr>trace := trace wl @ [MkdirAll (Dir E q), Create q, Copy q body, Close q,
                                       Remove q]\<rparr>)"
  using walkTo_error[OF assms(1)] downloadAsset_savedAndHashed[OF assms(2)] assms(3) by simp

text \<open>
  A walk that ends without error has downloaded, for every asset of the tree, a body
  whose hash is the declared checksum (up to case), and has written it to the asset's
  file.
\<close>

lemma verifyChecksum_None:
  "verifyChecksum E p n c body w = (None, w') \<Longrightarrow> EqualFold (sha256hex E body) c \<and> w' = w"
  by (auto simp: verifyChecksum_def Let_def split: if_splits)

lemma saveAndVerify_None:
  "saveAndVerify E p n c body ok w = (None, w') \<Longrightarrow>
     EqualFold (sha256hex E body) c \<and>
     trace w' = trace w @ [MkdirAll (Dir E p), Create p, Copy p body, Close p]"
  unfolding saveAndVerify_def perform_def Let_def
  by (auto split: io_result.splits if_splits prod.splits dest!: verifyChecksum_None)

lemma downloadAsset_None:
  "downloadAsset E p n u c base w = (None, w') \<Longrightarrow>
     \<exists>body. EqualFold (sha256hex E body) c \<and>
       trace w' = trace w @ [MkdirAll (Dir E p), Create p, Copy p body, Close p]"
  unfolding downloadAsset_def
  by (auto split: option.splits http_response.splits if_splits dest!: saveAndVerify_None)

lemma download_None:
  "downloadAndSaveStructure E p t base w = (None, w') \<Longrightarrow>
     \<exists>tr. trace w' = trace w @ tr \<and>
       (\<forall>(q, c) \<in> set (treeAssets E p t).
          \<exists>body. Copy q body \<in> set tr \<and> EqualFold (sha256hex E body) c)"
  "downloadItem E q' n' v base w = (None, w') \<Longrightarrow>
     \<exists>tr. trace w' = trace w @ tr \<and>
       (\<forall>(q, c) \<in> set (nodeAssets E q' v).
          \<exists>body. Copy q body \<in> set tr \<and> EqualFold (sha256hex E body) c)"
proof (induction E p t base w and E q' n' v base w arbitrary: w' and w'
       rule: downloadAndSaveStructure_downloadItem.induct)
  case (1 E baseSavePath baseURL w)
  then show ?case by simp
next
  case (2 E baseSavePath name item rest baseURL w)
  obtain r w1 where it: "downloadItem E (Join E baseSavePath name) name item baseURL w = (r, w1)"
    by (cases "downloadItem E (Join E baseSavePath name) name item baseURL w")
  with 2(3) have r: "r = None" by (cases r) simp_all
  with it 2(3) have d: "downloadAndSaveStructure E baseSavePath rest baseURL w1 = (None, w')"
    by simp
  from 2(1)[of w1] it r obtain t1 where
    t1: "trace w1 = trace w @ t1"
        "\<forall>(q, c) \<in> set (nodeAssets E (Join E baseSavePath name) item).
           \<exists>body. Copy q body \<in> set t1 \<and> EqualFold (sha256hex E body) c"
    by auto
  from 2(2)[OF it[symmetric] r d] obtain t2 where
    t2: "trace w' = trace w1 @ t2"
        "\<forall>(q, c) \<in> set (treeAssets E baseSavePath rest).
           \<exists>body. Copy q body \<in> set t2 \<and> EqualFold (sha256hex E body) c"
    by auto
  have "trace w' = trace w @ (t1 @ t2)" using t1(1) t2(1) by simp
  moreover have "\<forall>(q, c) \<in> set (treeAssets E baseSavePath ((name, item) # rest)).
           \<exists>body. Copy q body \<in> set (t1 @ t2) \<and> EqualFold (sha256hex E body) c"
    using t1(2) t2(2) by fastforce
  ultimately show ?case by blast
next
  case (3 E currentSavePath name urlString sumString baseURL w)
  from 3 have "downloadAsset E currentSavePath name urlString sumString baseURL w = (None, w')"
    by simp
  from downloadAsset_None[OF this] show ?case by auto
next
  case (4 E currentSavePath name mapItem baseURL w)
  show ?case
  proof (cases "assetOfMap mapItem")
    case (Some us)
    obtain u c where us: "us = (u, c)" by (cases us)
    with Some 4(2) have "downloadAsset E currentSavePath name u c baseURL w = (None, w')"
      by simp
    from downloadAsset_None[OF this] Some us show ?thesis by auto
  next
    case None
    show ?thesis
    proof (cases "io E (trace w) (MkdirAll currentSavePath) = IoOk")
      case True
      with None 4(2) have d:
        "downloadAndSaveStructure E currentSavePath mapItem baseURL
           (w\<lparr>trace := trace w @ [MkdirAll currentSavePath]\<rparr>) = (None, w')"
        by (simp add: perform_def)
      have p: "(IoOk, w\<lparr>trace := trace w @ [MkdirAll currentSavePath]\<rparr>) =
          perform E (MkdirAll currentSavePath) w"
        using True by (simp add: perform_def)
      from 4(1)[OF None p refl d] obtain tr where
        tr: "trace w' = trace (w\<lparr>trace := trace w @ [MkdirAll currentSavePath]\<rparr>) @ tr"
            "\<forall>(q, c) \<in> set (treeAssets E currentSavePath mapItem).
               \<exists>body. Copy q body \<in> set tr \<and> EqualFold (sha256hex E body) c"
        by auto
      have "trace w' = trace w @ (MkdirAll currentSavePath # tr)" using tr(1) by simp
      moreover have "\<forall>(q, c) \<in> set (nodeAssets E currentSavePath (MapV mapItem)).
               \<exists>body. Copy q body \<in> set (MkdirAll currentSavePath # tr) \<and>
                 EqualFold (sha256hex E body) c"
        using tr(2) None by fastforce
      ultimately show ?thesis by blast
    next
      case False
      with None 4(2) show ?thesis
        by (auto simp: perform_def split: io_result.splits)
    qed
  qed
next
  case (5 E currentSavePath name v baseURL w)
  then show ?case by simp
next
  case (6 E currentSavePath name baseURL w)
  then show ?case by simp
qed

text \<open>
  C5. Take a theme install that has fetched and validated the manifest, loaded the
  state, chosen its action and prepared the directory, and consider the download walk
  over the structure of the manifest.

  \<^item> When the walk comes to an asset (all entries before it processed without error)
    whose body is downloaded, saved and hashed, and the hash does not match the
    checksum the manifest declares for it (up to case), the walk ends there with the
    checksum-mismatch error carrying the declared and the computed sum, its last
    operation being the removal of the asset's file.
  \<^item> When the walk ends with a checksum-mismatch error, the install returns no manifest
    and that error, wrapped; the state file is as it was before the install; for a new
    installation the last operation is the recursive removal of the created directory,
    while for an overwrite nothing follows the walk; the sum in the error is the hash
    of the body written last, the expected one is a checksum of the manifest, and the
    two differ.
  \<^item> When the walk ends without error, every asset of the manifest has been written
    with a body whose hash matches its declared checksum: no mismatching asset is
    accepted.
\<close>

theorem C5_checksum_mismatch_aborts:
  assumes "fetchAndValidateDefinition E source w = Inr (meta0, parsedSourceURL, isLocalSource)"
    and "LoadStateOp E w = Some themesState"
    and "determineInstallAction meta0 force themesState = (action, targetDirName, None)"
    and "prepareDirectoryForInstall E targetDirName (meta0\<lparr>tm_LastUpdatedAt := now E (trace w)\<rparr>)
           action themesState (now E (trace w)) w = (Inr (themePath, actualTargetDirName, meta), w1)"
    and "downloadAndSaveStructure E themePath (tm_Structure meta)
           (if \<not> isLocalSource then parsedSourceURL else None) w1 = (r, w2)"
  shows "(\<forall>position q name u c wl body.
            walkTo E themePath (tm_Structure meta)
              (if \<not> isLocalSource then parsedSourceURL else None) w1 position =
              Some (q, name, u, c, wl) \<and>
            savedAndHashed E q u (if \<not> isLocalSource then parsedSourceURL else None) body wl \<and>
            \<not> EqualFold (sha256hex E body) c \<longrightarrow>
            r = Some (ChecksumMismatch name c (sha256hex E body)) \<and>
            trace w2 = trace wl @ [MkdirAll (Dir E q), Create q, Copy q body, Close q, Remove q]) \<and>
         (\<forall>name expected actual.
            r = Some (ChecksumMismatch name expected actual) \<longrightarrow>
            (\<exists>w'. themes_Install E source force w =
                ((None, Some (DownloadStructureFailed (tm_Name meta)
                                (ChecksumMismatch name expected actual))), w') \<and>
              persisted w' = persisted w \<and>
              trace w' = (if action = ActionInstallNew then trace w2 @ [RemoveAll themePath]
                          else trace w2) \<and>
              (\<exists>q body pre. actual = sha256hex E body \<and>
                 trace w2 = trace w1 @ pre @ [Create q, Copy q body, Close q, Remove q]) \<and>
              expected \<in> set (treeSums (tm_Structure meta)) \<and> \<not> EqualFold actual expected)) \<and>
         (r = None \<longrightarrow>
            (\<exists>tr. trace w2 = trace w1 @ tr \<and>
               (\<forall>(q, c) \<in> set (treeAssets E themePath (tm_Structure meta)).
                  \<exists>body. Copy q body \<in> set tr \<and> EqualFold (sha256hex E body) c)))"
proof (intro conjI allI impI)
  fix position q name u c wl body
  assume a: "walkTo E themePath (tm_Structure meta)
              (if \<not> isLocalSource then parsedSourceURL else None) w1 position =
              Some (q, name, u, c, wl) \<and>
            savedAndHashed E q u (if \<not> isLocalSource then parsedSourceURL else None) body wl \<and>
            \<not> EqualFold (sha256hex E body) c"
  from a walkTo_mismatch[of E themePath "tm_Structure meta"
      "if \<not> isLocalSource then parsedSourceURL else None" w1 position q name u c wl body]
  have "downloadAndSaveStructure E themePath (tm_Structure meta)
          (if \<not> isLocalSource then parsedSourceURL else None) w1 =
        (Some (ChecksumMismatch name c (sha256hex E body)),
         wl\<lparr>trace := trace wl @ [MkdirAll (Dir E q), Create q, Copy q body, Close q, Remove q]\<rparr>)"
    by blast
  with assms(5) show "r = Some (ChecksumMismatch name c (sha256hex E body))"
    and "trace w2 = trace wl @ [MkdirAll (Dir E q), Create q, Copy q body, Close q, Remove q]"
    by auto
next
  fix name expected actual
  assume r: "r = Some (ChecksumMismatch name expected actual)"
  with assms(5) have d: "downloadAndSaveStructure E themePath (tm_Structure meta)
           (if \<not> isLocalSource then parsedSourceURL else None) w1 =
         (Some (ChecksumMismatch name expected actual), w2)"
    by simp
  let ?w' = "cleanupNew E action themePath w2"
  have i: "themes_Install E source force w =
            ((None, Some (DownloadStructureFailed (tm_Name meta)
                            (ChecksumMismatch name expected actual))), ?w')"
    using assms(1-4) d by (simp add: themes_Install_def downloadThemeAssets_def Let_def)
  have p1: "persisted w1 = persisted w"
    using assms(4)
    by (auto simp: prepareDirectoryForInstall_def checkAndCreateDirectory_def perform_def Let_def
             split: if_splits option.splits io_result.splits)
  have p2: "persisted w2 = persisted w1"
    using download_appends(1)[OF d] by (simp add: onlyAppends_def)
  have p3: "persisted ?w' = persisted w2"
    by (simp add: cleanupNew_def perform_def)
  have t: "trace ?w' = (if action = ActionInstallNew then trace w2 @ [RemoveAll themePath]
                        else trace w2)"
    by (simp add: cleanupNew_def perform_def)
  from download_mismatch(1)[OF d] i p1 p2 p3 t
  show "\<exists>w'. themes_Install E source force w =
                ((None, Some (DownloadStructureFailed (tm_Name meta)
                                (ChecksumMismatch name expected actual))), w') \<and>
              persisted w' = persisted w \<and>
              trace w' = (if action = ActionInstallNew then trace w2 @ [RemoveAll themePath]
                          else trace w2) \<and>
              (\<exists>q body pre. actual = sha256hex E body \<and>
                 trace w2 = trace w1 @ pre @ [Create q, Copy q body, Close q, Remove q]) \<and>
              expected \<in> set (treeSums (tm_Structure meta)) \<and> \<not> EqualFold actual expected"
    by auto
next
  assume "r = None"
  with assms(5) have "downloadAndSaveStructure E themePath (tm_Structure meta)
           (if \<not> isLocalSource then parsedSourceURL else None) w1 = (None, w2)"
    by simp
  from download_None(1)[OF this]
  show "\<exists>tr. trace w2 = trace w1 @ tr \<and>
               (\<forall>(q, c) \<in> set (treeAssets E themePath (tm_Structure meta)).
                  \<exists>body. Copy q body \<in> set tr \<and> EqualFold (sha256hex E body) c)"
    .
qed

lemma ex_zero:
  "themes_Validate exParseURL (exTheme ''index.html'' exZeroSum) = None"
  "\<not> EqualFold exSum exZeroSum"
  by (simp_all add: ex_simps validate_simps string_simps exZeroSum_def)

lemma ex_fetch_zero:
  "fetchAndValidateDefinition (exThemeSys ''index.html'' exZeroSum)
     ''https://example.com/theme.yaml'' w =
   Inr (exTheme ''index.html'' exZeroSum,
        Some \<lparr>Scheme = ''https'', Host = ''example.com'',
              url_String = ''https://example.com/theme.yaml''\<rparr>, False)"
  by (simp add: fetchAndValidateDefinition_def ex_fetchYAML ex_zero)

lemma ex_action_other:
  "v \<noteq> ''1.0.0'' \<Longrightarrow>
   determineInstallAction (exTheme n c) force [(k, exThemeEntry k v)] = (ActionInstallNew, [], None)"
  by (simp add: determineInstallAction_def exactMatchDir_def exTheme_def exThemeEntry_def)

lemma ex_walkTo:
  "walkTo (exThemeSys n c) p
     [(''index.html'', MapV [(''url'', StringV ''https://example.com/index.html''),
                             (''sum'', StringV c)])] base w [0] =
   Some (p @ ''/index.html'', ''index.html'', ''https://example.com/index.html'', c, w)"
  by (simp add: assetOfMap_def Let_def)

lemma ex_savedAndHashed:
  "savedAndHashed (exThemeSys n c) p ''https://example.com/index.html''
     (Some \<lparr>Scheme = ''https'', Host = ''example.com'',
            url_String = ''https://example.com/theme.yaml''\<rparr>) ''<html/>'' w"
  by (simp add: savedAndHashed_def resolveAssetURL_def exParseURL_def exURLs_def exGet_def
        IsAbs_def)

theorem C5_witness:
  "(\<exists>w'. themes_Install (exThemeSys ''index.html'' exZeroSum) ''https://example.com/theme.yaml''
            False (exThemeWorld ''thm_a'' ''0.9.0'') =
          ((None, Some (DownloadStructureFailed ''demo''
                          (ChecksumMismatch ''index.html'' exZeroSum exSum))), w') \<and>
        persisted w' = [(''thm_a'', exThemeEntry ''thm_a'' ''0.9.0'')] \<and>
        trace w' =
          [MkdirAll ''ext/themes/thm_new'', MkdirAll ''ext/themes/thm_new'',
           Create ''ext/themes/thm_new/index.html'',
           Copy ''ext/themes/thm_new/index.html'' ''<html/>'',
           Close ''ext/themes/thm_new/index.html'', Remove ''ext/themes/thm_new/index.html'',
           RemoveAll ''ext/themes/thm_new'']) \<and>
   (\<exists>tr body.
      trace (snd (downloadAndSaveStructure (exThemeSys ''index.html'' exSum) ''ext/themes/thm_new''
                    (tm_Structure (exTheme ''index.html'' exSum))
                    (Some \<lparr>Scheme = ''https'', Host = ''example.com'',
                           url_String = ''https://example.com/theme.yaml''\<rparr>)
                    ((exThemeWorld ''thm_a'' ''0.9.0'')\<lparr>trace :=
                       [MkdirAll ''ext/themes/thm_new'']\<rparr>))) =
        [MkdirAll ''ext/themes/thm_new''] @ tr \<and>
      Copy ''ext/themes/thm_new/index.html'' body \<in> set tr \<and> EqualFold exSum exSum)"
proof -
  let ?u = "Some \<lparr>Scheme = ''https'', Host = ''example.com'',
                  url_String = ''https://example.com/theme.yaml''\<rparr>"
  let ?w = "exThemeWorld ''thm_a'' ''0.9.0''"
  let ?w1 = "?w\<lparr>trace := [MkdirAll ''ext/themes/thm_new'']\<rparr>"
  have t0: "trace ?w = []" "persisted ?w = [(''thm_a'', exThemeEntry ''thm_a'' ''0.9.0'')]"
    by (simp_all add: exThemeWorld_def)
  have dir: "exDir ''ext/themes/thm_new/index.html'' = ''ext/themes/thm_new''"
    by (simp add: exDir_def)
  have first: "\<exists>w'. themes_Install (exThemeSys ''index.html'' exZeroSum) ''https://example.com/theme.yaml''
            False ?w =
          ((None, Some (DownloadStructureFailed ''demo''
                          (ChecksumMismatch ''index.html'' exZeroSum exSum))), w') \<and>
        persisted w' = [(''thm_a'', exThemeEntry ''thm_a'' ''0.9.0'')] \<and>
        trace w' =
          [MkdirAll ''ext/themes/thm_new'', MkdirAll ''ext/themes/thm_new'',
           Create ''ext/themes/thm_new/index.html'',
           Copy ''ext/themes/thm_new/index.html'' ''<html/>'',
           Close ''ext/themes/thm_new/index.html'', Remove ''ext/themes/thm_new/index.html'',
           RemoveAll ''ext/themes/thm_new'']"
  proof -
    let ?E = "exThemeSys ''index.html'' exZeroSum"
    let ?m = "(exTheme ''index.html'' exZeroSum)\<lparr>tm_LastUpdatedAt := ''2025-06-01T00:00:00Z'',
                tm_InstalledAt := ''2025-06-01T00:00:00Z''\<rparr>"
    let ?X = "downloadAndSaveStructure ?E ''ext/themes/thm_new'' (tm_Structure ?m)
               (if \<not> False then ?u else None) ?w1"
    have a: "determineInstallAction (exTheme ''index.html'' exZeroSum) False
               [(''thm_a'', exThemeEntry ''thm_a'' ''0.9.0'')] = (ActionInstallNew, [], None)"
      by (simp add: ex_action_other)
    have p: "prepareDirectoryForInstall ?E []
               ((exTheme ''index.html'' exZeroSum)\<lparr>tm_LastUpdatedAt := now ?E (trace ?w)\<rparr>)
               ActionInstallNew [(''thm_a'', exThemeEntry ''thm_a'' ''0.9.0'')] (now ?E (trace ?w)) ?w =
             (Inr (''ext/themes/thm_new'', ''thm_new'', ?m), ?w1)"
      by (simp add: ex_prepare_new t0)
    have d: "?X = (fst ?X, snd ?X)" by simp
    note T = C5_checksum_mismatch_aborts[OF ex_fetch_zero ex_load a p d]
    have n: "tm_Name ?m = ''demo''" by (simp add: exTheme_def)
    have wt: "walkTo ?E ''ext/themes/thm_new'' (tm_Structure ?m) (if \<not> False then ?u else None)
                ?w1 [0] =
              Some (''ext/themes/thm_new/index.html'', ''index.html'',
                    ''https://example.com/index.html'', exZeroSum, ?w1)"
      by (simp add: ex_structure ex_walkTo del: walkTo.simps)
    have sh: "savedAndHashed ?E ''ext/themes/thm_new/index.html'' ''https://example.com/index.html''
                (if \<not> False then ?u else None) ''<html/>'' ?w1"
      by (simp add: ex_savedAndHashed)
    have mm: "\<not> EqualFold (sha256hex ?E ''<html/>'') exZeroSum"
      by (simp add: ex_zero)
    from T wt sh mm have
      r: "fst ?X = Some (ChecksumMismatch ''index.html'' exZeroSum (sha256hex ?E ''<html/>''))"
      and tr: "trace (snd ?X) = trace ?w1 @
                 [MkdirAll (Dir ?E ''ext/themes/thm_new/index.html''),
                  Create ''ext/themes/thm_new/index.html'',
                  Copy ''ext/themes/thm_new/index.html'' ''<html/>'',
                  Close ''ext/themes/thm_new/index.html'',
                  Remove ''ext/themes/thm_new/index.html'']"
      by blast+
    from T r obtain w' where
      "themes_Install ?E ''https://example.com/theme.yaml'' False ?w =
         ((None, Some (DownloadStructureFailed (tm_Name ?m)
                         (ChecksumMismatch ''index.html'' exZeroSum (sha256hex ?E ''<html/>'')))), w')"
      "persisted w' = persisted ?w"
      "trace w' = (if ActionInstallNew = ActionInstallNew
                   then trace (snd ?X) @ [RemoveAll ''ext/themes/thm_new''] else trace (snd ?X))"
      by blast
    with tr show ?thesis
      by (simp add: n t0 dir)
  qed
  have second: "\<exists>tr body.
      trace (snd (downloadAndSaveStructure (exThemeSys ''index.html'' exSum) ''ext/themes/thm_new''
                    (tm_Structure (exTheme ''index.html'' exSum)) ?u ?w1)) =
        [MkdirAll ''ext/themes/thm_new''] @ tr \<and>
      Copy ''ext/themes/thm_new/index.html'' body \<in> set tr \<and> EqualFold exSum exSum"
  proof -
    let ?E = "exThemeSys ''index.html'' exSum"
    let ?m = "(exTheme ''index.html'' exSum)\<lparr>tm_LastUpdatedAt := ''2025-06-01T00:00:00Z'',
                tm_InstalledAt := ''2025-06-01T00:00:00Z''\<rparr>"
    let ?X = "downloadAndSaveStructure ?E ''ext/themes/thm_new'' (tm_Structure ?m)
               (if \<not> False then ?u else None) ?w1"
    have a: "determineInstallAction (exTheme ''index.html'' exSum) False
               [(''thm_a'', exThemeEntry ''thm_a'' ''0.9.0'')] = (ActionInstallNew, [], None)"
      by (simp add: ex_action_other)
    have p: "prepareDirectoryForInstall ?E []
               ((exTheme ''index.html'' exSum)\<lparr>tm_LastUpdatedAt := now ?E (trace ?w)\<rparr>)
               ActionInstallNew [(''thm_a'', exThemeEntry ''thm_a'' ''0.9.0'')] (now ?E (trace ?w)) ?w =
             (Inr (''ext/themes/thm_new'', ''thm_new'', ?m), ?w1)"
      by (simp add: ex_prepare_new t0)
    have d: "?X = (fst ?X, snd ?X)" by simp
    note T = C5_checksum_mismatch_aborts[OF ex_fetch ex_load a p d]
    have st: "tm_Structure ?m = tm_Structure (exTheme ''index.html'' exSum)" by simp
    have r: "fst ?X = None"
      by (simp add: ex_structure ex_download ex_equalfold del: downloadAndSaveStructure.simps)
    have ta: "treeAssets ?E ''ext/themes/thm_new'' (tm_Structure (exTheme ''index.html'' exSum)) =
                [(''ext/themes/thm_new/index.html'', exSum)]"
      by (simp add: ex_structure assetOfMap_def)
    from T r obtain tr where
      "trace (snd ?X) = trace ?w1 @ tr"
      "\<forall>(q, c) \<in> set (treeAssets ?E ''ext/themes/thm_new'' (tm_Structure ?m)).
         \<exists>body. Copy q body \<in> set tr \<and> EqualFold (sha256hex ?E body) c"
      by blast
    then show ?thesis
      by (auto simp: ta st ex_equalfold)
  qed
  from first second show ?thesis by blast
qed

section \<open>Forced re-installation\<close>

lemma checkAndCreateDirectory_Inr:
  "checkAndCreateDirectory E d m w = (Inr (p, a, m'), w1) \<Longrightarrow>
     p = Join E defaultThemeDir d \<and> a = d \<and> m' = m \<and>
     w1 = w\<lparr>trace := trace w @ [MkdirAll p]\<rparr>"
  by (auto simp: checkAndCreateDirectory_def Let_def perform_def
           split: option.splits if_splits io_result.splits)

lemma prepare_overwrite_Inr:
  "prepareDirectoryForInstall E d m ActionOverwrite st t w = (Inr (p, a, m'), w1) \<Longrightarrow>
     p = Join E defaultThemeDir d \<and> a = d \<and>
     m' = m\<lparr>tm_InstalledAt :=
            (case map_of st d of
               Some x \<Rightarrow> if te_InstalledAt x \<noteq> [] then te_InstalledAt x else t
             | None \<Rightarrow> t)\<rparr> \<and>
     w1 = w\<lparr>trace := trace w @ [RemoveAll p, MkdirAll p]\<rparr>"
  by (auto simp: prepareDirectoryForInstall_def Let_def perform_def
           split: option.splits if_splits io_result.splits
           dest!: checkAndCreateDirectory_Inr)

lemma downloadThemeAssets_appends:
  "downloadThemeAssets E p m u l w = (r, w') \<Longrightarrow> onlyAppends w w'"
  by (auto simp: downloadThemeAssets_def Let_def split: prod.splits option.splits
           dest: download_appends(1))

lemma writeLocalThemeJSON_appends:
  "writeLocalThemeJSON E p m w = (r, w') \<Longrightarrow> onlyAppends w w'"
  by (auto simp: writeLocalThemeJSON_def Let_def perform_def onlyAppends_def
           split: option.splits io_result.splits)

lemma updateGlobalThemesState_None:
  "updateGlobalThemesState E k entry w = (None, w') \<Longrightarrow>
     persisted w' = AList.update k entry (persisted w) \<and>
     trace w' = trace w @ [SaveState (AList.update k entry (persisted w))]"
  by (auto simp: updateGlobalThemesState_def LoadStateOp_def SaveStateOp_def
           split: option.splits if_splits)

lemma LoadStateOp_Some: "LoadStateOp E w = Some st \<Longrightarrow> st = persisted w"
  by (auto simp: LoadStateOp_def split: if_splits)

lemma map_of_distinct_in: "distinct (map fst xs) \<Longrightarrow> (k, v) \<in> set xs \<Longrightarrow> map_of xs k = Some v"
  by simp

lemma install_success_steps:
  assumes "fetchAndValidateDefinition E source w = Inr (meta0, parsedSourceURL, isLocalSource)"
    and "LoadStateOp E w = Some themesState"
    and "determineInstallAction meta0 force themesState = (action, targetDirName, None)"
    and "themes_Install E source force w = ((Some meta, None), w')"
  shows "\<exists>themePath actual w1 w2 w3 w4.
           prepareDirectoryForInstall E targetDirName (meta0\<lparr>tm_LastUpdatedAt := now E (trace w)\<rparr>)
             action themesState (now E (trace w)) w = (Inr (themePath, actual, meta), w1) \<and>
           downloadThemeAssets E themePath meta parsedSourceURL isLocalSource w1 = (None, w2) \<and>
           writeLocalThemeJSON E themePath meta w2 = (None, w3) \<and>
           updateGlobalThemesState E actual
             \<lparr>ThmID = actual, te_Name = tm_Name meta, te_Version = tm_Version meta,
              te_SourceLink = tm_SourceLink meta, te_InstalledAt = tm_InstalledAt meta,
              te_LastUpdatedAt = tm_LastUpdatedAt meta\<rparr> w3 = (None, w4) \<and>
           w' = discoverThemesLocked E w4"
  using assms
  by (simp add: themes_Install_def Let_def split: prod.splits sum.splits option.splits)

text \<open>
  C4. Take an install with force of a manifest whose source link and version are those
  of an entry of the state map, on a state map that satisfies the invariant of the local
  IDs (every entry is stored under a non-empty key; the keys are distinct, as those of a
  map are). Then the action is an overwrite whose target is the local ID of such an
  entry; and when the install succeeds, its first two operations are the removal and
  the creation of the directory of that ID, and the state file then holds under that ID
  an entry whose \<open>installedAt\<close> is the one of the old entry (the time of this install
  when the old one was empty) and whose \<open>lastUpdatedAt\<close> is the time of this install.
\<close>

theorem C4_force_overwrite_keeps_identity:
  assumes "fetchAndValidateDefinition E source w = Inr (meta0, parsedSourceURL, isLocalSource)"
    and "LoadStateOp E w = Some themesState"
    and "distinct (map fst themesState)"
    and "(k, e) \<in> set themesState" and "matchesTheme meta0 e"
    and "nonEmptyKeys themesState"
    and "themes_Install E source True w = ((Some meta, None), w')"
  shows "\<exists>k' e' rest.
           (k', e') \<in> set themesState \<and> matchesTheme meta0 e' \<and>
           determineInstallAction meta0 True themesState = (ActionOverwrite, k', None) \<and>
           trace w' = trace w @ [RemoveAll (Join E defaultThemeDir k'),
                                 MkdirAll (Join E defaultThemeDir k')] @ rest \<and>
           map_of (persisted w') k' =
             Some \<lparr>ThmID = k', te_Name = tm_Name meta0, te_Version = tm_Version meta0,
                   te_SourceLink = tm_SourceLink meta0,
                   te_InstalledAt = (if te_InstalledAt e' \<noteq> [] then te_InstalledAt e'
                                     else now E (trace w)),
                   te_LastUpdatedAt = now E (trace w)\<rparr>"
proof -
  from exactMatchDir_found[OF assms(4,5)] obtain k' e' where
    ke: "(k', e') \<in> set themesState" "matchesTheme meta0 e'" "exactMatchDir meta0 themesState = k'"
    by blast
  from assms(6) ke(1) have ne: "k' \<noteq> []" by (rule nonEmptyKeys_in)
  with ke(3) have act: "determineInstallAction meta0 True themesState = (ActionOverwrite, k', None)"
    by (simp add: determineInstallAction_def)
  from assms(3) ke(1) have look: "map_of themesState k' = Some e'" by simp
  from install_success_steps[OF assms(1,2) act assms(7)] obtain themePath actual w1 w2 w3 w4 where
    p: "prepareDirectoryForInstall E k' (meta0\<lparr>tm_LastUpdatedAt := now E (trace w)\<rparr>)
          ActionOverwrite themesState (now E (trace w)) w = (Inr (themePath, actual, meta), w1)"
    and d: "downloadThemeAssets E themePath meta parsedSourceURL isLocalSource w1 = (None, w2)"
    and wr: "writeLocalThemeJSON E themePath meta w2 = (None, w3)"
    and u: "updateGlobalThemesState E actual
             \<lparr>ThmID = actual, te_Name = tm_Name meta, te_Version = tm_Version meta,
              te_SourceLink = tm_SourceLink meta, te_InstalledAt = tm_InstalledAt meta,
              te_LastUpdatedAt = tm_LastUpdatedAt meta\<rparr> w3 = (None, w4)"
    and r: "w' = discoverThemesLocked E w4"
    by blast
  from prepare_overwrite_Inr[OF p] look have
    pp: "themePath = Join E defaultThemeDir k'" "actual = k'"
        "meta = meta0\<lparr>tm_LastUpdatedAt := now E (trace w),
                 tm_InstalledAt := (if te_InstalledAt e' \<noteq> [] then te_InstalledAt e'
                                    else now E (trace w))\<rparr>"
        "w1 = w\<lparr>trace := trace w @ [RemoveAll themePath, MkdirAll themePath]\<rparr>"
    by simp_all
  from downloadThemeAssets_appends[OF d] obtain t2 where t2: "trace w2 = trace w1 @ t2"
    by (auto simp: onlyAppends_def)
  from writeLocalThemeJSON_appends[OF wr] obtain t3 where t3: "trace w3 = trace w2 @ t3"
    by (auto simp: onlyAppends_def)
  from updateGlobalThemesState_None[OF u] have
    u4: "persisted w4 = AList.update actual
           \<lparr>ThmID = actual, te_Name = tm_Name meta, te_Version = tm_Version meta,
            te_SourceLink = tm_SourceLink meta, te_InstalledAt = tm_InstalledAt meta,
            te_LastUpdatedAt = tm_LastUpdatedAt meta\<rparr> (persisted w3)"
    and t4: "\<exists>t. trace w4 = trace w3 @ t"
    by simp_all
  from t4 obtain t4' where t4': "trace w4 = trace w3 @ t4'" by blast
  have tr: "trace w' = trace w @ [RemoveAll (Join E defaultThemeDir k'),
                                 MkdirAll (Join E defaultThemeDir k')] @ (t2 @ t3 @ t4')"
    using r t2 t3 t4' pp(1,4) by (simp add: discoverThemesLocked_def)
  have "map_of (persisted w') k' =
          Some \<lparr>ThmID = k', te_Name = tm_Name meta, te_Version = tm_Version meta,
                te_SourceLink = tm_SourceLink meta, te_InstalledAt = tm_InstalledAt meta,
                te_LastUpdatedAt = tm_LastUpdatedAt meta\<rparr>"
    using r u4 pp(2) by (simp add: discoverThemesLocked_def update_Some_unfold)
  with pp(3) have st: "map_of (persisted w') k' =
             Some \<lparr>ThmID = k', te_Name = tm_Name meta0, te_Version = tm_Version meta0,
                   te_SourceLink = tm_SourceLink meta0,
                   te_InstalledAt = (if te_InstalledAt e' \<noteq> [] then te_InstalledAt e'
                                     else now E (trace w)),
                   te_LastUpdatedAt = now E (trace w)\<rparr>"
    by simp
  from ke(1,2) act tr st show ?thesis by blast
qed

lemma ex_install_force:
  "themes_Install (exThemeSys ''index.html'' exSum) ''https://example.com/theme.yaml'' True
     (exThemeWorld ''thm_a'' ''1.0.0'') =
   ((Some ((exTheme ''index.html'' exSum)\<lparr>tm_InstalledAt := ''2024-01-01T00:00:00Z'',
            tm_LastUpdatedAt := ''2025-06-01T00:00:00Z''\<rparr>), None),
    \<lparr>trace = [RemoveAll ''ext/themes/thm_a'', MkdirAll ''ext/themes/thm_a'',
       MkdirAll ''ext/themes/thm_a'',
       Create ''ext/themes/thm_a/index.html'', Copy ''ext/themes/thm_a/index.html'' ''<html/>'',
       Close ''ext/themes/thm_a/index.html'', WriteFile ''ext/themes/thm_a/theme.json'' ''{}'',
       SaveState [(''thm_a'', (exThemeEntry ''thm_a'' ''1.0.0'')\<lparr>te_LastUpdatedAt :=
                     ''2025-06-01T00:00:00Z''\<rparr>)]],
     persisted = [(''thm_a'', (exThemeEntry ''thm_a'' ''1.0.0'')\<lparr>te_LastUpdatedAt :=
                     ''2025-06-01T00:00:00Z''\<rparr>)],
     cache = []\<rparr>)"
  by (simp add: themes_Install_def ex_fetch ex_load ex_action ex_prepare_overwrite
        downloadThemeAssets_def ex_structure ex_download ex_equalfold ex_write ex_state
        discoverThemesLocked_def Let_def del: downloadAndSaveStructure.simps)
     (simp add: exThemeWorld_def exTheme_def exThemeEntry_def exDir_def)

theorem C4_witness:
  "\<exists>k' e' rest.
     (k', e') \<in> set [(''thm_a'', exThemeEntry ''thm_a'' ''1.0.0'')] \<and>
     determineInstallAction (exTheme ''index.html'' exSum) True
       [(''thm_a'', exThemeEntry ''thm_a'' ''1.0.0'')] = (ActionOverwrite, k', None) \<and>
     trace (snd (themes_Install (exThemeSys ''index.html'' exSum) ''https://example.com/theme.yaml''
                   True (exThemeWorld ''thm_a'' ''1.0.0''))) =
       [RemoveAll (''ext/themes/'' @ k'), MkdirAll (''ext/themes/'' @ k')] @ rest \<and>
     map_of (persisted (snd (themes_Install (exThemeSys ''index.html'' exSum)
                   ''https://example.com/theme.yaml'' True (exThemeWorld ''thm_a'' ''1.0.0'')))) k' =
       Some \<lparr>ThmID = k', te_Name = ''demo'', te_Version = ''1.0.0'',
             te_SourceLink = ''https://example.com/theme.yaml'',
             te_InstalledAt = te_InstalledAt e', te_LastUpdatedAt = ''2025-06-01T00:00:00Z''\<rparr>"
proof -
  let ?E = "exThemeSys ''index.html'' exSum"
  let ?w = "exThemeWorld ''thm_a'' ''1.0.0''"
  obtain m w' where i: "themes_Install ?E ''https://example.com/theme.yaml'' True ?w =
      ((Some m, None), w')"
    using ex_install_force by blast
  have mt: "matchesTheme (exTheme ''index.html'' exSum) (exThemeEntry ''thm_a'' ''1.0.0'')"
    by (simp add: matchesTheme_def exTheme_def exThemeEntry_def)
  have ne: "nonEmptyKeys [(''thm_a'', exThemeEntry ''thm_a'' ''1.0.0'')]"
    by (simp add: nonEmptyKeys_def)
  have di: "distinct (map fst [(''thm_a'', exThemeEntry ''thm_a'' ''1.0.0'')])"
    by simp
  have me: "(''thm_a'', exThemeEntry ''thm_a'' ''1.0.0'') \<in>
      set [(''thm_a'', exThemeEntry ''thm_a'' ''1.0.0'')]"
    by simp
  from C4_force_overwrite_keeps_identity[OF ex_fetch ex_load di me mt ne i]
  obtain k' e' rest where
    r: "(k', e') \<in> set [(''thm_a'', exThemeEntry ''thm_a'' ''1.0.0'')]"
       "determineInstallAction (exTheme ''index.html'' exSum) True
          [(''thm_a'', exThemeEntry ''thm_a'' ''1.0.0'')] = (ActionOverwrite, k', None)"
       "trace w' = trace ?w @ [RemoveAll (Join ?E defaultThemeDir k'),
                               MkdirAll (Join ?E defaultThemeDir k')] @ rest"
       "map_of (persisted w') k' =
          Some \<lparr>ThmID = k', te_Name = tm_Name (exTheme ''index.html'' exSum),
                te_Version = tm_Version (exTheme ''index.html'' exSum),
                te_SourceLink = tm_SourceLink (exTheme ''index.html'' exSum),
                te_InstalledAt = (if te_InstalledAt e' \<noteq> [] then te_InstalledAt e'
                                  else now ?E (trace ?w)),
                te_LastUpdatedAt = now ?E (trace ?w)\<rparr>"
    by auto
  from r(1) have "te_InstalledAt e' \<noteq> []" by (simp add: exThemeEntry_def)
  with r i show ?thesis
    by (simp add: exThemeWorld_def exTheme_def defaultThemeDir_def)
qed

section \<open>The invariant of the local IDs\<close>

text \<open>
  The theme and plugin managers add an entry to the state map under a generated ID or
  under a key that is already there and was tested to be non-empty; the other
  operations rewrite or delete existing keys. So the keys of the state map stay
  non-empty and distinct from one operation to the next, starting from the empty map.
\<close>

lemma nonEmptyKeys_Nil: "nonEmptyKeys []"
  by (simp add: nonEmptyKeys_def)

lemma nonEmptyKeys_update: "nonEmptyKeys st \<Longrightarrow> k \<noteq> [] \<Longrightarrow> nonEmptyKeys (AList.update k v st)"
  by (induction st) (auto simp: nonEmptyKeys_def)

lemma nonEmptyKeys_delete: "nonEmptyKeys st \<Longrightarrow> nonEmptyKeys (AList.delete k st)"
  by (induction st) (auto simp: nonEmptyKeys_def)

lemma nonEmptyKeys_map_of: "nonEmptyKeys st \<Longrightarrow> map_of st k = Some e \<Longrightarrow> k \<noteq> []"
  by (auto simp: nonEmptyKeys_def list_all_iff dest: map_of_SomeD)

lemma Generate_nonempty: "Generate E prefix t = Some newDirID \<Longrightarrow> newDirID \<noteq> []"
  by (auto simp: Generate_def split: option.splits)

lemma prepare_appends:
  "prepareDirectoryForInstall E d m action st t w = (r, w1) \<Longrightarrow> onlyAppends w w1"
  by (auto simp: prepareDirectoryForInstall_def checkAndCreateDirectory_def perform_def Let_def
                 onlyAppends_def
           split: if_splits option.splits io_result.splits)

lemma prepare_actual:
  assumes "determineInstallAction meta force st = (action, target, None)"
    and "prepareDirectoryForInstall E target m action st t w = (Inr (p, a, m'), w1)"
  shows "a \<noteq> []"
proof (cases "action = ActionInstallNew")
  case True
  with assms(2) obtain newDirID where
    "ThemeID E (trace w) = Some newDirID" "checkAndCreateDirectory E newDirID (m\<lparr>tm_InstalledAt := t\<rparr>) w =
       (Inr (p, a, m'), w1)"
    by (auto simp: prepareDirectoryForInstall_def split: option.splits)
  then show ?thesis
    by (auto simp: ThemeID_def dest!: checkAndCreateDirectory_Inr Generate_nonempty)
next
  case False
  with assms(1) have "action = ActionOverwrite" "target \<noteq> []"
    by (auto simp: determineInstallAction_def Let_def split: if_splits)
  with assms(2) show ?thesis
    by (auto dest!: prepare_overwrite_Inr)
qed

lemma updateGlobalThemesState_persisted:
  "updateGlobalThemesState E k entry w = (r, w') \<Longrightarrow>
     persisted w' = persisted w \<or> persisted w' = AList.update k entry (persisted w)"
  by (auto simp: updateGlobalThemesState_def LoadStateOp_def SaveStateOp_def
           split: option.splits if_splits)

lemma cleanupNew_persisted: "persisted (cleanupNew E action p w) = persisted w"
  by (simp add: cleanupNew_def perform_def)

lemma themes_Install_persisted:
  assumes "themes_Install E source force w = (r, w')"
  shows "persisted w' = persisted w \<or>
         (\<exists>k entry. k \<noteq> [] \<and> persisted w' = AList.update k entry (persisted w))"
proof (cases "fetchAndValidateDefinition E source w")
  case (Inl err)
  with assms show ?thesis by (simp add: themes_Install_def)
next
  case (Inr x)
  obtain meta0 u l where x: "x = (meta0, u, l)" by (cases x)
  show ?thesis
  proof (cases "LoadStateOp E w")
    case None
    with assms Inr x show ?thesis by (simp add: themes_Install_def)
  next
    case (Some st)
    obtain action target e where a: "determineInstallAction meta0 force st = (action, target, e)"
      by (cases "determineInstallAction meta0 force st")
    show ?thesis
    proof (cases e)
      case (Some err)
      with assms Inr x \<open>LoadStateOp E w = Some st\<close> a show ?thesis
        by (simp add: themes_Install_def)
    next
      case None
      obtain pr w1 where p: "prepareDirectoryForInstall E target
          (meta0\<lparr>tm_LastUpdatedAt := now E (trace w)\<rparr>) action st (now E (trace w)) w = (pr, w1)"
        by (cases "prepareDirectoryForInstall E target
          (meta0\<lparr>tm_LastUpdatedAt := now E (trace w)\<rparr>) action st (now E (trace w)) w")
      from prepare_appends[OF p] have p1: "persisted w1 = persisted w"
        by (simp add: onlyAppends_def)
      show ?thesis
      proof (cases pr)
        case (Inl err)
        with assms Inr x \<open>LoadStateOp E w = Some st\<close> a None p p1 show ?thesis
          by (simp add: themes_Install_def Let_def)
      next
        case (Inr y)
        obtain themePath actual meta where y: "y = (themePath, actual, meta)" by (cases y)
        from prepare_actual[OF a[unfolded None] p[unfolded Inr y]] have ne: "actual \<noteq> []" .
        obtain dr w2 where d: "downloadThemeAssets E themePath meta u l w1 = (dr, w2)"
          by (cases "downloadThemeAssets E themePath meta u l w1")
        from downloadThemeAssets_appends[OF d] p1 have p2: "persisted w2 = persisted w"
          by (simp add: onlyAppends_def)
        obtain wr w3 where wj: "writeLocalThemeJSON E themePath meta w2 = (wr, w3)"
          by (cases "writeLocalThemeJSON E themePath meta w2")
        from writeLocalThemeJSON_appends[OF wj] p2 have p3: "persisted w3 = persisted w"
          by (simp add: onlyAppends_def)
        obtain ur w4 where us: "updateGlobalThemesState E actual
             \<lparr>ThmID = actual, te_Name = tm_Name meta, te_Version = tm_Version meta,
              te_SourceLink = tm_SourceLink meta, te_InstalledAt = tm_InstalledAt meta,
              te_LastUpdatedAt = tm_LastUpdatedAt meta\<rparr> w3 = (ur, w4)"
          by (cases "updateGlobalThemesState E actual
             \<lparr>ThmID = actual, te_Name = tm_Name meta, te_Version = tm_Version meta,
              te_SourceLink = tm_SourceLink meta, te_InstalledAt = tm_InstalledAt meta,
              te_LastUpdatedAt = tm_LastUpdatedAt meta\<rparr> w3")
        from updateGlobalThemesState_persisted[OF us] p3 ne have p4:
          "persisted w4 = persisted w \<or>
           (\<exists>k entry. k \<noteq> [] \<and> persisted w4 = AList.update k entry (persisted w))"
          by auto
        have "w' = cleanupNew E action themePath w2 \<or> w' = cleanupNew E action themePath w3 \<or>
              w' = w4 \<or> w' = discoverThemesLocked E w4"
          using assms \<open>fetchAndValidateDefinition E source w = Inr x\<close> x
            \<open>LoadStateOp E w = Some st\<close> a None p Inr y d wj us
          by (auto simp: themes_Install_def Let_def split: option.splits)
        then have "persisted w' = persisted w2 \<or> persisted w' = persisted w3 \<or>
              persisted w' = persisted w4"
          by (auto simp: cleanupNew_persisted discoverThemesLocked_def)
        with p2 p3 p4 show ?thesis
          by metis
      qed
    qed
  qed
qed

lemma themes_Install_invariant:
  assumes "nonEmptyKeys (persisted w)" and "distinct (map fst (persisted w))"
    and "themes_Install E source force w = (r, w')"
  shows "nonEmptyKeys (persisted w') \<and> distinct (map fst (persisted w'))"
  using themes_Install_persisted[OF assms(3)] assms(1,2)
  by (auto simp: nonEmptyKeys_update distinct_update)

lemma themes_Update_persisted:
  assumes "themes_Update E themeID w = (r, w')"
  shows "persisted w' = persisted w \<or>
         (\<exists>entry. themeID \<in> fst ` set (persisted w) \<and>
                   persisted w' = AList.update themeID entry (persisted w))"
proof (cases "LoadStateOp E w")
  case None
  with assms show ?thesis by (simp add: themes_Update_def)
next
  case (Some st)
  then have st: "st = persisted w" by (rule LoadStateOp_Some)
  show ?thesis
  proof (cases "map_of st themeID")
    case None
    with assms Some show ?thesis by (simp add: themes_Update_def)
  next
    case (Some e)
    then have k: "themeID \<in> fst ` set (persisted w)"
      using st by (metis fst_conv image_eqI map_of_SomeD)
    show ?thesis
    proof (cases "fetchAndValidateDefinition E (te_SourceLink e) w")
      case (Inl err)
      with assms \<open>LoadStateOp E w = Some st\<close> Some show ?thesis
        by (simp add: themes_Update_def split: if_splits)
    next
      case (Inr x)
      obtain latest u l where x: "x = (latest, u, l)" by (cases x)
      have "w' = w \<or> performUpdate E themeID e st latest u l w = (r, w')"
        using assms \<open>LoadStateOp E w = Some st\<close> Some Inr x
        by (auto simp: themes_Update_def reloadLocal_def split: if_splits sum.splits)
      then show ?thesis
      proof
        assume "w' = w"
        then show ?thesis by simp
      next
        assume pu: "performUpdate E themeID e st latest u l w = (r, w')"
        let ?m1 = "latest\<lparr>tm_LastUpdatedAt := now E (trace w),
             tm_InstalledAt := (if te_InstalledAt e \<noteq> [] then te_InstalledAt e
                                else now E (trace w))\<rparr>"
        obtain pr w1 where p: "prepareDirectoryForInstall E themeID ?m1 ActionOverwrite st
            (now E (trace w)) w = (pr, w1)"
          by (cases "prepareDirectoryForInstall E themeID ?m1 ActionOverwrite st
            (now E (trace w)) w")
        from prepare_appends[OF p] have p1: "persisted w1 = persisted w"
          by (simp add: onlyAppends_def)
        show ?thesis
        proof (cases pr)
          case (Inl err)
          with pu p p1 show ?thesis by (simp add: performUpdate_def Let_def)
        next
          case (Inr y)
          obtain themePath actual meta where y: "y = (themePath, actual, meta)" by (cases y)
          obtain dr w2 where d: "downloadThemeAssets E themePath meta u l w1 = (dr, w2)"
            by (cases "downloadThemeAssets E themePath meta u l w1")
          from downloadThemeAssets_appends[OF d] p1 have p2: "persisted w2 = persisted w"
            by (simp add: onlyAppends_def)
          obtain wr w3 where wj: "writeLocalThemeJSON E themePath meta w2 = (wr, w3)"
            by (cases "writeLocalThemeJSON E themePath meta w2")
          from writeLocalThemeJSON_appends[OF wj] p2 have p3: "persisted w3 = persisted w"
            by (simp add: onlyAppends_def)
          obtain ur w4 where us: "updateGlobalThemesState E themeID
               \<lparr>ThmID = themeID, te_Name = tm_Name meta, te_Version = tm_Version meta,
                te_SourceLink = te_SourceLink e, te_InstalledAt = tm_InstalledAt meta,
                te_LastUpdatedAt = tm_LastUpdatedAt meta\<rparr> w3 = (ur, w4)"
            by (cases "updateGlobalThemesState E themeID
               \<lparr>ThmID = themeID, te_Name = tm_Name meta, te_Version = tm_Version meta,
                te_SourceLink = te_SourceLink e, te_InstalledAt = tm_InstalledAt meta,
                te_LastUpdatedAt = tm_LastUpdatedAt meta\<rparr> w3")
          from updateGlobalThemesState_persisted[OF us] p3 have p4:
            "persisted w4 = persisted w \<or>
             (\<exists>entry. persisted w4 = AList.update themeID entry (persisted w))"
            by auto
          have "w' = w2 \<or> w' = w3 \<or> w' = w4 \<or> w' = discoverThemesLocked E w4"
            using pu p Inr y d wj us
            by (auto simp: performUpdate_def Let_def split: option.splits)
          then have "persisted w' = persisted w2 \<or> persisted w' = persisted w3 \<or>
              persisted w' = persisted w4"
            by (auto simp: discoverThemesLocked_def)
          with p2 p3 p4 k show ?thesis
            by metis
        qed
      qed
    qed
  qed
qed

lemma nonEmptyKeys_key: "nonEmptyKeys st \<Longrightarrow> k \<in> fst ` set st \<Longrightarrow> k \<noteq> []"
  by (auto simp: nonEmptyKeys_def list_all_iff)

lemma themes_Update_invariant:
  assumes "nonEmptyKeys (persisted w)" and "distinct (map fst (persisted w))"
    and "themes_Update E themeID w = (r, w')"
  shows "nonEmptyKeys (persisted w') \<and> distinct (map fst (persisted w'))"
proof -
  from themes_Update_persisted[OF assms(3)] consider "persisted w' = persisted w"
    | entry where "themeID \<in> fst ` set (persisted w)"
        "persisted w' = AList.update themeID entry (persisted w)"
    by blast
  then show ?thesis
  proof cases
    case 1
    with assms(1,2) show ?thesis by simp
  next
    case 2
    from nonEmptyKeys_key[OF assms(1) 2(1)] have "themeID \<noteq> []" .
    with 2(2) assms(1,2) show ?thesis
      by (simp add: nonEmptyKeys_update distinct_update)
  qed
qed

lemma themes_Remove_invariant:
  assumes "nonEmptyKeys (persisted w)" and "distinct (map fst (persisted w))"
    and "themes_Remove E themeID w = (r, w')"
  shows "nonEmptyKeys (persisted w') \<and> distinct (map fst (persisted w'))"
proof -
  have "persisted w' = persisted w \<or> persisted w' = AList.delete themeID (persisted w)"
    using assms(3)
    by (auto simp: themes_Remove_def removeEntryFromGlobalState_def deleteThemeDirectory_def
          SaveStateOp_def LoadStateOp_def perform_def discoverThemesLocked_def Let_def
        split: if_splits option.splits io_result.splits)
  with assms(1,2) show ?thesis
    by (auto simp: nonEmptyKeys_delete distinct_delete)
qed

text \<open>The same for the plugin manager.\<close>

lemma downloadPluginFile_appends: "onlyAppends w (downloadPluginFile E p u base w)"
  by (auto simp: downloadPluginFile_def perform_def onlyAppends_def Let_def
           split: option.splits http_response.splits io_result.splits prod.splits)

lemma plugin_download_appends:
  "downloadAndSavePluginStructure E a b c t base w = (r, w') \<Longrightarrow> onlyAppends w w'"
  "downloadPluginItem E a b c n v base w = (r, w') \<Longrightarrow> onlyAppends w w'"
proof (induction E a b c t base w and E a b c n v base w arbitrary: r w' and r w'
       rule: downloadAndSavePluginStructure_downloadPluginItem.induct)
  case (1 E absBaseSavePath baseSavePath currentRelativePath baseURL w)
  then show ?case by (simp add: onlyAppends_refl)
next
  case (2 E absBaseSavePath baseSavePath currentRelativePath name item rest baseURL w)
  obtain r1 w1 where it: "downloadPluginItem E absBaseSavePath baseSavePath currentRelativePath
      name item baseURL w = (r1, w1)"
    by (cases "downloadPluginItem E absBaseSavePath baseSavePath currentRelativePath
      name item baseURL w")
  from 2(1)[OF it] have a1: "onlyAppends w w1" .
  show ?case
  proof (cases r1)
    case None
    with it 2(3) have "downloadAndSavePluginStructure E absBaseSavePath baseSavePath
        currentRelativePath rest baseURL w1 = (r, w')"
      by simp
    from 2(2)[OF it[symmetric] None this] a1 show ?thesis
      by (rule onlyAppends_trans[rotated])
  next
    case (Some err)
    with it 2(3) a1 show ?thesis by simp
  qed
next
  case (3 E absBaseSavePath baseSavePath currentRelativePath name v baseURL w)
  then show ?case using downloadPluginFile_appends by auto
next
  case (4 E absBaseSavePath baseSavePath currentRelativePath name v baseURL w)
  let ?p = "Join E (Join E baseSavePath currentRelativePath) name"
  show ?case
  proof (cases "Abs E ?p")
    case None
    with 4(2) show ?thesis by (simp add: Let_def onlyAppends_refl)
  next
    case (Some absSubDirPath)
    show ?thesis
    proof (cases "outsideBase absSubDirPath absBaseSavePath")
      case True
      with Some 4(2) show ?thesis by (simp add: Let_def onlyAppends_refl)
    next
      case False
      show ?thesis
      proof (cases "io E (trace w) (MkdirAll ?p) = IoOk")
        case True
        have p: "(IoOk, w\<lparr>trace := trace w @ [MkdirAll ?p]\<rparr>) = perform E (MkdirAll ?p) w"
          using True by (simp add: perform_def)
        from Some False True 4(2) have d:
          "downloadAndSavePluginStructure E absBaseSavePath baseSavePath
             (backslashToSlash (Join E currentRelativePath name)) v baseURL
             (w\<lparr>trace := trace w @ [MkdirAll ?p]\<rparr>) = (r, w')"
          by (simp add: Let_def perform_def)
        from 4(1)[OF refl refl Some False p refl d]
        show ?thesis by (auto simp: onlyAppends_def)
      next
        case False
        with Some \<open>\<not> outsideBase absSubDirPath absBaseSavePath\<close> 4(2) show ?thesis
          by (auto simp: Let_def perform_def onlyAppends_def split: io_result.splits)
      qed
    qed
  qed
next
  case (5 E absBaseSavePath baseSavePath currentRelativePath name u c baseURL w)
  then show ?case by (simp add: onlyAppends_refl)
next
  case (6 E absBaseSavePath baseSavePath currentRelativePath name baseURL w)
  then show ?case by (simp add: onlyAppends_refl)
qed

lemma downloadPluginStructure_appends:
  "downloadPluginStructure E p t base w = (r, w') \<Longrightarrow> onlyAppends w w'"
  by (auto simp: downloadPluginStructure_def onlyAppends_refl split: option.splits
           dest: plugin_download_appends(1))

lemma perform_appends: "perform E ev w = (res, w') \<Longrightarrow> onlyAppends w w'"
  by (auto simp: perform_def onlyAppends_def)

lemma SaveStateOp_persisted:
  "SaveStateOp E st w = (b, w') \<Longrightarrow> persisted w' = (if b then st else persisted w)"
  by (auto simp: SaveStateOp_def split: if_splits)

lemma installPluginFiles_persisted:
  assumes "installPluginFiles E action target meta yamlData u l st w = (r, w')"
  shows "persisted w' = persisted w \<or> (\<exists>entry. persisted w' = AList.update target entry st)"
proof -
  let ?p = "Join E defaultPluginsDir target"
  let ?cleanup = "\<lambda>v. if action = ActionInstallNew then snd (perform E (RemoveAll ?p) v) else v"
  have c: "\<And>v. persisted (?cleanup v) = persisted v"
    by (simp add: perform_def)
  show ?thesis
  proof (cases "Abs E defaultPluginsDir")
    case None
    with assms show ?thesis by (simp add: installPluginFiles_def)
  next
    case (Some absPluginDir)
    note s1 = Some
    show ?thesis
    proof (cases "Abs E ?p")
      case None
      with assms s1 show ?thesis by (simp add: installPluginFiles_def Let_def)
    next
      case (Some absTargetPluginPath)
      note s2 = Some
      show ?thesis
      proof (cases "outsideBase absTargetPluginPath absPluginDir")
        case True
        with assms s1 s2 show ?thesis by (simp add: installPluginFiles_def Let_def)
      next
        case False
        obtain res1 w1 where h1:
          "(if action = ActionOverwrite then perform E (RemoveAll ?p) w else (IoOk, w)) = (res1, w1)"
          by (cases "if action = ActionOverwrite then perform E (RemoveAll ?p) w else (IoOk, w)")
        then have p1: "persisted w1 = persisted w"
          by (auto simp: perform_def split: if_splits)
        show ?thesis
        proof (cases "res1 = IoOk")
          case False
          with assms s1 s2 \<open>\<not> outsideBase absTargetPluginPath absPluginDir\<close> h1 have "w' = w1"
            by (cases res1) (simp_all add: installPluginFiles_def Let_def)
          with p1 show ?thesis by simp
        next
          case True
          note r1 = True
          obtain res2 w2 where h2: "perform E (MkdirAll ?p) w1 = (res2, w2)"
            by (cases "perform E (MkdirAll ?p) w1")
          from perform_appends[OF h2] p1 have p2: "persisted w2 = persisted w"
            by (simp add: onlyAppends_def)
          show ?thesis
          proof (cases "res2 = IoOk")
            case False
            with assms s1 s2 \<open>\<not> outsideBase absTargetPluginPath absPluginDir\<close> h1 r1 h2
            have "w' = w2"
              by (cases res2) (simp_all add: installPluginFiles_def Let_def)
            with p2 show ?thesis by simp
          next
            case True
            note r2 = True
            obtain dr w3 where h3: "downloadPluginStructure E ?p (pm_Structure meta)
                (if \<not> l then u else None) w2 = (dr, w3)"
              by (cases "downloadPluginStructure E ?p (pm_Structure meta)
                (if \<not> l then u else None) w2")
            from downloadPluginStructure_appends[OF h3] p2 have p3: "persisted w3 = persisted w"
              by (simp add: onlyAppends_def)
            show ?thesis
            proof (cases dr)
              case (Some err)
              with assms s1 s2 \<open>\<not> outsideBase absTargetPluginPath absPluginDir\<close> h1 r1 h2 r2 h3
              have "w' = ?cleanup w3"
                by (simp add: installPluginFiles_def Let_def)
              with c[of w3] p3 show ?thesis by simp
            next
              case None
              note r3 = None
              obtain res4 w4 where h4:
                "perform E (WriteFile (Join E ?p pluginMetaFile) yamlData) w3 = (res4, w4)"
                by (cases "perform E (WriteFile (Join E ?p pluginMetaFile) yamlData) w3")
              from perform_appends[OF h4] p3 have p4: "persisted w4 = persisted w"
                by (simp add: onlyAppends_def)
              show ?thesis
              proof (cases "res4 = IoOk")
                case False
                with assms s1 s2 \<open>\<not> outsideBase absTargetPluginPath absPluginDir\<close>
                  h1 r1 h2 r2 h3 r3 h4
                have "w' = ?cleanup w4"
                  by (cases res4) (simp_all add: installPluginFiles_def Let_def)
                with c[of w4] p4 show ?thesis by simp
              next
                case True
                let ?entry = "\<lparr>PlgID = target, pe_Name = pm_Name meta,
                    pe_Version = pm_Version meta, pe_SourceLink = pm_SourceLink meta\<rparr>"
                obtain b w5 where h5: "SaveStateOp E (AList.update target ?entry st) w4 = (b, w5)"
                  by (cases "SaveStateOp E (AList.update target ?entry st) w4")
                with assms s1 s2 \<open>\<not> outsideBase absTargetPluginPath absPluginDir\<close>
                  h1 r1 h2 r2 h3 r3 h4 True
                have "w' = w5"
                  by (cases b) (simp_all add: installPluginFiles_def Let_def)
                with SaveStateOp_persisted[OF h5] p4 show ?thesis
                  by (cases b) auto
              qed
            qed
          qed
        qed
      qed
    qed
  qed
qed

lemma InstallPlugin_persisted:
  assumes "InstallPlugin E source force w = (r, w')"
  shows "persisted w' = persisted w \<or>
         (\<exists>k entry. k \<noteq> [] \<and> persisted w' = AList.update k entry (persisted w))"
proof (cases "fetchPluginYAML E source w")
  case (Inl err)
  with assms show ?thesis by (simp add: InstallPlugin_def)
next
  case (Inr x)
  obtain yamlData u l where x: "x = (yamlData, u, l)" by (cases x)
  show ?thesis
  proof (cases "yamlUnmarshal E yamlData")
    case None
    with assms Inr x show ?thesis by (simp add: InstallPlugin_def)
  next
    case (Some meta)
    note m = Some
    show ?thesis
    proof (cases "plugins_Validate (ParseRequestURI E) meta")
      case (Some err)
      with assms Inr x m show ?thesis by (simp add: InstallPlugin_def)
    next
      case None
      note v = None
      show ?thesis
      proof (cases "LoadStateOp E w")
        case None
        with assms Inr x m v show ?thesis by (simp add: InstallPlugin_def)
      next
        case (Some st)
        then have st: "st = persisted w" by (rule LoadStateOp_Some)
        from v have sl: "pm_SourceLink meta \<noteq> []" by (rule plugins_Validate_SourceLink)
        show ?thesis
        proof (cases "pluginExactMatchDir meta st \<noteq> []")
          case True
          note em = True
          show ?thesis
          proof (cases force)
            case False
            with assms Inr x m v Some sl em show ?thesis
              by (simp add: InstallPlugin_def Let_def)
          next
            case True
            with assms Inr x m v Some sl em have
              "installPluginFiles E ActionOverwrite (pluginExactMatchDir meta st) meta yamlData
                 u l st w = (r, w')"
              by (simp add: InstallPlugin_def Let_def)
            from installPluginFiles_persisted[OF this] em st show ?thesis by auto
          qed
        next
          case False
          show ?thesis
          proof (cases "PluginID E (trace w)")
            case None
            with assms Inr x m v Some sl False show ?thesis
              by (simp add: InstallPlugin_def Let_def)
          next
            case (Some newDirID)
            then have ne: "newDirID \<noteq> []"
              by (auto simp: PluginID_def dest: Generate_nonempty)
            from assms Inr x m v \<open>LoadStateOp E w = Some st\<close> sl False Some have
              "installPluginFiles E ActionInstallNew newDirID meta yamlData u l st w = (r, w')"
              by (simp add: InstallPlugin_def Let_def)
            from installPluginFiles_persisted[OF this] ne st show ?thesis by auto
          qed
        qed
      qed
    qed
  qed
qed

lemma InstallPlugin_invariant:
  assumes "nonEmptyKeys (persisted w)" and "distinct (map fst (persisted w))"
    and "InstallPlugin E source force w = (r, w')"
  shows "nonEmptyKeys (persisted w') \<and> distinct (map fst (persisted w'))"
  using InstallPlugin_persisted[OF assms(3)] assms(1,2)
  by (auto simp: nonEmptyKeys_update distinct_update)

lemma performPluginUpdate_persisted:
  assumes "performPluginUpdate E pluginID currentEntry latestMeta yamlData u l st w = (r, w')"
  shows "persisted w' = persisted w \<or> (\<exists>entry. persisted w' = AList.update pluginID entry st)"
proof -
  let ?p = "Join E defaultPluginsDir pluginID"
  show ?thesis
  proof (cases "Abs E defaultPluginsDir")
    case None
    with assms show ?thesis by (simp add: performPluginUpdate_def)
  next
    case (Some absPluginDir)
    note s1 = Some
    show ?thesis
    proof (cases "Abs E ?p")
      case None
      with assms s1 show ?thesis by (simp add: performPluginUpdate_def Let_def)
    next
      case (Some absTargetPluginPath)
      note s2 = Some
      show ?thesis
      proof (cases "outsideBase absTargetPluginPath absPluginDir")
        case True
        with assms s1 s2 show ?thesis by (simp add: performPluginUpdate_def Let_def)
      next
        case False
        note ob = False
        obtain res1 w1 where h1: "perform E (RemoveAll ?p) w = (res1, w1)"
          by (cases "perform E (RemoveAll ?p) w")
        from perform_appends[OF h1] have p1: "persisted w1 = persisted w"
          by (simp add: onlyAppends_def)
        show ?thesis
        proof (cases "res1 = IoOk")
          case False
          with assms s1 s2 ob h1 have "w' = w1"
            by (cases res1) (simp_all add: performPluginUpdate_def Let_def)
          with p1 show ?thesis by simp
        next
          case True
          note r1 = True
          obtain res2 w2 where h2: "perform E (MkdirAll ?p) w1 = (res2, w2)"
            by (cases "perform E (MkdirAll ?p) w1")
          from perform_appends[OF h2] p1 have p2: "persisted w2 = persisted w"
            by (simp add: onlyAppends_def)
          show ?thesis
          proof (cases "res2 = IoOk")
            case False
            with assms s1 s2 ob h1 r1 h2 have "w' = w2"
              by (cases res2) (simp_all add: performPluginUpdate_def Let_def)
            with p2 show ?thesis by simp
          next
            case True
            note r2 = True
            obtain dr w3 where h3: "downloadPluginStructure E ?p (pm_Structure latestMeta)
                (if \<not> l then u else None) w2 = (dr, w3)"
              by (cases "downloadPluginStructure E ?p (pm_Structure latestMeta)
                (if \<not> l then u else None) w2")
            from downloadPluginStructure_appends[OF h3] p2 have p3: "persisted w3 = persisted w"
              by (simp add: onlyAppends_def)
            show ?thesis
            proof (cases dr)
              case (Some err)
              with assms s1 s2 ob h1 r1 h2 r2 h3 have "w' = w3"
                by (simp add: performPluginUpdate_def Let_def)
              with p3 show ?thesis by simp
            next
              case None
              note r3 = None
              obtain res4 w4 where h4:
                "perform E (WriteFile (Join E ?p pluginMetaFile) yamlData) w3 = (res4, w4)"
                by (cases "perform E (WriteFile (Join E ?p pluginMetaFile) yamlData) w3")
              from perform_appends[OF h4] p3 have p4: "persisted w4 = persisted w"
                by (simp add: onlyAppends_def)
              show ?thesis
              proof (cases "res4 = IoOk")
                case False
                with assms s1 s2 ob h1 r1 h2 r2 h3 r3 h4 have "w' = w4"
                  by (cases res4) (simp_all add: performPluginUpdate_def Let_def)
                with p4 show ?thesis by simp
              next
                case True
                let ?entry = "\<lparr>PlgID = pluginID, pe_Name = pm_Name latestMeta,
                    pe_Version = pm_Version latestMeta, pe_SourceLink = pe_SourceLink currentEntry\<rparr>"
                obtain b w5 where h5: "SaveStateOp E (AList.update pluginID ?entry st) w4 = (b, w5)"
                  by (cases "SaveStateOp E (AList.update pluginID ?entry st) w4")
                with assms s1 s2 ob h1 r1 h2 r2 h3 r3 h4 True have "w' = w5"
                  by (simp add: performPluginUpdate_def Let_def)
                with SaveStateOp_persisted[OF h5] p4 show ?thesis
                  by (cases b) auto
              qed
            qed
          qed
        qed
      qed
    qed
  qed
qed

lemma UpdatePlugin_persisted:
  assumes "UpdatePlugin E pluginID w = (r, w')"
  shows "persisted w' = persisted w \<or>
         (\<exists>entry. pluginID \<in> fst ` set (persisted w) \<and>
                   persisted w' = AList.update pluginID entry (persisted w))"
proof (cases "LoadStateOp E w")
  case None
  with assms show ?thesis by (simp add: UpdatePlugin_def)
next
  case (Some st)
  then have st: "st = persisted w" by (rule LoadStateOp_Some)
  show ?thesis
  proof (cases "map_of st pluginID")
    case None
    with assms Some show ?thesis by (simp add: UpdatePlugin_def)
  next
    case (Some e)
    then have k: "pluginID \<in> fst ` set (persisted w)"
      using st by (metis fst_conv image_eqI map_of_SomeD)
    have "w' = w \<or> (\<exists>latestMeta yamlData u l.
            performPluginUpdate E pluginID e latestMeta yamlData u l st w = (r, w'))"
      using assms \<open>LoadStateOp E w = Some st\<close> Some
      by (auto simp: UpdatePlugin_def split: sum.splits option.splits if_splits)
    then show ?thesis
      using performPluginUpdate_persisted k st by blast
  qed
qed

lemma UpdatePlugin_invariant:
  assumes "nonEmptyKeys (persisted w)" and "distinct (map fst (persisted w))"
    and "UpdatePlugin E pluginID w = (r, w')"
  shows "nonEmptyKeys (persisted w') \<and> distinct (map fst (persisted w'))"
proof -
  from UpdatePlugin_persisted[OF assms(3)] consider "persisted w' = persisted w"
    | entry where "pluginID \<in> fst ` set (persisted w)"
        "persisted w' = AList.update pluginID entry (persisted w)"
    by blast
  then show ?thesis
  proof cases
    case 1
    with assms(1,2) show ?thesis by simp
  next
    case 2
    from nonEmptyKeys_key[OF assms(1) 2(1)] have "pluginID \<noteq> []" .
    with 2(2) assms(1,2) show ?thesis
      by (simp add: nonEmptyKeys_update distinct_update)
  qed
qed

lemma RemovePlugin_invariant:
  assumes "nonEmptyKeys (persisted w)" and "distinct (map fst (persisted w))"
    and "RemovePlugin E pluginID w = (r, w')"
  shows "nonEmptyKeys (persisted w') \<and> distinct (map fst (persisted w'))"
proof -
  have "persisted w' = persisted w \<or> persisted w' = AList.delete pluginID (persisted w)"
    using assms(3)
    by (auto simp: RemovePlugin_def SaveStateOp_def LoadStateOp_def perform_def Let_def
        split: if_splits option.splits io_result.splits)
  with assms(1,2) show ?thesis
    by (auto simp: nonEmptyKeys_delete distinct_delete)
qed

lemma length_exBigBody: "length exBigBody = 2 ^ 20 + 1"
  by (simp add: exBigBody_def)

text \<open>
  The plugin manager tests \<^verbatim>\<open>limitedReader.N == 0\<close>: a body of exactly 1 MiB is refused as
  exceeding the maximum.
\<close>

lemma fetchPluginYAML_exactly_at_cap:
  assumes "ParseRequestURI E source = Some u" and "Scheme u = ''http'' \<or> Scheme u = ''https''"
    and "httpGet E (trace w) (url_String u) = HttpResponse 200 body True"
    and "length body = maxYAMLSize"
  shows "fetchPluginYAML E source w = Inl (FetchTooLarge (url_String u) maxYAMLSize)"
  using assms by (auto simp: fetchPluginYAML_def Let_def)

text \<open>
  C8. A plugin manifest fetched from an http or https URL that answers with status 200:
  a body of more than 1 MiB makes the fetch fail with the size error, and a body of less
  than 1 MiB that is read to its end is returned whole. The theme manager's fetch of a
  manifest and the command manager's fetch of a script apply no cap: a body of any size
  that is read to its end is returned whole.
\<close>

theorem C8_manifest_size_cap:
  "(ParseRequestURI E source = Some u \<longrightarrow> (Scheme u = ''http'' \<or> Scheme u = ''https'') \<longrightarrow>
    httpGet E (trace w) (url_String u) = HttpResponse 200 body readOk \<longrightarrow>
      (2 ^ 20 < length body \<longrightarrow>
         fetchPluginYAML E source w = Inl (FetchTooLarge (url_String u) (2 ^ 20))) \<and>
      (length body < 2 ^ 20 \<longrightarrow> readOk \<longrightarrow>
         fetchPluginYAML E source w = Inr (body, Some u, False)) \<and>
      (readOk \<longrightarrow> fetchCommand E source w = Inr body)) \<and>
   (isHTTP (Parse E source) \<longrightarrow> httpGet E (trace w) source = HttpResponse 200 body True \<longrightarrow>
      fetchThemeYAML E source w = Inr (body, Parse E source, False))"
  by (auto simp: fetchPluginYAML_def fetchCommand_def fetchThemeYAML_def maxYAMLSize_def Let_def)

theorem C8_witness:
  "fetchPluginYAML (exBigSys Map.empty () :: plugins_sys) ''https://example.com/plugin.yaml''
     \<lparr>trace = [], persisted = [], cache = ()\<rparr> =
     Inl (FetchTooLarge ''https://example.com/plugin.yaml'' (2 ^ 20)) \<and>
   fetchPluginYAML (exPluginSys ''index.html'') ''https://example.com/plugin.yaml''
     \<lparr>trace = [], persisted = [], cache = ()\<rparr> =
     Inr (''manifest'', exParseURL ''https://example.com/plugin.yaml'', False) \<and>
   fetchCommand (exPluginSys ''index.html'') ''https://example.com/run.sh''
     \<lparr>trace = [], persisted = [], cache = ()\<rparr> = Inr ''script'' \<and>
   fetchThemeYAML (exThemeSys ''index.html'' exSum) ''https://example.com/theme.yaml''
     \<lparr>trace = [], persisted = [], cache = []\<rparr> =
     Inr (''manifest'', exParseURL ''https://example.com/theme.yaml'', False)"
proof -
  let ?u = "\<lambda>s. \<lparr>Scheme = ''https'', Host = ''example.com'', url_String = s\<rparr>"
  let ?wp = "\<lparr>trace = [], persisted = [], cache = ()\<rparr> :: plugins_world"
  let ?wt = "\<lparr>trace = [], persisted = [], cache = []\<rparr> :: themes_world"
  have u: "\<And>s. s \<in> set exURLs \<Longrightarrow> exParseURL s = Some (?u s)"
    by (simp add: exParseURL_def)
  have m: "''https://example.com/plugin.yaml'' \<in> set exURLs"
    "''https://example.com/run.sh'' \<in> set exURLs"
    "''https://example.com/theme.yaml'' \<in> set exURLs"
    by (simp_all add: exURLs_def)
  have a: "fetchPluginYAML (exBigSys Map.empty () :: plugins_sys) ''https://example.com/plugin.yaml'' ?wp =
      Inl (FetchTooLarge ''https://example.com/plugin.yaml'' (2 ^ 20))"
    using C8_manifest_size_cap[of "exBigSys Map.empty () :: plugins_sys" "''https://example.com/plugin.yaml''"
        "?u ''https://example.com/plugin.yaml''" ?wp exBigBody True]
    by (simp add: exBigSys_def u[OF m(1)] length_exBigBody)
  have b: "fetchPluginYAML (exPluginSys ''index.html'') ''https://example.com/plugin.yaml'' ?wp =
      Inr (''manifest'', exParseURL ''https://example.com/plugin.yaml'', False)"
    using C8_manifest_size_cap[of "exPluginSys ''index.html''" "''https://example.com/plugin.yaml''"
        "?u ''https://example.com/plugin.yaml''" ?wp "''manifest''" True]
    by (simp add: u[OF m(1)] exGet_def)
  have c: "fetchCommand (exPluginSys ''index.html'') ''https://example.com/run.sh'' ?wp =
      Inr ''script''"
    using C8_manifest_size_cap[of "exPluginSys ''index.html''" "''https://example.com/run.sh''"
        "?u ''https://example.com/run.sh''" ?wp "''script''" True]
    by (simp add: u[OF m(2)] exGet_def)
  have d: "fetchThemeYAML (exThemeSys ''index.html'' exSum) ''https://example.com/theme.yaml'' ?wt =
      Inr (''manifest'', exParseURL ''https://example.com/theme.yaml'', False)"
    using C8_manifest_size_cap[of "exThemeSys ''index.html'' exSum"
        "''https://example.com/theme.yaml''" _ ?wt "''manifest''" _]
    by (simp add: u[OF m(3)] exGet_def isHTTP_def)
  from a b c d show ?thesis by blast
qed

text \<open>The theme manager returns a manifest of more than 1 MiB.\<close>

theorem C8_counterexample:
  "2 ^ 20 < length exBigBody \<and>
   fetchThemeYAML (exBigSys Map.empty [] :: themes_sys) ''https://example.com/theme.yaml''
     \<lparr>trace = [], persisted = [], cache = []\<rparr> =
     Inr (exBigBody, exParseURL ''https://example.com/theme.yaml'', False)"
  by (simp add: length_exBigBody fetchThemeYAML_def exBigSys_def isHTTP_def exParseURL_def
        exURLs_def)

lemmas command_ex_simps = exCommand_def exCommandEntry_def exCommandWorld_def

lemma themes_Remove_order:
  assumes "LoadStateOp E w = Some st" and "map_of st themeID = Some e"
    and "themes_Remove E themeID w = (r, w')"
  shows "trace w' = trace w @ [SaveState (AList.delete themeID st)] \<and> r \<noteq> None \<or>
         trace w' = trace w @ [SaveState (AList.delete themeID st),
                               RemoveAll (Join E defaultThemeDir themeID)] \<and>
         persisted w' = AList.delete themeID st"
  using assms
  by (auto simp: themes_Remove_def removeEntryFromGlobalState_def deleteThemeDirectory_def
        SaveStateOp_def perform_def discoverThemesLocked_def Let_def
      split: if_splits option.splits io_result.splits)

lemma RemovePlugin_order:
  assumes "LoadStateOp E w = Some st" and "map_of st pluginID = Some e"
    and "RemovePlugin E pluginID w = (r, w')"
  shows "trace w' = trace w \<and> r \<noteq> None \<or>
         trace w' = trace w @ [RemoveAll (Join E defaultPluginsDir pluginID)] \<and> r \<noteq> None \<or>
         trace w' = trace w @ [RemoveAll (Join E defaultPluginsDir pluginID),
                               SaveState (AList.delete pluginID st)]"
  using assms
  by (auto simp: RemovePlugin_def SaveStateOp_def perform_def Let_def
      split: if_splits option.splits io_result.splits)

lemma RemoveCommand_order:
  assumes "map_of (cache w) commandName = Some meta" and "LoadStateOp E w = Some st"
    and "map_of st (Base E (FilePath meta)) = Some e"
    and "RemoveCommand E commandName w = (r, w')"
  shows "trace w' = trace w \<and> r \<noteq> Deadlock \<or>
         trace w' = trace w @ [Remove (FilePath meta)] \<and> r \<noteq> Deadlock \<or>
         trace w' = trace w @ [Remove (FilePath meta),
                               SaveState (AList.delete (Base E (FilePath meta)) st)]"
  using assms
  by (auto simp: RemoveCommand_def SaveStateOp_def perform_def Let_def
      split: if_splits option.splits io_result.splits)

text \<open>
  C2. The removal of an installed extension, by the operations it performs. The theme
  manager saves the state without the entry first and removes the directory after, and
  only when the state was saved. The plugin manager removes the directory first and
  saves the state without the entry after; the command manager removes the script file
  first and saves the state after. In each, a call that ends without error (for the
  command manager: a call that reaches the refresh of the cache) has performed both
  operations, in that order.
\<close>

theorem C2_remove_order:
  "(LoadStateOp E w = Some st \<longrightarrow> map_of st themeID = Some e \<longrightarrow>
    themes_Remove E themeID w = (r, w') \<longrightarrow>
      (trace w' = trace w @ [SaveState (AList.delete themeID st)] \<and> r \<noteq> None \<or>
       trace w' = trace w @ [SaveState (AList.delete themeID st),
                             RemoveAll (Join E defaultThemeDir themeID)] \<and>
       persisted w' = AList.delete themeID st)) \<and>
   (LoadStateOp Ep wp = Some pst \<longrightarrow> map_of pst pluginID = Some pe \<longrightarrow>
    RemovePlugin Ep pluginID wp = (rp, wp') \<longrightarrow>
      (trace wp' = trace wp \<and> rp \<noteq> None \<or>
       trace wp' = trace wp @ [RemoveAll (Join Ep defaultPluginsDir pluginID)] \<and> rp \<noteq> None \<or>
       trace wp' = trace wp @ [RemoveAll (Join Ep defaultPluginsDir pluginID),
                               SaveState (AList.delete pluginID pst)])) \<and>
   (map_of (cache wc) commandName = Some cmeta \<longrightarrow> LoadStateOp Ec wc = Some cst \<longrightarrow>
    map_of cst (Base Ec (FilePath cmeta)) = Some ce \<longrightarrow>
    RemoveCommand Ec commandName wc = (rc, wc') \<longrightarrow>
      (trace wc' = trace wc \<and> rc \<noteq> Deadlock \<or>
       trace wc' = trace wc @ [Remove (FilePath cmeta)] \<and> rc \<noteq> Deadlock \<or>
       trace wc' = trace wc @ [Remove (FilePath cmeta),
                               SaveState (AList.delete (Base Ec (FilePath cmeta)) cst)]))"
  using themes_Remove_order[of E w st themeID e r w']
    RemovePlugin_order[of Ep wp pst pluginID pe rp wp']
    RemoveCommand_order[of wc commandName cmeta Ec cst ce rc wc']
  by blast

lemma ex_themes_Remove:
  "themes_Remove (exThemeSys ''index.html'' exSum) ''thm_a'' (exThemeWorld ''thm_a'' ''1.0.0'') =
     (None, \<lparr>trace = [SaveState [], RemoveAll ''ext/themes/thm_a''], persisted = [], cache = []\<rparr>)"
  by (simp add: themes_Remove_def removeEntryFromGlobalState_def deleteThemeDirectory_def
        world_simps discoverThemesLocked_def defaultThemeDir_def exThemeWorld_def HasPrefix_def
        Let_def)

lemma ex_RemovePlugin:
  "RemovePlugin (exPluginSys ''index.html'') ''plg_a'' (exPluginWorld ''plg_a'' ''1.0.0'') =
     (None, \<lparr>trace = [RemoveAll ''ext/plugins/plg_a'', SaveState []], persisted = [],
             cache = ()\<rparr>)"
  by (simp add: RemovePlugin_def world_simps defaultPluginsDir_def exPluginWorld_def
        HasPrefix_def Let_def)

lemma ex_Base: "exBase ''ext/commands/run.sh'' = ''run.sh''"
  by (simp add: exBase_def)

lemma ex_RemoveCommand:
  "RemoveCommand exCommandSys ''run'' (exCommandWorld ''run.sh'' ''https://example.com/run.sh'') =
     (Deadlock, \<lparr>trace = [Remove ''ext/commands/run.sh'', SaveState []], persisted = [],
                 cache = [(''run'', exCommand)]\<rparr>)"
  by (simp add: RemoveCommand_def world_simps defaultCommandDir_def exCommandWorld_def
        exCommand_def ex_Base HasPrefix_def Let_def)

theorem C2_witness:
  "trace (snd (themes_Remove (exThemeSys ''index.html'' exSum) ''thm_a''
                 (exThemeWorld ''thm_a'' ''1.0.0''))) =
     [SaveState [], RemoveAll ''ext/themes/thm_a''] \<and>
   trace (snd (RemovePlugin (exPluginSys ''index.html'') ''plg_a''
                 (exPluginWorld ''plg_a'' ''1.0.0''))) =
     [RemoveAll ''ext/plugins/plg_a'', SaveState []] \<and>
   trace (snd (RemoveCommand exCommandSys ''run''
                 (exCommandWorld ''run.sh'' ''https://example.com/run.sh''))) =
     [Remove ''ext/commands/run.sh'', SaveState []]"
  using C2_remove_order[of "exThemeSys ''index.html'' exSum" "exThemeWorld ''thm_a'' ''1.0.0''"
      "[(''thm_a'', exThemeEntry ''thm_a'' ''1.0.0'')]" "''thm_a''"
      "exThemeEntry ''thm_a'' ''1.0.0''" None
      "\<lparr>trace = [SaveState [], RemoveAll ''ext/themes/thm_a''], persisted = [], cache = []\<rparr>"
      "exPluginSys ''index.html''" "exPluginWorld ''plg_a'' ''1.0.0''"
      "[(''plg_a'', exPluginEntry ''plg_a'' ''1.0.0'')]" "''plg_a''"
      "exPluginEntry ''plg_a'' ''1.0.0''" None
      "\<lparr>trace = [RemoveAll ''ext/plugins/plg_a'', SaveState []], persisted = [], cache = ()\<rparr>"
      "exCommandWorld ''run.sh'' ''https://example.com/run.sh''" "''run''" exCommand
      exCommandSys "[(''run.sh'', exCommandEntry ''run.sh'' ''https://example.com/run.sh'')]"
      "exCommandEntry ''run.sh'' ''https://example.com/run.sh''" Deadlock
      "\<lparr>trace = [Remove ''ext/commands/run.sh'', SaveState []], persisted = [],
        cache = [(''run'', exCommand)]\<rparr>"]
  by (simp add: ex_themes_Remove ex_RemovePlugin ex_RemoveCommand ex_load)

text \<open>
  The plugin manager and the command manager delete from the disk before they write the
  state file.
\<close>

theorem C2_counterexample:
  "map_of (persisted (exPluginWorld ''plg_a'' ''1.0.0'')) ''plg_a'' =
     Some (exPluginEntry ''plg_a'' ''1.0.0'') \<and>
   RemovePlugin (exPluginSys ''index.html'') ''plg_a'' (exPluginWorld ''plg_a'' ''1.0.0'') =
     (None, \<lparr>trace = [RemoveAll ''ext/plugins/plg_a'', SaveState []], persisted = [],
             cache = ()\<rparr>) \<and>
   map_of (cache (exCommandWorld ''run.sh'' ''https://example.com/run.sh'')) ''run'' =
     Some exCommand \<and>
   trace (snd (RemoveCommand exCommandSys ''run''
                 (exCommandWorld ''run.sh'' ''https://example.com/run.sh''))) =
     [Remove ''ext/commands/run.sh'', SaveState []]"
  by (simp add: ex_RemovePlugin ex_RemoveCommand) (simp add: exPluginWorld_def exCommandWorld_def)

end
